theory Spec2Isabelle
  imports Complex_Main "HOL-Library.AList" "HOL-Library.Sublist" "HOL-Library.Word"
begin

section \<open>Decoded JSON and the unified schema (pkg/types)\<close>

text \<open>
  Go's \<^verbatim>\<open>any\<close> holds decoded JSON wherever this library reads it (tool inputs, schema
  maps).  A decoded value is \<^verbatim>\<open>nil\<close>, a bool, a float64, a string, a \<^verbatim>\<open>[]any\<close> or a
  \<^verbatim>\<open>map[string]any\<close>.  A Go map is unordered with distinct keys; it is modelled as an
  association list that is read with \<^const>\<open>map_of\<close> and written with
  \<^const>\<open>AList.update\<close>.  Strings are byte lists, as in Go.
\<close>

datatype json =
    JNull
  | JBool bool
  | JNum real
  | JStr string
  | JArr "json list"
  | JObj "(string \<times> json) list"

type_synonym jmap = "(string \<times> json) list"

text \<open>A \<^verbatim>\<open>float64\<close> that the caller supplies is a finite number, a NaN or an
  infinity.\<close>

datatype float64 = Finite real | NaN | PosInf | NegInf

text \<open>An \<^verbatim>\<open>any\<close> that the caller supplies (an enum literal, a constant, a default) is
  the nil interface, a Go string, another value that \<^verbatim>\<open>json.Marshal\<close> encodes, given by
  the value that \<^verbatim>\<open>json.Unmarshal\<close> reads back from its encoding, or a value that
  \<^verbatim>\<open>json.Marshal\<close> rejects (a channel, a function, a NaN, a map with such a member).\<close>

datatype any_value =
    NilValue
  | StringValue string
  | Encodes json
  | Unencodable

text \<open>\<^verbatim>\<open>types.JSONSchema\<close>: pointers are options and maps are association lists.\<close>

datatype JSONSchema = JSONSchema
  (s_Type: string)
  (s_Description: string)
  (s_Properties: "(string \<times> JSONSchema) list")
  (s_Items: "JSONSchema option")
  (s_Required: "string list")
  (s_Enum: "any_value list")
  (s_Const: any_value)
  (s_AdditionalProperties: "bool option")
  (s_MinItems: "int option")
  (s_MaxItems: "int option")
  (s_Minimum: "float64 option")
  (s_Maximum: "float64 option")
  (s_MinLength: "int option")
  (s_MaxLength: "int option")
  (s_Pattern: string)
  (s_Format: string)
  (s_Default: any_value)
  (s_AnyOf: "JSONSchema list")
  (s_OneOf: "JSONSchema list")
  (s_AllOf: "JSONSchema list")
  (s_Ref: string)
  (s_Defs: "(string \<times> JSONSchema) list")

subsection \<open>What a round trip through \<^verbatim>\<open>encoding/json\<close> does to a value\<close>

text \<open>\<^verbatim>\<open>JSONSchema.ToMap\<close> marshals the struct and unmarshals the text into a
  \<^verbatim>\<open>map[string]any\<close>.  The functions of this subsection give, for each kind of field,
  the decoded value that comes back.

  A string comes back with every byte that is not part of a valid UTF-8 sequence replaced
  by U+FFFD: the encoder writes the escape of U+FFFD for it.  \<open>rune_len\<close> is the length of the
  valid sequence at the head of a string, 0 when there is none, after the table of
  \<^verbatim>\<open>unicode/utf8\<close>.\<close>

definition octet_in :: "nat \<Rightarrow> nat \<Rightarrow> char \<Rightarrow> bool" where
  "octet_in lo hi c \<longleftrightarrow> lo \<le> (of_char c :: nat) \<and> (of_char c :: nat) \<le> hi"

fun continuations :: "nat \<Rightarrow> string \<Rightarrow> bool" where
  "continuations 0 s = True"
| "continuations (Suc n) [] = False"
| "continuations (Suc n) (c # s) = (octet_in 0x80 0xBF c \<and> continuations n s)"

fun followed_by :: "nat \<Rightarrow> nat \<Rightarrow> nat \<Rightarrow> string \<Rightarrow> bool" where
  "followed_by lo hi n [] = False"
| "followed_by lo hi n (c # s) = (octet_in lo hi c \<and> continuations n s)"

definition rune_len :: "char \<Rightarrow> string \<Rightarrow> nat" where
  "rune_len c s =
     (if octet_in 0x00 0x7F c then 1
      else if octet_in 0xC2 0xDF c then (if followed_by 0x80 0xBF 0 s then 2 else 0)
      else if octet_in 0xE0 0xE0 c then (if followed_by 0xA0 0xBF 1 s then 3 else 0)
      else if octet_in 0xED 0xED c then (if followed_by 0x80 0x9F 1 s then 3 else 0)
      else if octet_in 0xE1 0xEF c then (if followed_by 0x80 0xBF 1 s then 3 else 0)
      else if octet_in 0xF0 0xF0 c then (if followed_by 0x90 0xBF 2 s then 4 else 0)
      else if octet_in 0xF1 0xF3 c then (if followed_by 0x80 0xBF 2 s then 4 else 0)
      else if octet_in 0xF4 0xF4 c then (if followed_by 0x80 0x8F 2 s then 4 else 0)
      else 0)"

text \<open>\<open>coerce_from k s\<close> copies the next \<open>k\<close> bytes, which belong to a sequence already
  found valid, and examines the rest.\<close>

fun coerce_from :: "nat \<Rightarrow> string \<Rightarrow> string" where
  "coerce_from k [] = []"
| "coerce_from (Suc k) (c # s) = c # coerce_from k s"
| "coerce_from 0 (c # s) =
     (case rune_len c s of
        0 \<Rightarrow> [CHR 0xEF, CHR 0xBF, CHR 0xBD] @ coerce_from 0 s
      | Suc n \<Rightarrow> c # coerce_from n s)"

definition coerce_utf8 :: "string \<Rightarrow> string" where
  "coerce_utf8 s = coerce_from 0 s"

text \<open>An \<^verbatim>\<open>int\<close> is written in decimal and read back as the nearest \<^verbatim>\<open>float64\<close>, ties
  to even: above 53 bits the low bits are rounded away.\<close>

function excess_bits :: "int \<Rightarrow> nat" where
  "excess_bits a = (if a < 2 ^ 53 then 0 else Suc (excess_bits (a div 2)))"
  by pat_completeness auto
termination
  by (relation "measure nat") auto

declare excess_bits.simps [simp del]

definition float64_of_int :: "int \<Rightarrow> real" where
  "float64_of_int x =
     (let a = \<bar>x\<bar>;
          d = excess_bits a;
          q = a div 2 ^ d;
          r = a mod 2 ^ d;
          q' = (if 2 ^ d < 2 * r \<or> (2 * r = 2 ^ d \<and> odd q) then q + 1 else q)
      in of_int (sgn x * (q' * 2 ^ d)))"

text \<open>A map is written with its keys in byte order and read back key by key, so that of
  two keys that are coerced to the same name the greater one stays.  The entries are
  therefore taken in descending order of the original keys, and of the entries with one
  name the first is kept.\<close>

fun bytes_less :: "string \<Rightarrow> string \<Rightarrow> bool" where
  "bytes_less s [] = False"
| "bytes_less [] (d # t) = True"
| "bytes_less (c # s) (d # t) =
     ((of_char c :: nat) < of_char d \<or> (c = d \<and> bytes_less s t))"

fun insert_descending :: "string \<times> 'a \<Rightarrow> (string \<times> 'a) list \<Rightarrow> (string \<times> 'a) list" where
  "insert_descending kv [] = [kv]"
| "insert_descending kv (x # xs) =
     (if bytes_less (fst kv) (fst x) then x # insert_descending kv xs else kv # x # xs)"

definition descending :: "(string \<times> 'a) list \<Rightarrow> (string \<times> 'a) list" where
  "descending m = foldr insert_descending m []"

definition decoded_members :: "(string \<times> json) list \<Rightarrow> jmap" where
  "decoded_members m =
     AList.clearjunk (map (\<lambda>kv. (coerce_utf8 (fst kv), snd kv)) (descending (AList.clearjunk m)))"

text \<open>Whether \<^verbatim>\<open>json.Marshal\<close> accepts a bound and an \<^verbatim>\<open>any\<close>, and what comes
  back.\<close>

definition float_encodable :: "float64 option \<Rightarrow> bool" where
  "float_encodable f \<longleftrightarrow> (case f of Some (Finite r) \<Rightarrow> True | Some _ \<Rightarrow> False | None \<Rightarrow> True)"

definition any_encodable :: "any_value \<Rightarrow> bool" where
  "any_encodable v \<longleftrightarrow> v \<noteq> Unencodable"

definition decoded_any :: "any_value \<Rightarrow> json" where
  "decoded_any v =
     (case v of NilValue \<Rightarrow> JNull | StringValue s \<Rightarrow> JStr (coerce_utf8 s) | Encodes w \<Rightarrow> w
      | Unencodable \<Rightarrow> JNull)"

text \<open>The \<^verbatim>\<open>omitempty\<close> rule of \<^verbatim>\<open>encoding/json\<close>, one helper per field kind: a field
  is left out when it is the empty string, a nil pointer, a nil interface, or an empty
  slice or map.\<close>

definition omit_string :: "string \<Rightarrow> string \<Rightarrow> jmap" where
  "omit_string k s = (if s = [] then [] else [(k, JStr (coerce_utf8 s))])"

definition omit_any :: "string \<Rightarrow> any_value \<Rightarrow> jmap" where
  "omit_any k v = (if v = NilValue then [] else [(k, decoded_any v)])"

definition omit_bool_ptr :: "string \<Rightarrow> bool option \<Rightarrow> jmap" where
  "omit_bool_ptr k b = (case b of None \<Rightarrow> [] | Some x \<Rightarrow> [(k, JBool x)])"

definition omit_int_ptr :: "string \<Rightarrow> int option \<Rightarrow> jmap" where
  "omit_int_ptr k n = (case n of None \<Rightarrow> [] | Some x \<Rightarrow> [(k, JNum (float64_of_int x))])"

definition omit_float_ptr :: "string \<Rightarrow> float64 option \<Rightarrow> jmap" where
  "omit_float_ptr k f = (case f of Some (Finite r) \<Rightarrow> [(k, JNum r)] | _ \<Rightarrow> [])"

definition omit_strings :: "string \<Rightarrow> string list \<Rightarrow> jmap" where
  "omit_strings k xs = (if xs = [] then [] else [(k, JArr (map (\<lambda>s. JStr (coerce_utf8 s)) xs))])"

definition omit_anys :: "string \<Rightarrow> any_value list \<Rightarrow> jmap" where
  "omit_anys k xs = (if xs = [] then [] else [(k, JArr (map decoded_any xs))])"

definition omit_list :: "string \<Rightarrow> json list \<Rightarrow> jmap" where
  "omit_list k xs = (if xs = [] then [] else [(k, JArr xs)])"

definition omit_map :: "string \<Rightarrow> (string \<times> json) list \<Rightarrow> jmap" where
  "omit_map k m = (if m = [] then [] else [(k, JObj (decoded_members m))])"

definition omit_ptr :: "string \<Rightarrow> jmap option \<Rightarrow> jmap" where
  "omit_ptr k p = (case p of None \<Rightarrow> [] | Some m \<Rightarrow> [(k, JObj m)])"

subsection \<open>\<^verbatim>\<open>JSONSchema.ToMap\<close>\<close>

text \<open>\<open>marshals S\<close>: \<^verbatim>\<open>json.Marshal\<close> returns no error for \<open>S\<close>, which is when every bound
  that is set is finite and every enum literal, constant and default can be encoded, in
  \<open>S\<close> and in the schemas nested in it.\<close>

primrec marshals :: "JSONSchema \<Rightarrow> bool" where
  "marshals (JSONSchema typ descr props items req enum cnst addl minItems maxItems minimum maximum
            minLength maxLength pat fmt dflt anyOf oneOf allOf ref defs) =
     (list_all (\<lambda>kv. snd kv) (map (map_prod id marshals) props) \<and>
      (case map_option marshals items of None \<Rightarrow> True | Some b \<Rightarrow> b) \<and>
      list_all any_encodable enum \<and>
      any_encodable cnst \<and>
      float_encodable minimum \<and>
      float_encodable maximum \<and>
      any_encodable dflt \<and>
      list_all (\<lambda>b. b) (map marshals anyOf) \<and>
      list_all (\<lambda>b. b) (map marshals oneOf) \<and>
      list_all (\<lambda>b. b) (map marshals allOf) \<and>
      list_all (\<lambda>kv. snd kv) (map (map_prod id marshals) defs))"

text \<open>\<open>decoded S\<close>: the map that \<^verbatim>\<open>json.Unmarshal\<close> reads back from the text written
  for \<open>S\<close>.  The fields appear under their JSON tags, in declaration order.\<close>

primrec decoded :: "JSONSchema \<Rightarrow> jmap" where
  "decoded (JSONSchema typ descr props items req enum cnst addl minItems maxItems minimum maximum
            minLength maxLength pat fmt dflt anyOf oneOf allOf ref defs) =
     omit_string ''type'' typ @
     omit_string ''description'' descr @
     omit_map ''properties'' (map (map_prod id (\<lambda>p. JObj (decoded p))) props) @
     omit_ptr ''items'' (map_option decoded items) @
     omit_strings ''required'' req @
     omit_anys ''enum'' enum @
     omit_any ''const'' cnst @
     omit_bool_ptr ''additionalProperties'' addl @
     omit_int_ptr ''minItems'' minItems @
     omit_int_ptr ''maxItems'' maxItems @
     omit_float_ptr ''minimum'' minimum @
     omit_float_ptr ''maximum'' maximum @
     omit_int_ptr ''minLength'' minLength @
     omit_int_ptr ''maxLength'' maxLength @
     omit_string ''pattern'' pat @
     omit_string ''format'' fmt @
     omit_any ''default'' dflt @
     omit_list ''anyOf'' (map (\<lambda>p. JObj (decoded p)) anyOf) @
     omit_list ''oneOf'' (map (\<lambda>p. JObj (decoded p)) oneOf) @
     omit_list ''allOf'' (map (\<lambda>p. JObj (decoded p)) allOf) @
     omit_string ''$ref'' ref @
     omit_map ''$defs'' (map (map_prod id (\<lambda>p. JObj (decoded p))) defs)"

text \<open>\<^verbatim>\<open>json.Unmarshal\<close> checks the text before it decodes anything and rejects one
  whose arrays and objects nest deeper than 10000.\<close>

primrec nesting :: "json \<Rightarrow> nat" where
  "nesting JNull = 0"
| "nesting (JBool b) = 0"
| "nesting (JNum r) = 0"
| "nesting (JStr s) = 0"
| "nesting (JArr xs) = Suc (fold max (map nesting xs) 0)"
| "nesting (JObj m) = Suc (fold max (map snd (map (map_prod id nesting) m)) 0)"

definition maxNestingDepth :: nat where
  "maxNestingDepth = 10000"

definition round_trips :: "JSONSchema \<Rightarrow> bool" where
  "round_trips s \<longleftrightarrow> marshals s \<and> nesting (JObj (decoded s)) \<le> maxNestingDepth"

text \<open>\<^verbatim>\<open>ToMap\<close> drops both errors.  When \<^verbatim>\<open>json.Marshal\<close> fails the data is nil and
  \<^verbatim>\<open>json.Unmarshal\<close> fails on it; when \<^verbatim>\<open>json.Unmarshal\<close> rejects the text it has
  stored nothing.  Either way the map stays nil, which is \<^const>\<open>None\<close>.\<close>

definition ToMap :: "JSONSchema \<Rightarrow> jmap option" where
  "ToMap s = (if round_trips s then Some (decoded s) else None)"

section \<open>Messages, tools, requests and responses (pkg/types)\<close>

text \<open>\<^verbatim>\<open>Role\<close>, \<^verbatim>\<open>ContentType\<close>, \<^verbatim>\<open>StopReason\<close>, \<^verbatim>\<open>Feature\<close>, \<^verbatim>\<open>Provider\<close> and
  \<^verbatim>\<open>StreamEventType\<close> are string types in Go; the named constants are the strings
  below.  Go's \<^verbatim>\<open>int\<close> is \<^typ>\<open>int\<close>: every count and index of this library is decoded
  from JSON or is a length, and the one addition (the token total) is written with its
  64-bit wrap-around.\<close>

abbreviation RoleSystem :: string where "RoleSystem \<equiv> ''system''"
abbreviation RoleUser :: string where "RoleUser \<equiv> ''user''"
abbreviation RoleAssistant :: string where "RoleAssistant \<equiv> ''assistant''"
abbreviation RoleTool :: string where "RoleTool \<equiv> ''tool''"

abbreviation ContentTypeText :: string where "ContentTypeText \<equiv> ''text''"
abbreviation ContentTypeImage :: string where "ContentTypeImage \<equiv> ''image''"
abbreviation ContentTypeToolUse :: string where "ContentTypeToolUse \<equiv> ''tool_use''"
abbreviation ContentTypeToolResult :: string where "ContentTypeToolResult \<equiv> ''tool_result''"

abbreviation StopReasonEnd :: string where "StopReasonEnd \<equiv> ''end''"
abbreviation StopReasonMaxTokens :: string where "StopReasonMaxTokens \<equiv> ''max_tokens''"
abbreviation StopReasonToolUse :: string where "StopReasonToolUse \<equiv> ''tool_use''"
abbreviation StopReasonStopSequence :: string where "StopReasonStopSequence \<equiv> ''stop_sequence''"
abbreviation StopReasonContentFilter :: string where "StopReasonContentFilter \<equiv> ''content_filter''"

abbreviation ToolChoiceAuto :: string where "ToolChoiceAuto \<equiv> ''auto''"
abbreviation ToolChoiceRequired :: string where "ToolChoiceRequired \<equiv> ''required''"
abbreviation ToolChoiceNone :: string where "ToolChoiceNone \<equiv> ''none''"
abbreviation ToolChoiceTool :: string where "ToolChoiceTool \<equiv> ''tool''"

abbreviation ProviderOpenAI :: string where "ProviderOpenAI \<equiv> ''openai''"
abbreviation ProviderAnthropic :: string where "ProviderAnthropic \<equiv> ''anthropic''"
abbreviation ProviderGoogle :: string where "ProviderGoogle \<equiv> ''google''"

abbreviation FeatureStreaming :: string where "FeatureStreaming \<equiv> ''streaming''"
abbreviation FeatureStructuredOutput :: string where "FeatureStructuredOutput \<equiv> ''structured_output''"
abbreviation FeatureTools :: string where "FeatureTools \<equiv> ''tools''"
abbreviation FeatureVision :: string where "FeatureVision \<equiv> ''vision''"
abbreviation FeatureBatch :: string where "FeatureBatch \<equiv> ''batch''"
abbreviation FeatureJSON :: string where "FeatureJSON \<equiv> ''json_mode''"

record ContentBlock =
  cb_Type :: string
  cb_Text :: string
  cb_ImageURL :: string
  cb_ImageBase64 :: string
  cb_MediaType :: string
  cb_ToolUseID :: string
  cb_ToolName :: string
  cb_ToolInput :: json
  cb_ToolResultID :: string
  cb_IsError :: bool

text \<open>The zero value \<^verbatim>\<open>types.ContentBlock{}\<close>; a composite literal sets the fields it
  names and leaves the others zero.\<close>

definition ContentBlock0 :: ContentBlock where
  "ContentBlock0 = \<lparr>cb_Type = [], cb_Text = [], cb_ImageURL = [], cb_ImageBase64 = [],
     cb_MediaType = [], cb_ToolUseID = [], cb_ToolName = [], cb_ToolInput = JNull,
     cb_ToolResultID = [], cb_IsError = False\<rparr>"

record Message =
  msg_Role :: string
  msg_Content :: "ContentBlock list"

definition NewTextMessage :: "string \<Rightarrow> string \<Rightarrow> Message" where
  "NewTextMessage role txt =
     \<lparr>msg_Role = role, msg_Content = [ContentBlock0\<lparr>cb_Type := ContentTypeText, cb_Text := txt\<rparr>]\<rparr>"

record Tool =
  tool_Name :: string
  tool_Description :: string
  tool_Parameters :: JSONSchema

record ToolCall =
  tc_ID :: string
  tc_Name :: string
  tc_Input :: json

record Usage =
  InputTokens :: int
  OutputTokens :: int
  TotalTokens :: int
  CachedTokens :: int
  ReasoningTokens :: int

definition Usage0 :: Usage where
  "Usage0 = \<lparr>InputTokens = 0, OutputTokens = 0, TotalTokens = 0, CachedTokens = 0,
     ReasoningTokens = 0\<rparr>"

text \<open>Addition of two Go \<^verbatim>\<open>int\<close>s (64 bits, two's complement, wrapping).\<close>

definition go_add :: "int \<Rightarrow> int \<Rightarrow> int" where
  "go_add a b = sint (word_of_int a + word_of_int b :: 64 word)"

record ResponseFormat =
  rf_Type :: string
  rf_Schema :: "JSONSchema option"
  rf_Name :: string
  rf_Description :: string
  rf_Strict :: "bool option"

record ToolChoice =
  tch_Type :: string
  tch_Name :: string
  tch_DisableParallelToolUse :: bool

record CompletionRequest =
  req_Provider :: string
  req_Model :: string
  req_Messages :: "Message list"
  req_MaxTokens :: "int option"
  req_Temperature :: "real option"
  req_TopP :: "real option"
  req_TopK :: "int option"
  req_StopSequences :: "string list"
  req_ResponseFormat :: "ResponseFormat option"
  req_Tools :: "Tool list"
  req_ToolChoice :: "ToolChoice option"
  req_Stream :: bool

text \<open>\<^verbatim>\<open>CompletionResponse\<close> without its \<^verbatim>\<open>CreatedAt\<close> timestamp (the clock is not
  modelled) and without \<^verbatim>\<open>Metadata\<close>, which no transformer or reader sets.\<close>

record CompletionResponse =
  resp_ID :: string
  resp_Provider :: string
  resp_Model :: string
  resp_Content :: "ContentBlock list"
  resp_StopReason :: string
  resp_Usage :: Usage
  resp_ToolCalls :: "ToolCall list"

section \<open>Schema translator (pkg/schema)\<close>

text \<open>\<^verbatim>\<open>Translator.addAdditionalPropertiesFalse\<close> mutates the map and the maps nested
  under it in place; the model returns the rewritten map.  The source's steps run
  innermost first here: the type test, then \<^verbatim>\<open>properties\<close>, \<^verbatim>\<open>items\<close>,
  \<^verbatim>\<open>anyOf\<close>, \<^verbatim>\<open>oneOf\<close>, \<^verbatim>\<open>allOf\<close>, \<^verbatim>\<open>$defs\<close>.  A step writes only
  \<^verbatim>\<open>additionalProperties\<close> or the key it has just read, which never changes what a
  later lookup of another key finds, so every lookup reads the map as it was on entry.
  \<^verbatim>\<open>set_key\<close> stores a value when the step's type assertions succeeded.\<close>

definition set_key :: "string \<Rightarrow> json option \<Rightarrow> jmap \<Rightarrow> jmap" where
  "set_key k vo m = (case vo of None \<Rightarrow> m | Some v \<Rightarrow> AList.update k v m)"

function addAdditionalPropertiesFalse :: "jmap \<Rightarrow> jmap" where
  "addAdditionalPropertiesFalse schema =
    set_key ''$defs''
      (case map_of schema ''$defs'' of
         Some (JObj defs) \<Rightarrow>
           Some (JObj (map (\<lambda>kv. (fst kv,
              (case snd kv of JObj dm \<Rightarrow> JObj (addAdditionalPropertiesFalse dm) | v \<Rightarrow> v))) defs))
       | _ \<Rightarrow> None)
    (set_key ''allOf''
      (case map_of schema ''allOf'' of
         Some (JArr arr) \<Rightarrow>
           Some (JArr (map (\<lambda>item.
              (case item of JObj im \<Rightarrow> JObj (addAdditionalPropertiesFalse im) | v \<Rightarrow> v)) arr))
       | _ \<Rightarrow> None)
    (set_key ''oneOf''
      (case map_of schema ''oneOf'' of
         Some (JArr arr) \<Rightarrow>
           Some (JArr (map (\<lambda>item.
              (case item of JObj im \<Rightarrow> JObj (addAdditionalPropertiesFalse im) | v \<Rightarrow> v)) arr))
       | _ \<Rightarrow> None)
    (set_key ''anyOf''
      (case map_of schema ''anyOf'' of
         Some (JArr arr) \<Rightarrow>
           Some (JArr (map (\<lambda>item.
              (case item of JObj im \<Rightarrow> JObj (addAdditionalPropertiesFalse im) | v \<Rightarrow> v)) arr))
       | _ \<Rightarrow> None)
    (set_key ''items''
      (case map_of schema ''items'' of
         Some (JObj items) \<Rightarrow> Some (JObj (addAdditionalPropertiesFalse items))
       | _ \<Rightarrow> None)
    (set_key ''properties''
      (case map_of schema ''properties'' of
         Some (JObj props) \<Rightarrow>
           Some (JObj (map (\<lambda>kv. (fst kv,
              (case snd kv of JObj pm \<Rightarrow> JObj (addAdditionalPropertiesFalse pm) | v \<Rightarrow> v))) props))
       | _ \<Rightarrow> None)
    (set_key ''additionalProperties''
      (if map_of schema ''type'' = Some (JStr ''object'') then Some (JBool False) else None)
      schema))))))"
  by pat_completeness auto

lemma size_map_of_entry:
  "map_of m k = Some v \<Longrightarrow> size v < size_list (size_prod (\<lambda>_. 0) size) m"
  by (induction m) (auto split: if_splits)

lemma size_set_entry:
  "kv \<in> set m \<Longrightarrow> size (snd kv) < size_list (size_prod (\<lambda>_. 0) size) m"
  by (induction m) auto

lemma size_set_elem:
  "v \<in> set xs \<Longrightarrow> size v < size_list size xs"
  by (induction xs) auto

lemma addAPF_term_items:
  "map_of m k = Some (JObj items) \<Longrightarrow>
   size_list (size_prod (\<lambda>_. 0) size) items < size_list (size_prod (\<lambda>_. 0) size) m"
  using size_map_of_entry [of m k "JObj items"] by simp

lemma addAPF_term_obj:
  "map_of m k = Some (JObj ps) \<Longrightarrow> kv \<in> set ps \<Longrightarrow> snd kv = JObj pm \<Longrightarrow>
   size_list (size_prod (\<lambda>_. 0) size) pm < size_list (size_prod (\<lambda>_. 0) size) m"
  using size_map_of_entry [of m k "JObj ps"] size_set_entry [of kv ps] by simp

lemma addAPF_term_arr:
  "map_of m k = Some (JArr xs) \<Longrightarrow> JObj im \<in> set xs \<Longrightarrow>
   size_list (size_prod (\<lambda>_. 0) size) im < size_list (size_prod (\<lambda>_. 0) size) m"
  using size_map_of_entry [of m k "JArr xs"] size_set_elem [of "JObj im" xs] by simp

termination addAdditionalPropertiesFalse
  by (relation "measure (\<lambda>m. size_list (size_prod (\<lambda>_. 0) size) m)")
     (auto intro: addAPF_term_items addAPF_term_obj addAPF_term_arr)

declare addAdditionalPropertiesFalse.simps [simp del]

text \<open>The pass returns at once on a nil map, which is \<^const>\<open>None\<close>.
  \<^verbatim>\<open>Translator.prepareOpenAISchema\<close>: nil stays nil; otherwise the schema is converted
  to a map, which is nil when the conversion fails, and the pass runs over it.\<close>

definition prepareOpenAISchema :: "JSONSchema option \<Rightarrow> jmap option" where
  "prepareOpenAISchema s =
     (case s of None \<Rightarrow> None
      | Some sch \<Rightarrow> map_option addAdditionalPropertiesFalse (ToMap sch))"

subsection \<open>Reachable sub-schemas\<close>

text \<open>A sub-schema is reached from a schema by a path of steps, each through one of the
  six composition keywords.  \<open>sub_schema\<close> follows a path in the unified schema,
  \<open>json_at\<close> follows a path in a translated map, and \<open>written_path\<close> is the path in the
  map that belongs to a path in the schema: its names are the coerced ones.\<close>

datatype step =
    PropertiesStep string
  | ItemsStep
  | AnyOfStep nat
  | OneOfStep nat
  | AllOfStep nat
  | DefsStep string

definition nth_opt :: "'a list \<Rightarrow> nat \<Rightarrow> 'a option" where
  "nth_opt xs i = (if i < length xs then Some (xs ! i) else None)"

fun sub_step :: "JSONSchema \<Rightarrow> step \<Rightarrow> JSONSchema option" where
  "sub_step S (PropertiesStep k) = map_of (s_Properties S) k"
| "sub_step S ItemsStep = s_Items S"
| "sub_step S (AnyOfStep i) = nth_opt (s_AnyOf S) i"
| "sub_step S (OneOfStep i) = nth_opt (s_OneOf S) i"
| "sub_step S (AllOfStep i) = nth_opt (s_AllOf S) i"
| "sub_step S (DefsStep k) = map_of (s_Defs S) k"

fun sub_schema :: "JSONSchema \<Rightarrow> step list \<Rightarrow> JSONSchema option" where
  "sub_schema S [] = Some S"
| "sub_schema S (st # p) = (case sub_step S st of None \<Rightarrow> None | Some T \<Rightarrow> sub_schema T p)"

definition member_of :: "jmap \<Rightarrow> string \<Rightarrow> string \<Rightarrow> json option" where
  "member_of m key k = (case map_of m key of Some (JObj ps) \<Rightarrow> map_of ps k | _ \<Rightarrow> None)"

definition element_of :: "jmap \<Rightarrow> string \<Rightarrow> nat \<Rightarrow> json option" where
  "element_of m key i = (case map_of m key of Some (JArr xs) \<Rightarrow> nth_opt xs i | _ \<Rightarrow> None)"

fun json_step :: "jmap \<Rightarrow> step \<Rightarrow> json option" where
  "json_step m (PropertiesStep k) = member_of m ''properties'' k"
| "json_step m ItemsStep = map_of m ''items''"
| "json_step m (AnyOfStep i) = element_of m ''anyOf'' i"
| "json_step m (OneOfStep i) = element_of m ''oneOf'' i"
| "json_step m (AllOfStep i) = element_of m ''allOf'' i"
| "json_step m (DefsStep k) = member_of m ''$defs'' k"

fun json_at :: "json \<Rightarrow> step list \<Rightarrow> json option" where
  "json_at v [] = Some v"
| "json_at v (st # p) =
     (case v of JObj m \<Rightarrow> (case json_step m st of None \<Rightarrow> None | Some w \<Rightarrow> json_at w p)
      | _ \<Rightarrow> None)"

fun written_step :: "step \<Rightarrow> step" where
  "written_step (PropertiesStep k) = PropertiesStep (coerce_utf8 k)"
| "written_step (DefsStep k) = DefsStep (coerce_utf8 k)"
| "written_step st = st"

definition written_path :: "step list \<Rightarrow> step list" where
  "written_path p = map written_step p"

text \<open>\<open>names_distinct S\<close>: in \<open>S\<close> and in every schema nested in it, no two property
  names and no two definition names are coerced to the same name.\<close>

primrec names_distinct :: "JSONSchema \<Rightarrow> bool" where
  "names_distinct (JSONSchema typ descr props items req enum cnst addl minItems maxItems minimum
            maximum minLength maxLength pat fmt dflt anyOf oneOf allOf ref defs) =
     (distinct (map (\<lambda>kv. coerce_utf8 (fst kv)) props) \<and>
      list_all (\<lambda>kv. snd kv) (map (map_prod id names_distinct) props) \<and>
      (case map_option names_distinct items of None \<Rightarrow> True | Some b \<Rightarrow> b) \<and>
      list_all (\<lambda>b. b) (map names_distinct anyOf) \<and>
      list_all (\<lambda>b. b) (map names_distinct oneOf) \<and>
      list_all (\<lambda>b. b) (map names_distinct allOf) \<and>
      distinct (map (\<lambda>kv. coerce_utf8 (fst kv)) defs) \<and>
      list_all (\<lambda>kv. snd kv) (map (map_prod id names_distinct) defs))"

text \<open>A sample schema: a person with a name and a nested address object that asks for
  \<^verbatim>\<open>additionalProperties: true\<close>.\<close>

definition string_schema :: JSONSchema where
  "string_schema = JSONSchema ''string'' [] [] None [] [] NilValue None None None None None None
     None [] [] NilValue [] [] [] [] []"

definition address_schema :: JSONSchema where
  "address_schema = JSONSchema ''object'' [] [(''city'', string_schema)] None [] [] NilValue
     (Some True) None None None None None None [] [] NilValue [] [] [] [] []"

definition person_schema :: JSONSchema where
  "person_schema = JSONSchema ''object'' [] [(''name'', string_schema), (''address'', address_schema)]
     None [''name''] [] NilValue None None None None None None None [] [] NilValue [] [] [] [] []"

text \<open>Two schemas on which the conversion does not give what the claim promises: an
  object schema with a NaN bound, and an object schema with two property names that are
  not UTF-8, the first of them an object.\<close>

definition nan_schema :: JSONSchema where
  "nan_schema = JSONSchema ''object'' [] [] None [] [] NilValue None None None (Some NaN) None
     None None [] [] NilValue [] [] [] [] []"

definition clash_schema :: JSONSchema where
  "clash_schema = JSONSchema ''object'' []
     [([CHR 0xFE], address_schema), ([CHR 0xFF], string_schema)]
     None [] [] NilValue None None None None None None None [] [] NilValue [] [] [] [] []"

text \<open>Names for the three shapes of recursion, used in the proofs only: a value that
  is rewritten when it is a map, the members of a map of schemas, the elements of an array
  of schemas, and a single nested schema.\<close>

definition apf_value :: "json \<Rightarrow> json" where
  "apf_value v = (case v of JObj m \<Rightarrow> JObj (addAdditionalPropertiesFalse m) | _ \<Rightarrow> v)"

definition apf_members :: "json \<Rightarrow> json option" where
  "apf_members v = (case v of JObj ps \<Rightarrow> Some (JObj (map (\<lambda>kv. (fst kv, apf_value (snd kv))) ps)) | _ \<Rightarrow> None)"

definition apf_elements :: "json \<Rightarrow> json option" where
  "apf_elements v = (case v of JArr xs \<Rightarrow> Some (JArr (map apf_value xs)) | _ \<Rightarrow> None)"

definition apf_object :: "json \<Rightarrow> json option" where
  "apf_object v = (case v of JObj m \<Rightarrow> Some (JObj (addAdditionalPropertiesFalse m)) | _ \<Rightarrow> None)"

lemma addAPF_unfold:
  "addAdditionalPropertiesFalse schema =
    set_key ''$defs'' (Option.bind (map_of schema ''$defs'') apf_members)
    (set_key ''allOf'' (Option.bind (map_of schema ''allOf'') apf_elements)
    (set_key ''oneOf'' (Option.bind (map_of schema ''oneOf'') apf_elements)
    (set_key ''anyOf'' (Option.bind (map_of schema ''anyOf'') apf_elements)
    (set_key ''items'' (Option.bind (map_of schema ''items'') apf_object)
    (set_key ''properties'' (Option.bind (map_of schema ''properties'') apf_members)
    (set_key ''additionalProperties''
      (if map_of schema ''type'' = Some (JStr ''object'') then Some (JBool False) else None)
      schema))))))"
proof -
  have m: "(case x of Some (JObj ps) \<Rightarrow> Some (JObj (map (\<lambda>kv. (fst kv,
              (case snd kv of JObj dm \<Rightarrow> JObj (addAdditionalPropertiesFalse dm) | v \<Rightarrow> v))) ps))
       | _ \<Rightarrow> None) = Option.bind x apf_members" for x
    by (auto simp: apf_members_def apf_value_def split: option.splits json.splits)
  have e: "(case x of Some (JArr arr) \<Rightarrow>
           Some (JArr (map (\<lambda>item.
              (case item of JObj im \<Rightarrow> JObj (addAdditionalPropertiesFalse im) | v \<Rightarrow> v)) arr))
       | _ \<Rightarrow> None) = Option.bind x apf_elements" for x
    by (auto simp: apf_elements_def apf_value_def split: option.splits json.splits)
  have ob: "(case x of Some (JObj items) \<Rightarrow> Some (JObj (addAdditionalPropertiesFalse items))
       | _ \<Rightarrow> None) = Option.bind x apf_object" for x
    by (auto simp: apf_object_def split: option.splits json.splits)
  show ?thesis
    by (subst addAdditionalPropertiesFalse.simps) (simp only: m e ob)
qed

lemma map_of_set_key:
  "map_of (set_key k vo m) k' = (if k' = k \<and> vo \<noteq> None then vo else map_of m k')"
  by (auto simp add: set_key_def update_conv' split: option.splits)

lemma set_key_triv: "(\<And>v. vo = Some v \<Longrightarrow> map_of m k = Some v) \<Longrightarrow> set_key k vo m = m"
  by (cases vo) (simp_all add: set_key_def update_triv)

lemma map_of_addAPF_type: "map_of (addAdditionalPropertiesFalse m) ''type'' = map_of m ''type''"
  by (simp add: addAPF_unfold map_of_set_key)


lemma map_of_addAPF_ap:
  "map_of (addAdditionalPropertiesFalse m) ''additionalProperties'' =
     (if map_of m ''type'' = Some (JStr ''object'') then Some (JBool False)
      else map_of m ''additionalProperties'')"
  by (simp add: addAPF_unfold map_of_set_key)

definition keep_or :: "(json \<Rightarrow> json option) \<Rightarrow> json option \<Rightarrow> json option" where
  "keep_or f x = (if Option.bind x f \<noteq> None then Option.bind x f else x)"

lemma map_of_addAPF_properties:
  "map_of (addAdditionalPropertiesFalse m) ''properties'' = keep_or apf_members (map_of m ''properties'')"
  by (simp add: addAPF_unfold map_of_set_key keep_or_def)

lemma map_of_addAPF_defs:
  "map_of (addAdditionalPropertiesFalse m) ''$defs'' = keep_or apf_members (map_of m ''$defs'')"
  by (simp add: addAPF_unfold map_of_set_key keep_or_def)

lemma map_of_addAPF_items:
  "map_of (addAdditionalPropertiesFalse m) ''items'' = keep_or apf_object (map_of m ''items'')"
  by (simp add: addAPF_unfold map_of_set_key keep_or_def)

lemma map_of_addAPF_anyOf:
  "map_of (addAdditionalPropertiesFalse m) ''anyOf'' = keep_or apf_elements (map_of m ''anyOf'')"
  by (simp add: addAPF_unfold map_of_set_key keep_or_def)

lemma map_of_addAPF_oneOf:
  "map_of (addAdditionalPropertiesFalse m) ''oneOf'' = keep_or apf_elements (map_of m ''oneOf'')"
  by (simp add: addAPF_unfold map_of_set_key keep_or_def)

lemma map_of_addAPF_allOf:
  "map_of (addAdditionalPropertiesFalse m) ''allOf'' = keep_or apf_elements (map_of m ''allOf'')"
  by (simp add: addAPF_unfold map_of_set_key keep_or_def)

lemmas map_of_addAPF = map_of_addAPF_type map_of_addAPF_ap map_of_addAPF_properties map_of_addAPF_defs
  map_of_addAPF_items map_of_addAPF_anyOf map_of_addAPF_oneOf map_of_addAPF_allOf

lemma keep_or_object: "keep_or apf_object x = map_option apf_value x"
  by (cases x) (auto simp: keep_or_def apf_object_def apf_value_def split: json.splits)

lemma map_of_map_snd: "map_of (map (\<lambda>kv. (fst kv, f (snd kv))) ps) k = map_option f (map_of ps k)"
  by (induction ps) auto

lemma member_of_addAPF:
  "key = ''properties'' \<or> key = ''$defs'' \<Longrightarrow>
   member_of (addAdditionalPropertiesFalse m) key k = map_option apf_value (member_of m key k)"
  by (auto simp: member_of_def map_of_addAPF keep_or_def apf_members_def map_of_map_snd
      split: option.splits json.splits)

lemma nth_opt_map: "nth_opt (map f xs) i = map_option f (nth_opt xs i)"
  by (simp add: nth_opt_def)

lemma element_of_addAPF:
  "key = ''anyOf'' \<or> key = ''oneOf'' \<or> key = ''allOf'' \<Longrightarrow>
   element_of (addAdditionalPropertiesFalse m) key i = map_option apf_value (element_of m key i)"
  by (auto simp: element_of_def map_of_addAPF keep_or_def apf_elements_def nth_opt_map
      split: option.splits json.splits)

lemma json_step_addAPF:
  "json_step (addAdditionalPropertiesFalse m) st = map_option apf_value (json_step m st)"
  by (cases st) (simp_all add: member_of_addAPF element_of_addAPF map_of_addAPF_items keep_or_object)

lemma json_at_apf_value:
  "json_at (apf_value v) p = map_option apf_value (json_at v p)"
proof (induction p arbitrary: v)
  case Nil
  show ?case by simp
next
  case (Cons st p)
  show ?case
  proof (cases v)
    case (JObj m)
    then show ?thesis
      by (cases "json_step m st") (simp_all add: apf_value_def json_step_addAPF Cons.IH [unfolded apf_value_def])
  qed (simp_all add: apf_value_def)
qed


lemma keep_or_idem:
  assumes "\<And>v w. x = Some v \<Longrightarrow> f v = Some w \<Longrightarrow> f w = Some w"
    and "Option.bind (keep_or f x) f = Some u"
  shows "keep_or f x = Some u"
proof (cases x)
  case None
  with assms(2) show ?thesis by (simp add: keep_or_def)
next
  case (Some v)
  show ?thesis
  proof (cases "f v")
    case None
    with Some assms(2) show ?thesis by (simp add: keep_or_def)
  next
    case (Some w)
    with \<open>x = Some v\<close> assms(1) [of v w] assms(2) show ?thesis by (simp add: keep_or_def)
  qed
qed

lemma apf_value_idem_iff:
  "apf_value (apf_value v) = apf_value v \<longleftrightarrow>
     (\<forall>m. v = JObj m \<longrightarrow> addAdditionalPropertiesFalse (addAdditionalPropertiesFalse m) = addAdditionalPropertiesFalse m)"
  by (cases v) (simp_all add: apf_value_def)

lemma addAPF_idem:
  "addAdditionalPropertiesFalse (addAdditionalPropertiesFalse schema) = addAdditionalPropertiesFalse schema"
proof (induction schema rule: addAdditionalPropertiesFalse.induct)
  case (1 schema)
  define R where "R = addAdditionalPropertiesFalse schema"
  have memb: "apf_members w = Some w"
    if "map_of schema key = Some v" "apf_members v = Some w" "key = ''properties'' \<or> key = ''$defs''" for key v w
  proof -
    from that(2) obtain ps where v: "v = JObj ps"
      and w: "w = JObj (map (\<lambda>kv. (fst kv, apf_value (snd kv))) ps)"
      by (auto simp: apf_members_def split: json.splits)
    have "apf_value (apf_value (snd kv)) = apf_value (snd kv)" if "kv \<in> set ps" for kv
      unfolding apf_value_idem_iff using "1.IH"(1,6) that \<open>map_of schema key = Some v\<close> v
        \<open>key = ''properties'' \<or> key = ''$defs''\<close> by blast
    then show ?thesis by (simp add: w apf_members_def)
  qed
  have elem: "apf_elements w = Some w"
    if "map_of schema key = Some v" "apf_elements v = Some w" "key = ''anyOf'' \<or> key = ''oneOf'' \<or> key = ''allOf''" for key v w
  proof -
    from that(2) obtain xs where v: "v = JArr xs" and w: "w = JArr (map apf_value xs)"
      by (auto simp: apf_elements_def split: json.splits)
    have "apf_value (apf_value x) = apf_value x" if "x \<in> set xs" for x
      unfolding apf_value_idem_iff using "1.IH"(2,3,4) that \<open>map_of schema key = Some v\<close> v
        \<open>key = ''anyOf'' \<or> key = ''oneOf'' \<or> key = ''allOf''\<close> by blast
    then show ?thesis by (simp add: w apf_elements_def)
  qed
  have obj: "apf_object w = Some w"
    if "map_of schema ''items'' = Some v" "apf_object v = Some w" for v w
    using that "1.IH"(5) by (auto simp: apf_object_def split: json.splits)
  have t0: "set_key ''additionalProperties''
      (if map_of R ''type'' = Some (JStr ''object'') then Some (JBool False) else None) R = R"
    by (rule set_key_triv) (auto simp: R_def map_of_addAPF split: if_splits)
  have t1: "set_key ''properties'' (Option.bind (map_of R ''properties'') apf_members) R = R"
    by (rule set_key_triv) (auto simp: R_def map_of_addAPF intro!: keep_or_idem memb)
  have t2: "set_key ''items'' (Option.bind (map_of R ''items'') apf_object) R = R"
    by (rule set_key_triv) (auto simp: R_def map_of_addAPF_items intro!: keep_or_idem obj)
  have t3: "set_key ''anyOf'' (Option.bind (map_of R ''anyOf'') apf_elements) R = R"
    by (rule set_key_triv) (auto simp: R_def map_of_addAPF intro!: keep_or_idem elem)
  have t4: "set_key ''oneOf'' (Option.bind (map_of R ''oneOf'') apf_elements) R = R"
    by (rule set_key_triv) (auto simp: R_def map_of_addAPF intro!: keep_or_idem elem)
  have t5: "set_key ''allOf'' (Option.bind (map_of R ''allOf'') apf_elements) R = R"
    by (rule set_key_triv) (auto simp: R_def map_of_addAPF intro!: keep_or_idem elem)
  have t6: "set_key ''$defs'' (Option.bind (map_of R ''$defs'') apf_members) R = R"
    by (rule set_key_triv) (auto simp: R_def map_of_addAPF intro!: keep_or_idem memb)
  have "addAdditionalPropertiesFalse R = R"
    by (subst addAPF_unfold) (simp only: t0 t1 t2 t3 t4 t5 t6)
  then show ?case by (simp add: R_def)
qed


lemma map_of_append_apply:
  "map_of (xs @ ys) k = (case map_of xs k of None \<Rightarrow> map_of ys k | Some v \<Rightarrow> Some v)"
  by (simp add: map_add_def)

lemma map_of_omit_other:
  "k' \<noteq> k \<Longrightarrow> map_of (omit_string k s) k' = None"
  "k' \<noteq> k \<Longrightarrow> map_of (omit_any k v) k' = None"
  "k' \<noteq> k \<Longrightarrow> map_of (omit_bool_ptr k b) k' = None"
  "k' \<noteq> k \<Longrightarrow> map_of (omit_int_ptr k n) k' = None"
  "k' \<noteq> k \<Longrightarrow> map_of (omit_float_ptr k r) k' = None"
  "k' \<noteq> k \<Longrightarrow> map_of (omit_strings k ss) k' = None"
  "k' \<noteq> k \<Longrightarrow> map_of (omit_anys k vs) k' = None"
  "k' \<noteq> k \<Longrightarrow> map_of (omit_list k xs) k' = None"
  "k' \<noteq> k \<Longrightarrow> map_of (omit_map k m) k' = None"
  "k' \<noteq> k \<Longrightarrow> map_of (omit_ptr k p) k' = None"
  by (simp_all add: omit_string_def omit_any_def omit_bool_ptr_def omit_int_ptr_def
      omit_float_ptr_def omit_strings_def omit_anys_def omit_list_def omit_map_def omit_ptr_def
      split: option.splits float64.splits)

lemma map_of_omit_same:
  "map_of (omit_string k s) k = (if s = [] then None else Some (JStr (coerce_utf8 s)))"
  "map_of (omit_list k xs) k = (if xs = [] then None else Some (JArr xs))"
  "map_of (omit_map k m) k = (if m = [] then None else Some (JObj (decoded_members m)))"
  "map_of (omit_ptr k p) k = map_option JObj p"
  by (simp_all add: omit_string_def omit_list_def omit_map_def omit_ptr_def split: option.splits)

lemma map_of_decoded_type:
  "map_of (decoded S) ''type'' =
     (if s_Type S = [] then None else Some (JStr (coerce_utf8 (s_Type S))))"
  by (cases S) (simp add: map_of_append_apply map_of_omit_other map_of_omit_same del: map_of_append)

lemma map_of_decoded_properties:
  "map_of (decoded S) ''properties'' =
     (if s_Properties S = [] then None
      else Some (JObj (decoded_members (map (map_prod id (\<lambda>p. JObj (decoded p))) (s_Properties S)))))"
  by (cases S) (simp add: map_of_append_apply map_of_omit_other map_of_omit_same del: map_of_append)

lemma map_of_decoded_defs:
  "map_of (decoded S) ''$defs'' =
     (if s_Defs S = [] then None
      else Some (JObj (decoded_members (map (map_prod id (\<lambda>p. JObj (decoded p))) (s_Defs S)))))"
  by (cases S) (simp add: map_of_append_apply map_of_omit_other map_of_omit_same del: map_of_append)

lemma map_of_decoded_items:
  "map_of (decoded S) ''items'' = map_option (\<lambda>p. JObj (decoded p)) (s_Items S)"
  by (cases S; cases "s_Items S")
     (simp_all add: map_of_append_apply map_of_omit_other map_of_omit_same del: map_of_append)

lemma map_of_decoded_anyOf:
  "map_of (decoded S) ''anyOf'' =
     (if s_AnyOf S = [] then None else Some (JArr (map (\<lambda>p. JObj (decoded p)) (s_AnyOf S))))"
  by (cases S) (simp add: map_of_append_apply map_of_omit_other map_of_omit_same del: map_of_append)

lemma map_of_decoded_oneOf:
  "map_of (decoded S) ''oneOf'' =
     (if s_OneOf S = [] then None else Some (JArr (map (\<lambda>p. JObj (decoded p)) (s_OneOf S))))"
  by (cases S) (simp add: map_of_append_apply map_of_omit_other map_of_omit_same del: map_of_append)

lemma map_of_decoded_allOf:
  "map_of (decoded S) ''allOf'' =
     (if s_AllOf S = [] then None else Some (JArr (map (\<lambda>p. JObj (decoded p)) (s_AllOf S))))"
  by (cases S) (simp add: map_of_append_apply map_of_omit_other map_of_omit_same del: map_of_append)

text \<open>The members that come back, when no two names are coerced to the same name.\<close>

lemma insert_descending_set: "set (insert_descending kv xs) = insert kv (set xs)"
  by (induction xs) auto

lemma descending_set: "set (descending m) = set m"
  by (induction m) (simp_all add: descending_def insert_descending_set)

lemma insert_descending_distinct:
  "distinct (map g (insert_descending kv xs)) \<longleftrightarrow> g kv \<notin> g ` set xs \<and> distinct (map g xs)"
  by (induction xs) (auto simp: insert_descending_set)

lemma descending_distinct: "distinct (map g (descending m)) \<longleftrightarrow> distinct (map g m)"
  by (induction m) (simp_all add: descending_def insert_descending_distinct descending_set [unfolded descending_def])

lemma map_of_renamed:
  assumes "distinct (map (\<lambda>kv. g (fst kv)) ys)" and "(k, v) \<in> set ys"
  shows "map_of (map (\<lambda>kv. (g (fst kv), snd kv)) ys) (g k) = Some v"
  using assms
proof (induction ys)
  case Nil
  then show ?case by simp
next
  case (Cons x ys)
  show ?case
  proof (cases "x = (k, v)")
    case True
    then show ?thesis by simp
  next
    case False
    with Cons.prems(2) have m: "(k, v) \<in> set ys" by simp
    then have "g k \<in> (\<lambda>kv. g (fst kv)) ` set ys" by (rule image_eqI [rotated]) simp
    moreover from Cons.prems(1) have "g (fst x) \<notin> (\<lambda>kv. g (fst kv)) ` set ys" by simp
    ultimately have "g (fst x) \<noteq> g k" by metis
    moreover from Cons.prems(1) have "distinct (map (\<lambda>kv. g (fst kv)) ys)" by simp
    ultimately show ?thesis using Cons.IH m by simp
  qed
qed

lemma distinct_names_keys:
  assumes "distinct (map (\<lambda>kv. g (fst kv)) m)"
  shows "distinct (map fst m)"
proof -
  have "map (\<lambda>kv. g (fst kv)) m = map g (map fst m)" by simp
  with assms show ?thesis by (simp only: distinct_map)
qed

lemma map_of_decoded_members:
  assumes "distinct (map (\<lambda>kv. coerce_utf8 (fst kv)) m)" and "map_of m k = Some v"
  shows "map_of (decoded_members (map (map_prod id f) m)) (coerce_utf8 k) = Some (f v)"
proof -
  define m' where "m' = map (map_prod id f) m"
  have d: "distinct (map (\<lambda>kv. coerce_utf8 (fst kv)) m')"
    using assms(1) by (simp add: m'_def comp_def)
  then have "distinct (map fst m')" by (rule distinct_names_keys)
  then have c: "AList.clearjunk m' = m'" by (rule distinct_clearjunk_id)
  from assms(2) have "(k, f v) \<in> set m'"
    by (auto simp: m'_def dest!: map_of_SomeD intro!: image_eqI [where x = "(k, v)"])
  then have "(k, f v) \<in> set (descending m')" by (simp add: descending_set)
  moreover from d have "distinct (map (\<lambda>kv. coerce_utf8 (fst kv)) (descending m'))"
    by (simp add: descending_distinct)
  ultimately have "map_of (map (\<lambda>kv. (coerce_utf8 (fst kv), snd kv)) (descending m')) (coerce_utf8 k)
      = Some (f v)"
    by (rule map_of_renamed [rotated])
  then show ?thesis
    by (simp add: decoded_members_def c map_of_clearjunk m'_def [symmetric])
qed

lemma names_distinct_sub_step:
  assumes "names_distinct S" and "sub_step S st = Some T"
  shows "names_distinct T"
  using assms
  by (cases S; cases st)
     (auto simp: list_all_iff nth_opt_def dest!: map_of_SomeD split: if_splits)

lemma json_step_decoded:
  assumes "names_distinct S" and "sub_step S st = Some T"
  shows "json_step (decoded S) (written_step st) = Some (JObj (decoded T))"
proof (cases st)
  case (PropertiesStep k)
  with assms(2) have k: "map_of (s_Properties S) k = Some T" by simp
  then have "s_Properties S \<noteq> []" by auto
  moreover from assms(1) have "distinct (map (\<lambda>kv. coerce_utf8 (fst kv)) (s_Properties S))"
    by (cases S) simp
  ultimately show ?thesis
    using PropertiesStep map_of_decoded_members [OF _ k, of "\<lambda>p. JObj (decoded p)"]
    by (simp add: member_of_def map_of_decoded_properties)
next
  case (DefsStep k)
  with assms(2) have k: "map_of (s_Defs S) k = Some T" by simp
  then have "s_Defs S \<noteq> []" by auto
  moreover from assms(1) have "distinct (map (\<lambda>kv. coerce_utf8 (fst kv)) (s_Defs S))"
    by (cases S) simp
  ultimately show ?thesis
    using DefsStep map_of_decoded_members [OF _ k, of "\<lambda>p. JObj (decoded p)"]
    by (simp add: member_of_def map_of_decoded_defs)
next
  case ItemsStep
  with assms(2) show ?thesis by (simp add: map_of_decoded_items)
next
  case (AnyOfStep i)
  with assms(2) show ?thesis
    by (auto simp: element_of_def map_of_decoded_anyOf nth_opt_def split: if_splits)
next
  case (OneOfStep i)
  with assms(2) show ?thesis
    by (auto simp: element_of_def map_of_decoded_oneOf nth_opt_def split: if_splits)
next
  case (AllOfStep i)
  with assms(2) show ?thesis
    by (auto simp: element_of_def map_of_decoded_allOf nth_opt_def split: if_splits)
qed

lemma json_at_decoded:
  assumes "names_distinct S" and "sub_schema S p = Some T"
  shows "json_at (JObj (decoded S)) (written_path p) = Some (JObj (decoded T))"
  using assms
proof (induction p arbitrary: S)
  case Nil
  then show ?case by (simp add: written_path_def)
next
  case (Cons st p)
  from Cons.prems(2) obtain U where U: "sub_step S st = Some U" and T: "sub_schema U p = Some T"
    by (auto split: option.splits)
  from Cons.prems(1) U have "names_distinct U" by (rule names_distinct_sub_step)
  from Cons.IH [OF this T] json_step_decoded [OF Cons.prems(1) U]
  show ?case by (simp add: written_path_def)
qed

lemma coerce_utf8_object: "coerce_utf8 ''object'' = ''object''"
  by (simp add: coerce_utf8_def rune_len_def octet_in_def)

text \<open>
  \<^bold>\<open>Claim C2, as amended.\<close>  For every unified schema \<open>S\<close> that makes the round trip of
  \<^verbatim>\<open>ToMap\<close> (every bound that is set is finite, every enum literal, constant and default
  can be encoded, and the text nests no deeper than 10000) and in which no two property
  names and no two definition names of one schema are coerced to the same name, the
  strict (OpenAI) translation of \<open>S\<close> is a map \<open>out\<close>; \<open>out\<close> carries
  \<^verbatim>\<open>additionalProperties: false\<close> at every path that reaches, through \<^verbatim>\<open>properties\<close>,
  \<^verbatim>\<open>items\<close>, \<^verbatim>\<open>anyOf\<close>, \<^verbatim>\<open>oneOf\<close>, \<^verbatim>\<open>allOf\<close> and \<^verbatim>\<open>$defs\<close>, a sub-schema of \<open>S\<close>
  whose type is \<^verbatim>\<open>object\<close>; and running the pass over \<open>out\<close> again leaves it unchanged.
\<close>

theorem strict_translation_additionalProperties:
  assumes "round_trips S" and "names_distinct S"
  shows "\<exists>out. prepareOpenAISchema (Some S) = Some out
         \<and> (\<forall>p T. sub_schema S p = Some T \<and> s_Type T = ''object'' \<longrightarrow>
              (\<exists>m. json_at (JObj out) (written_path p) = Some (JObj m) \<and>
                   map_of m ''additionalProperties'' = Some (JBool False)))
         \<and> addAdditionalPropertiesFalse out = out"
proof -
  define out where "out = addAdditionalPropertiesFalse (decoded S)"
  from assms(1) have "prepareOpenAISchema (Some S) = Some out"
    by (simp add: prepareOpenAISchema_def ToMap_def out_def)
  moreover have "addAdditionalPropertiesFalse out = out"
    unfolding out_def by (rule addAPF_idem)
  moreover have "\<exists>m. json_at (JObj out) (written_path p) = Some (JObj m) \<and>
                 map_of m ''additionalProperties'' = Some (JBool False)"
    if a: "sub_schema S p = Some T \<and> s_Type T = ''object''" for p T
  proof -
    from a assms(2) have "json_at (JObj (decoded S)) (written_path p) = Some (JObj (decoded T))"
      by (simp add: json_at_decoded)
    then have "json_at (JObj out) (written_path p) =
        Some (JObj (addAdditionalPropertiesFalse (decoded T)))"
      using json_at_apf_value [of "JObj (decoded S)" "written_path p"]
      by (simp add: apf_value_def out_def)
    moreover have "map_of (addAdditionalPropertiesFalse (decoded T)) ''additionalProperties'' =
        Some (JBool False)"
      using a by (simp add: map_of_addAPF_ap map_of_decoded_type coerce_utf8_object)
    ultimately show ?thesis by simp
  qed
  ultimately show ?thesis by blast
qed

lemma person_round_trips: "round_trips person_schema"
  by code_simp

lemma person_names_distinct: "names_distinct person_schema"
  by code_simp

lemma prepareOpenAISchema_person:
  "prepareOpenAISchema (Some person_schema) = Some
     [(''type'', JStr ''object''),
      (''properties'',
       JObj
        [(''name'', JObj [(''type'', JStr ''string'')]),
         (''address'',
          JObj
           [(''type'', JStr ''object''),
            (''properties'', JObj [(''city'', JObj [(''type'', JStr ''string'')])]),
            (''additionalProperties'', JBool False)])]),
      (''required'', JArr [JStr ''name'']),
      (''additionalProperties'', JBool False)]"
  by code_simp

theorem strict_translation_additionalProperties_witness:
  "round_trips person_schema \<and> names_distinct person_schema
   \<and> prepareOpenAISchema (Some person_schema) = Some
     [(''type'', JStr ''object''),
      (''properties'',
       JObj
        [(''name'', JObj [(''type'', JStr ''string'')]),
         (''address'',
          JObj
           [(''type'', JStr ''object''),
            (''properties'', JObj [(''city'', JObj [(''type'', JStr ''string'')])]),
            (''additionalProperties'', JBool False)])]),
      (''required'', JArr [JStr ''name'']),
      (''additionalProperties'', JBool False)]
   \<and> (\<exists>T. sub_schema person_schema [PropertiesStep ''address''] = Some T \<and> s_Type T = ''object''
          \<and> s_AdditionalProperties T = Some True)
   \<and> (\<exists>m. json_at (JObj (the (prepareOpenAISchema (Some person_schema))))
            (written_path [PropertiesStep ''address'']) = Some (JObj m)
          \<and> map_of m ''additionalProperties'' = Some (JBool False))
   \<and> addAdditionalPropertiesFalse (the (prepareOpenAISchema (Some person_schema)))
        = the (prepareOpenAISchema (Some person_schema))"
proof -
  have sub: "\<exists>T. sub_schema person_schema [PropertiesStep ''address''] = Some T \<and> s_Type T = ''object''
          \<and> s_AdditionalProperties T = Some True"
    by (simp add: person_schema_def address_schema_def)
  from sub prepareOpenAISchema_person
    strict_translation_additionalProperties [OF person_round_trips person_names_distinct]
  show ?thesis
    using person_round_trips person_names_distinct by (metis option.sel)
qed

text \<open>The claim as first stated fails.  The schema with a NaN bound is an object schema
  and its translation is nil.  In the schema with the two names that are coerced to
  U+FFFD, the first property is an object schema, and the translation has one property
  only, the string schema of the second name.\<close>

theorem strict_translation_counterexample:
  "s_Type nan_schema = ''object''
   \<and> prepareOpenAISchema (Some nan_schema) = None
   \<and> sub_schema clash_schema [PropertiesStep [CHR 0xFE]] = Some address_schema
   \<and> s_Type address_schema = ''object''
   \<and> prepareOpenAISchema (Some clash_schema) = Some
       [(''type'', JStr ''object''),
        (''properties'', JObj [([CHR 0xEF, CHR 0xBF, CHR 0xBD], JObj [(''type'', JStr ''string'')])]),
        (''additionalProperties'', JBool False)]"
  by code_simp

subsection \<open>Dialect B: the Anthropic output configuration and tools\<close>

record AnthropicFormat =
  af_Type :: string
  af_Schema :: "jmap option"

record AnthropicOutputConfig =
  aoc_Format :: "AnthropicFormat option"

text \<open>\<^verbatim>\<open>Translator.ToAnthropic\<close>: \<^verbatim>\<open>text\<close> and \<^verbatim>\<open>json\<close> give no configuration;
  \<^verbatim>\<open>json_schema\<close> with a schema gives the schema's map after the recursive pass, a
  nil map (\<^const>\<open>None\<close>) when the conversion fails.\<close>

definition ToAnthropic :: "ResponseFormat option \<Rightarrow> AnthropicOutputConfig option" where
  "ToAnthropic rf =
     (case rf of
        None \<Rightarrow> None
      | Some f \<Rightarrow>
          if rf_Type f = ''text'' then None
          else if rf_Type f = ''json'' then None
          else (case rf_Schema f of
                  Some sch \<Rightarrow>
                    if rf_Type f = ''json_schema''
                    then Some \<lparr>aoc_Format = Some \<lparr>af_Type = ''json_schema'',
                           af_Schema = map_option addAdditionalPropertiesFalse (ToMap sch)\<rparr>\<rparr>
                    else None
                | None \<Rightarrow> None))"

record AnthropicTool =
  at_Name :: string
  at_Description :: string
  at_InputSchema :: "jmap option"

definition ToolsToAnthropic :: "Tool list \<Rightarrow> AnthropicTool list" where
  "ToolsToAnthropic tools =
     map (\<lambda>tool. \<lparr>at_Name = tool_Name tool, at_Description = tool_Description tool,
                   at_InputSchema = ToMap (tool_Parameters tool)\<rparr>) tools"

subsection \<open>Dialect C: the Google schema, generation configuration and tools\<close>

datatype GoogleSchema = GoogleSchema
  (gs_Type: string)
  (gs_Description: string)
  (gs_Enum: "string list")
  (gs_Properties: "(string \<times> GoogleSchema) list")
  (gs_Required: "string list")
  (gs_Items: "GoogleSchema option")
  (gs_Nullable: bool)

definition mapTypeToGoogle :: "string \<Rightarrow> string" where
  "mapTypeToGoogle jsonType =
     (if jsonType = ''integer'' then ''INTEGER''
      else if jsonType = ''number'' then ''NUMBER''
      else if jsonType = ''string'' then ''STRING''
      else if jsonType = ''boolean'' then ''BOOLEAN''
      else if jsonType = ''array'' then ''ARRAY''
      else if jsonType = ''object'' then ''OBJECT''
      else ''STRING'')"

text \<open>\<^verbatim>\<open>toString\<close>: a Go string stays, any other value is serialised by
  \<^verbatim>\<open>json.Marshal\<close> with the error dropped, which is the parameter \<open>marshal\<close>.\<close>

definition toString :: "(any_value \<Rightarrow> string) \<Rightarrow> any_value \<Rightarrow> string" where
  "toString marshal v = (case v of StringValue val \<Rightarrow> val | _ \<Rightarrow> marshal v)"

primrec convertToGoogleSchema :: "(any_value \<Rightarrow> string) \<Rightarrow> JSONSchema \<Rightarrow> GoogleSchema" where
  "convertToGoogleSchema marshal
     (JSONSchema typ descr props items req enum cnst addl minItems maxItems minimum maximum
        minLength maxLength pat fmt dflt anyOf oneOf allOf ref defs) =
     GoogleSchema (mapTypeToGoogle typ) descr (map (toString marshal) enum)
       (map (map_prod id (convertToGoogleSchema marshal)) props) req
       (map_option (convertToGoogleSchema marshal) items) False"

text \<open>\<^verbatim>\<open>GoogleGenerationConfig\<close>, with the two fields that \<^verbatim>\<open>ToGoogle\<close> sets.\<close>

record GoogleGenerationConfig =
  ggc_ResponseMimeType :: string
  ggc_ResponseSchema :: "GoogleSchema option"

definition ToGoogle :: "(any_value \<Rightarrow> string) \<Rightarrow> ResponseFormat option \<Rightarrow> GoogleGenerationConfig option" where
  "ToGoogle marshal rf =
     (case rf of
        None \<Rightarrow> None
      | Some f \<Rightarrow>
          if rf_Type f = ''text'' then None
          else if rf_Type f = ''json''
            then Some \<lparr>ggc_ResponseMimeType = ''application/json'', ggc_ResponseSchema = None\<rparr>
          else (case rf_Schema f of
                  Some sch \<Rightarrow>
                    if rf_Type f = ''json_schema''
                    then Some \<lparr>ggc_ResponseMimeType = ''application/json'',
                                ggc_ResponseSchema = Some (convertToGoogleSchema marshal sch)\<rparr>
                    else None
                | None \<Rightarrow> None))"

record GoogleFunctionDeclaration =
  gfdecl_Name :: string
  gfdecl_Description :: string
  gfdecl_Parameters :: "GoogleSchema option"

record GoogleTool =
  gt_FunctionDeclarations :: "GoogleFunctionDeclaration list"

definition ToolsToGoogle :: "(any_value \<Rightarrow> string) \<Rightarrow> Tool list \<Rightarrow> GoogleTool option" where
  "ToolsToGoogle marshal tools =
     (if length tools = 0 then None
      else Some \<lparr>gt_FunctionDeclarations =
             map (\<lambda>tool. \<lparr>gfdecl_Name = tool_Name tool, gfdecl_Description = tool_Description tool,
                    gfdecl_Parameters = Some (convertToGoogleSchema marshal (tool_Parameters tool))\<rparr>)
               tools\<rparr>)"

section \<open>Error taxonomy (pkg/errors)\<close>

abbreviation ErrCodeInvalidRequest :: string where "ErrCodeInvalidRequest \<equiv> ''invalid_request''"
abbreviation ErrCodeAuthentication :: string where "ErrCodeAuthentication \<equiv> ''authentication_error''"
abbreviation ErrCodeRateLimit :: string where "ErrCodeRateLimit \<equiv> ''rate_limit''"
abbreviation ErrCodeServerError :: string where "ErrCodeServerError \<equiv> ''server_error''"
abbreviation ErrCodeUnsupportedFeature :: string where "ErrCodeUnsupportedFeature \<equiv> ''unsupported_feature''"
abbreviation ErrCodeProviderUnavailable :: string where "ErrCodeProviderUnavailable \<equiv> ''provider_unavailable''"
abbreviation ErrCodeTimeout :: string where "ErrCodeTimeout \<equiv> ''timeout''"
abbreviation ErrCodeContentFilter :: string where "ErrCodeContentFilter \<equiv> ''content_filter''"
abbreviation ErrCodeInvalidAPIKey :: string where "ErrCodeInvalidAPIKey \<equiv> ''invalid_api_key''"
abbreviation ErrCodeModelNotFound :: string where "ErrCodeModelNotFound \<equiv> ''model_not_found''"
abbreviation ErrCodeContextLength :: string where "ErrCodeContextLength \<equiv> ''context_length_exceeded''"

text \<open>\<^verbatim>\<open>RouterError\<close>.  The chained cause is kept as its message; \<^verbatim>\<open>Details\<close> is set by
  no constructor used here and is left out.\<close>

record RouterError =
  re_Code :: string
  re_Message :: string
  re_Provider :: string
  re_StatusCode :: int
  re_Cause :: "string option"

definition NewError :: "string \<Rightarrow> string \<Rightarrow> RouterError" where
  "NewError code message =
     \<lparr>re_Code = code, re_Message = message, re_Provider = [], re_StatusCode = 0, re_Cause = None\<rparr>"

definition WithProvider :: "string \<Rightarrow> RouterError \<Rightarrow> RouterError" where
  "WithProvider p e = e\<lparr>re_Provider := p\<rparr>"

definition WithStatusCode :: "int \<Rightarrow> RouterError \<Rightarrow> RouterError" where
  "WithStatusCode code e = e\<lparr>re_StatusCode := code\<rparr>"

definition ErrInvalidRequest :: "string \<Rightarrow> RouterError" where
  "ErrInvalidRequest message = NewError ErrCodeInvalidRequest message"

definition ErrRateLimit :: "string \<Rightarrow> string \<Rightarrow> RouterError" where
  "ErrRateLimit provider message =
     WithStatusCode 429 (WithProvider provider (NewError ErrCodeRateLimit message))"

definition ErrServerError :: "string \<Rightarrow> string \<Rightarrow> RouterError" where
  "ErrServerError provider message =
     WithStatusCode 500 (WithProvider provider (NewError ErrCodeServerError message))"

definition ErrUnsupportedFeature :: "string \<Rightarrow> string \<Rightarrow> RouterError" where
  "ErrUnsupportedFeature provider feature =
     WithProvider provider
       (NewError ErrCodeUnsupportedFeature
          (''provider '' @ provider @ '' does not support feature: '' @ feature))"

definition ErrProviderUnavailable :: "string \<Rightarrow> string \<Rightarrow> RouterError" where
  "ErrProviderUnavailable provider message =
     WithProvider provider (NewError ErrCodeProviderUnavailable message)"

definition ErrInvalidAPIKey :: "string \<Rightarrow> RouterError" where
  "ErrInvalidAPIKey provider =
     WithStatusCode 401 (WithProvider provider
       (NewError ErrCodeInvalidAPIKey ''invalid or missing API key''))"

definition ErrModelNotFound :: "string \<Rightarrow> string \<Rightarrow> RouterError" where
  "ErrModelNotFound provider model =
     WithStatusCode 404 (WithProvider provider
       (NewError ErrCodeModelNotFound (''model not found: '' @ model)))"

definition ErrContextLength :: "string \<Rightarrow> string \<Rightarrow> RouterError" where
  "ErrContextLength provider message =
     WithStatusCode 400 (WithProvider provider (NewError ErrCodeContextLength message))"

section \<open>Anthropic adapter: request and response transformer\<close>

record anthropic_ImageSource =
  ais_Type :: string
  ais_MediaType :: string
  ais_Data :: string
  ais_URL :: string

record anthropic_ContentBlock =
  acb_Type :: string
  acb_Text :: string
  acb_Source :: "anthropic_ImageSource option"
  acb_ID :: string
  acb_Name :: string
  acb_Input :: json
  acb_ToolUseID :: string
  acb_Content :: json
  acb_IsError :: bool

definition anthropic_ContentBlock0 :: anthropic_ContentBlock where
  "anthropic_ContentBlock0 = \<lparr>acb_Type = [], acb_Text = [], acb_Source = None, acb_ID = [],
     acb_Name = [], acb_Input = JNull, acb_ToolUseID = [], acb_Content = JNull,
     acb_IsError = False\<rparr>"

text \<open>\<^verbatim>\<open>Message.Content\<close> is \<^verbatim>\<open>any\<close>: a bare string or a slice of blocks.\<close>

datatype anthropic_Content = ContentString string | ContentBlocks "anthropic_ContentBlock list"

record anthropic_Message =
  am_Role :: string
  am_Content :: anthropic_Content

record anthropic_Tool =
  atool_Name :: string
  atool_Description :: string
  atool_InputSchema :: "jmap option"

record anthropic_ToolChoice =
  atc_Type :: string
  atc_Name :: string
  atc_DisableParallelToolUse :: bool

record anthropic_OutputFormat =
  aof_Type :: string
  aof_Schema :: "jmap option"

record anthropic_OutputConfig =
  aocfg_Format :: "anthropic_OutputFormat option"

text \<open>\<^verbatim>\<open>MessagesRequest\<close>.  \<^verbatim>\<open>MaxTokens\<close> is a plain \<^verbatim>\<open>int\<close> whose JSON tag has no
  \<^verbatim>\<open>omitempty\<close>: the wire request always carries it.  \<^verbatim>\<open>System\<close> is \<^verbatim>\<open>any\<close>
  (\<^const>\<open>JNull\<close> when unset).  \<^verbatim>\<open>Metadata\<close> is never set by the transformer and is left
  out.\<close>

record anthropic_MessagesRequest =
  amr_Model :: string
  amr_Messages :: "anthropic_Message list"
  amr_MaxTokens :: int
  amr_System :: json
  amr_Temperature :: "real option"
  amr_TopP :: "real option"
  amr_TopK :: "int option"
  amr_StopSequences :: "string list"
  amr_Stream :: bool
  amr_Tools :: "anthropic_Tool list"
  amr_ToolChoice :: "anthropic_ToolChoice option"
  amr_OutputConfig :: "anthropic_OutputConfig option"

definition anthropic_mapRole :: "string \<Rightarrow> string" where
  "anthropic_mapRole role =
     (if role = RoleUser \<or> role = RoleTool then ''user''
      else if role = RoleAssistant then ''assistant''
      else ''user'')"

text \<open>One iteration of the loop of \<^verbatim>\<open>transformContentBlocks\<close>: the blocks appended for
  one unified block (none for an unknown type).\<close>

definition anthropic_transformContentBlock :: "ContentBlock \<Rightarrow> anthropic_ContentBlock list" where
  "anthropic_transformContentBlock block =
     (if cb_Type block = ContentTypeText then
        [anthropic_ContentBlock0\<lparr>acb_Type := ''text'', acb_Text := cb_Text block\<rparr>]
      else if cb_Type block = ContentTypeImage then
        [anthropic_ContentBlock0\<lparr>acb_Type := ''image'',
           acb_Source :=
             (if cb_ImageBase64 block \<noteq> [] then
                Some \<lparr>ais_Type = ''base64'', ais_MediaType = cb_MediaType block,
                       ais_Data = cb_ImageBase64 block, ais_URL = []\<rparr>
              else if cb_ImageURL block \<noteq> [] then
                Some \<lparr>ais_Type = ''url'', ais_MediaType = [], ais_Data = [],
                       ais_URL = cb_ImageURL block\<rparr>
              else None)\<rparr>]
      else if cb_Type block = ContentTypeToolUse then
        [anthropic_ContentBlock0\<lparr>acb_Type := ''tool_use'', acb_ID := cb_ToolUseID block,
           acb_Name := cb_ToolName block, acb_Input := cb_ToolInput block\<rparr>]
      else if cb_Type block = ContentTypeToolResult then
        [anthropic_ContentBlock0\<lparr>acb_Type := ''tool_result'',
           acb_ToolUseID := cb_ToolResultID block, acb_Content := JStr (cb_Text block),
           acb_IsError := cb_IsError block\<rparr>]
      else [])"

definition anthropic_transformContentBlocks :: "ContentBlock list \<Rightarrow> anthropic_ContentBlock list" where
  "anthropic_transformContentBlocks blocks = concat (map anthropic_transformContentBlock blocks)"

text \<open>The inner loop of \<^verbatim>\<open>transformMessages\<close> over the blocks of a system message: a
  text block is appended to the running \<^verbatim>\<open>system\<close> string, after a newline when the
  string is not empty.\<close>

fun anthropic_appendSystem :: "string \<Rightarrow> ContentBlock list \<Rightarrow> string" where
  "anthropic_appendSystem system [] = system"
| "anthropic_appendSystem system (block # blocks) =
     (if cb_Type block = ContentTypeText
      then anthropic_appendSystem ((if system \<noteq> [] then system @ [CHR 10] else system) @ cb_Text block) blocks
      else anthropic_appendSystem system blocks)"

text \<open>The outer loop, with the accumulators \<^verbatim>\<open>result\<close> and \<^verbatim>\<open>system\<close>.\<close>

fun anthropic_transformMessages_loop ::
  "Message list \<Rightarrow> anthropic_Message list \<Rightarrow> string \<Rightarrow> anthropic_Message list \<times> string" where
  "anthropic_transformMessages_loop [] result system = (result, system)"
| "anthropic_transformMessages_loop (msg # messages) result system =
     (if msg_Role msg = RoleSystem
      then anthropic_transformMessages_loop messages result
             (anthropic_appendSystem system (msg_Content msg))
      else anthropic_transformMessages_loop messages
             (result @ [\<lparr>am_Role = anthropic_mapRole (msg_Role msg),
                am_Content =
                  (case msg_Content msg of
                     [b] \<Rightarrow> if cb_Type b = ContentTypeText then ContentString (cb_Text b)
                            else ContentBlocks (anthropic_transformContentBlocks (msg_Content msg))
                   | _ \<Rightarrow> ContentBlocks (anthropic_transformContentBlocks (msg_Content msg)))\<rparr>])
             system)"

definition anthropic_transformMessages :: "Message list \<Rightarrow> anthropic_Message list \<times> string" where
  "anthropic_transformMessages messages = anthropic_transformMessages_loop messages [] []"

definition anthropic_transformResponseFormat :: "ResponseFormat \<Rightarrow> anthropic_OutputConfig option" where
  "anthropic_transformResponseFormat rf =
     (case ToAnthropic (Some rf) of
        None \<Rightarrow> None
      | Some anthConfig \<Rightarrow>
          Some \<lparr>aocfg_Format =
            (case aoc_Format anthConfig of
               None \<Rightarrow> None
             | Some f \<Rightarrow> Some \<lparr>aof_Type = af_Type f, aof_Schema = af_Schema f\<rparr>)\<rparr>)"

definition anthropic_transformTools :: "Tool list \<Rightarrow> anthropic_Tool list" where
  "anthropic_transformTools tools =
     map (\<lambda>tool. \<lparr>atool_Name = at_Name tool, atool_Description = at_Description tool,
                   atool_InputSchema = at_InputSchema tool\<rparr>) (ToolsToAnthropic tools)"

definition anthropic_transformToolChoice :: "ToolChoice \<Rightarrow> anthropic_ToolChoice" where
  "anthropic_transformToolChoice tc =
     (let result = \<lparr>atc_Type = [], atc_Name = [],
                     atc_DisableParallelToolUse = tch_DisableParallelToolUse tc\<rparr>
      in if tch_Type tc = ToolChoiceAuto then result\<lparr>atc_Type := ''auto''\<rparr>
         else if tch_Type tc = ToolChoiceRequired then result\<lparr>atc_Type := ''any''\<rparr>
         else if tch_Type tc = ToolChoiceNone then result\<lparr>atc_Type := ''none''\<rparr>
         else if tch_Type tc = ToolChoiceTool
           then result\<lparr>atc_Type := ''tool'', atc_Name := tch_Name tc\<rparr>
         else result\<lparr>atc_Type := ''auto''\<rparr>)"

text \<open>\<^verbatim>\<open>Transformer.TransformRequest\<close>: the literal with the default \<^verbatim>\<open>MaxTokens: 8192\<close>,
  then the conditional assignments in the source's order.\<close>

definition anthropic_TransformRequest :: "CompletionRequest \<Rightarrow> anthropic_MessagesRequest" where
  "anthropic_TransformRequest req =
     (let anthReq0 = \<lparr>amr_Model = req_Model req, amr_Messages = [], amr_MaxTokens = 8192,
            amr_System = JNull, amr_Temperature = req_Temperature req, amr_TopP = req_TopP req,
            amr_TopK = req_TopK req, amr_StopSequences = req_StopSequences req,
            amr_Stream = req_Stream req, amr_Tools = [], amr_ToolChoice = None,
            amr_OutputConfig = None\<rparr>;
          anthReq1 = (case req_MaxTokens req of
                        Some n \<Rightarrow> anthReq0\<lparr>amr_MaxTokens := n\<rparr>
                      | None \<Rightarrow> anthReq0);
          (messages, system) = anthropic_transformMessages (req_Messages req);
          anthReq2 = anthReq1\<lparr>amr_Messages := messages\<rparr>;
          anthReq3 = (if system \<noteq> [] then anthReq2\<lparr>amr_System := JStr system\<rparr> else anthReq2);
          anthReq4 = (case req_ResponseFormat req of
                        Some rf \<Rightarrow> anthReq3\<lparr>amr_OutputConfig := anthropic_transformResponseFormat rf\<rparr>
                      | None \<Rightarrow> anthReq3);
          anthReq5 = (if length (req_Tools req) > 0
                      then anthReq4\<lparr>amr_Tools := anthropic_transformTools (req_Tools req)\<rparr>
                      else anthReq4);
          anthReq6 = (case req_ToolChoice req of
                        Some tc \<Rightarrow> anthReq5\<lparr>amr_ToolChoice := Some (anthropic_transformToolChoice tc)\<rparr>
                      | None \<Rightarrow> anthReq5)
      in anthReq6)"

subsection \<open>The max_tokens default\<close>

text \<open>A request with two system messages and a user message, as in the adapter's own
  test \<^verbatim>\<open>TestTransformRequest_MultipleSystemMessages\<close>.\<close>

definition request0 :: CompletionRequest where
  "request0 = \<lparr>req_Provider = ProviderAnthropic, req_Model = ''claude-3-5-haiku-20241022'',
     req_Messages = [NewTextMessage RoleSystem ''Line 1'', NewTextMessage RoleSystem ''Line 2'',
                     NewTextMessage RoleUser ''Hello''],
     req_MaxTokens = None, req_Temperature = None, req_TopP = None, req_TopK = None,
     req_StopSequences = [], req_ResponseFormat = None, req_Tools = [], req_ToolChoice = None,
     req_Stream = False\<rparr>"

text \<open>
  \<^bold>\<open>Claim C10.\<close>  The Anthropic wire request always carries \<^verbatim>\<open>max_tokens\<close>: the value of
  \<^verbatim>\<open>*req.MaxTokens\<close> when the request sets it, and 8192 when \<^verbatim>\<open>MaxTokens\<close> is nil.
\<close>

theorem anthropic_max_tokens:
  "amr_MaxTokens (anthropic_TransformRequest req) =
     (case req_MaxTokens req of Some n \<Rightarrow> n | None \<Rightarrow> 8192)"
  by (simp add: anthropic_TransformRequest_def Let_def split: option.splits prod.splits)

theorem anthropic_max_tokens_witness:
  "amr_MaxTokens (anthropic_TransformRequest request0) = 8192 \<and>
   amr_MaxTokens (anthropic_TransformRequest (request0\<lparr>req_MaxTokens := Some 50\<rparr>)) = 50"
  using anthropic_max_tokens [of request0]
    anthropic_max_tokens [of "request0\<lparr>req_MaxTokens := Some 50\<rparr>"]
  by (simp add: request0_def)

section \<open>Google adapter: request transformer\<close>

record google_InlineData =
  gid_MimeType :: string
  gid_Data :: string

record google_FileData =
  gfd_MimeType :: string
  gfd_FileURI :: string

text \<open>A \<^verbatim>\<open>map[string]any\<close> field that may be nil is a \<^typ>\<open>jmap option\<close>.\<close>

record google_FunctionCall =
  gfc_Name :: string
  gfc_Args :: "jmap option"

record google_FunctionResponse =
  gfr_Name :: string
  gfr_Response :: "jmap option"

record google_Part =
  gp_Text :: string
  gp_InlineData :: "google_InlineData option"
  gp_FileData :: "google_FileData option"
  gp_FunctionCall :: "google_FunctionCall option"
  gp_FunctionResponse :: "google_FunctionResponse option"

definition google_Part0 :: google_Part where
  "google_Part0 = \<lparr>gp_Text = [], gp_InlineData = None, gp_FileData = None,
     gp_FunctionCall = None, gp_FunctionResponse = None\<rparr>"

record google_Content =
  gc_Role :: string
  gc_Parts :: "google_Part list"

definition google_mapRole :: "string \<Rightarrow> string" where
  "google_mapRole role =
     (if role = RoleUser \<or> role = RoleTool then ''user''
      else if role = RoleAssistant then ''model''
      else ''user'')"

text \<open>\<^verbatim>\<open>transformParts\<close> decodes a tool result's text with \<^verbatim>\<open>json.Unmarshal\<close> into a
  \<^verbatim>\<open>map[string]any\<close>.  The decoder is a parameter \<open>unmarshal\<close>: \<^const>\<open>None\<close> is a
  decoding error, \<open>Some None\<close> the nil map that JSON \<^verbatim>\<open>null\<close> leaves.\<close>

definition google_transformPart ::
  "(string \<Rightarrow> jmap option option) \<Rightarrow> ContentBlock \<Rightarrow> google_Part list" where
  "google_transformPart unmarshal block =
     (if cb_Type block = ContentTypeText then [google_Part0\<lparr>gp_Text := cb_Text block\<rparr>]
      else if cb_Type block = ContentTypeImage then
        (if cb_ImageBase64 block \<noteq> [] then
           [google_Part0\<lparr>gp_InlineData :=
              Some \<lparr>gid_MimeType = cb_MediaType block, gid_Data = cb_ImageBase64 block\<rparr>\<rparr>]
         else if cb_ImageURL block \<noteq> [] then
           [google_Part0\<lparr>gp_FileData :=
              Some \<lparr>gfd_MimeType = cb_MediaType block, gfd_FileURI = cb_ImageURL block\<rparr>\<rparr>]
         else [])
      else if cb_Type block = ContentTypeToolUse then
        [google_Part0\<lparr>gp_FunctionCall :=
           Some \<lparr>gfc_Name = cb_ToolName block,
                  gfc_Args = (case cb_ToolInput block of JObj args \<Rightarrow> Some args | _ \<Rightarrow> None)\<rparr>\<rparr>]
      else if cb_Type block = ContentTypeToolResult then
        [google_Part0\<lparr>gp_FunctionResponse :=
           Some \<lparr>gfr_Name = cb_ToolName block,
                  gfr_Response =
                    (case unmarshal (cb_Text block) of
                       None \<Rightarrow> Some [(''result'', JStr (cb_Text block))]
                     | Some response \<Rightarrow> response)\<rparr>\<rparr>]
      else [])"

definition google_transformParts ::
  "(string \<Rightarrow> jmap option option) \<Rightarrow> ContentBlock list \<Rightarrow> google_Part list" where
  "google_transformParts unmarshal blocks = concat (map (google_transformPart unmarshal) blocks)"

text \<open>The parts collected from one system message: one per text block.\<close>

definition google_systemParts :: "ContentBlock list \<Rightarrow> google_Part list" where
  "google_systemParts blocks =
     map (\<lambda>block. google_Part0\<lparr>gp_Text := cb_Text block\<rparr>)
       (filter (\<lambda>block. cb_Type block = ContentTypeText) blocks)"

text \<open>\<^verbatim>\<open>transformMessages\<close>, with the accumulators \<^verbatim>\<open>contents\<close> and
  \<^verbatim>\<open>systemInstruction\<close>.  A system message with at least one text part \<^emph>\<open>assigns\<close>
  \<^verbatim>\<open>systemInstruction\<close>.\<close>

fun google_transformMessages_loop ::
  "(string \<Rightarrow> jmap option option) \<Rightarrow> Message list \<Rightarrow> google_Content list \<Rightarrow>
   google_Content option \<Rightarrow> google_Content list \<times> google_Content option" where
  "google_transformMessages_loop unmarshal [] contents systemInstruction =
     (contents, systemInstruction)"
| "google_transformMessages_loop unmarshal (msg # messages) contents systemInstruction =
     (if msg_Role msg = RoleSystem then
        (let parts = google_systemParts (msg_Content msg)
         in google_transformMessages_loop unmarshal messages contents
              (if length parts > 0 then Some \<lparr>gc_Role = [], gc_Parts = parts\<rparr>
               else systemInstruction))
      else google_transformMessages_loop unmarshal messages
             (contents @ [\<lparr>gc_Role = google_mapRole (msg_Role msg),
                            gc_Parts = google_transformParts unmarshal (msg_Content msg)\<rparr>])
             systemInstruction)"

definition google_transformMessages ::
  "(string \<Rightarrow> jmap option option) \<Rightarrow> Message list \<Rightarrow> google_Content list \<times> google_Content option" where
  "google_transformMessages unmarshal messages =
     google_transformMessages_loop unmarshal messages [] None"



datatype google_Schema = google_Schema
  (gsch_Type: string)
  (gsch_Description: string)
  (gsch_Enum: "string list")
  (gsch_Properties: "(string \<times> google_Schema) list")
  (gsch_Required: "string list")
  (gsch_Items: "google_Schema option")
  (gsch_Nullable: bool)

primrec google_convertGoogleSchema :: "GoogleSchema \<Rightarrow> google_Schema" where
  "google_convertGoogleSchema (GoogleSchema typ descr enum props req items nullable) =
     google_Schema typ descr enum (map (map_prod id google_convertGoogleSchema) props) req
       (map_option google_convertGoogleSchema items) nullable"

record google_GenerationConfig =
  ggen_Temperature :: "real option"
  ggen_TopP :: "real option"
  ggen_TopK :: "int option"
  ggen_MaxOutputTokens :: "int option"
  ggen_StopSequences :: "string list"
  ggen_ResponseMimeType :: string
  ggen_ResponseSchema :: "google_Schema option"

definition google_applyResponseFormat ::
  "(any_value \<Rightarrow> string) \<Rightarrow> google_GenerationConfig \<Rightarrow> ResponseFormat \<Rightarrow> google_GenerationConfig" where
  "google_applyResponseFormat marshal config rf =
     (case ToGoogle marshal (Some rf) of
        None \<Rightarrow> config
      | Some googleConfig \<Rightarrow>
          (let config1 = config\<lparr>ggen_ResponseMimeType := ggc_ResponseMimeType googleConfig\<rparr>
           in case ggc_ResponseSchema googleConfig of
                None \<Rightarrow> config1
              | Some sch \<Rightarrow> config1\<lparr>ggen_ResponseSchema := Some (google_convertGoogleSchema sch)\<rparr>))"

record google_FunctionDeclaration =
  gdecl_Name :: string
  gdecl_Description :: string
  gdecl_Parameters :: "google_Schema option"

record google_Tool =
  gtool_FunctionDeclarations :: "google_FunctionDeclaration list"

definition google_transformTools :: "(any_value \<Rightarrow> string) \<Rightarrow> Tool list \<Rightarrow> google_Tool list" where
  "google_transformTools marshal tools =
     (case ToolsToGoogle marshal tools of
        None \<Rightarrow> []
      | Some googleTool \<Rightarrow>
          [\<lparr>gtool_FunctionDeclarations =
              map (\<lambda>decl. \<lparr>gdecl_Name = gfdecl_Name decl, gdecl_Description = gfdecl_Description decl,
                     gdecl_Parameters = map_option google_convertGoogleSchema (gfdecl_Parameters decl)\<rparr>)
                (gt_FunctionDeclarations googleTool)\<rparr>])"

record google_FunctionCallingConfig =
  gfcc_Mode :: string
  gfcc_AllowedFunctionNames :: "string list"

record google_ToolConfig =
  gtc_FunctionCallingConfig :: "google_FunctionCallingConfig option"

definition google_transformToolChoice :: "ToolChoice \<Rightarrow> google_ToolConfig" where
  "google_transformToolChoice tc =
     \<lparr>gtc_FunctionCallingConfig = Some
        (if tch_Type tc = ToolChoiceAuto
           then \<lparr>gfcc_Mode = ''AUTO'', gfcc_AllowedFunctionNames = []\<rparr>
         else if tch_Type tc = ToolChoiceRequired
           then \<lparr>gfcc_Mode = ''ANY'', gfcc_AllowedFunctionNames = []\<rparr>
         else if tch_Type tc = ToolChoiceNone
           then \<lparr>gfcc_Mode = ''NONE'', gfcc_AllowedFunctionNames = []\<rparr>
         else if tch_Type tc = ToolChoiceTool
           then \<lparr>gfcc_Mode = ''ANY'', gfcc_AllowedFunctionNames = [tch_Name tc]\<rparr>
         else \<lparr>gfcc_Mode = ''AUTO'', gfcc_AllowedFunctionNames = []\<rparr>)\<rparr>"

text \<open>\<^verbatim>\<open>GenerateContentRequest\<close> (\<^verbatim>\<open>SafetySettings\<close> is never set by the transformer and
  is left out).\<close>

record google_GenerateContentRequest =
  ggr_Contents :: "google_Content list"
  ggr_SystemInstruction :: "google_Content option"
  ggr_GenerationConfig :: "google_GenerationConfig option"
  ggr_Tools :: "google_Tool list"
  ggr_ToolConfig :: "google_ToolConfig option"

definition google_TransformRequest ::
  "(any_value \<Rightarrow> string) \<Rightarrow> (string \<Rightarrow> jmap option option) \<Rightarrow> CompletionRequest \<Rightarrow>
   google_GenerateContentRequest" where
  "google_TransformRequest marshal unmarshal req =
     (let (contents, systemInstruction) = google_transformMessages unmarshal (req_Messages req);
          genConfig0 = \<lparr>ggen_Temperature = req_Temperature req, ggen_TopP = req_TopP req,
             ggen_TopK = req_TopK req, ggen_MaxOutputTokens = req_MaxTokens req,
             ggen_StopSequences = req_StopSequences req, ggen_ResponseMimeType = [],
             ggen_ResponseSchema = None\<rparr>;
          genConfig = (case req_ResponseFormat req of
                         Some rf \<Rightarrow> google_applyResponseFormat marshal genConfig0 rf
                       | None \<Rightarrow> genConfig0)
      in \<lparr>ggr_Contents = contents, ggr_SystemInstruction = systemInstruction,
           ggr_GenerationConfig = Some genConfig,
           ggr_Tools = (if length (req_Tools req) > 0
                        then google_transformTools marshal (req_Tools req) else []),
           ggr_ToolConfig = map_option google_transformToolChoice (req_ToolChoice req)\<rparr>)"

subsection \<open>System messages\<close>

text \<open>\<^verbatim>\<open>strings.Join\<close>, and the texts of the text blocks of the system messages of a
  message list, in order.\<close>

fun join :: "string \<Rightarrow> string list \<Rightarrow> string" where
  "join sep [] = []"
| "join sep [x] = x"
| "join sep (x # y # ys) = x @ sep @ join sep (y # ys)"

definition block_texts :: "ContentBlock list \<Rightarrow> string list" where
  "block_texts blocks = map cb_Text (filter (\<lambda>b. cb_Type b = ContentTypeText) blocks)"

definition system_texts :: "Message list \<Rightarrow> string list" where
  "system_texts messages =
     concat (map (\<lambda>m. block_texts (msg_Content m)) (filter (\<lambda>m. msg_Role m = RoleSystem) messages))"

text \<open>Appending texts to the running system string, as the Anthropic loop does.\<close>

fun append_texts :: "string \<Rightarrow> string list \<Rightarrow> string" where
  "append_texts system [] = system"
| "append_texts system (t # ts) =
     append_texts ((if system \<noteq> [] then system @ [CHR 10] else system) @ t) ts"

lemma append_texts_append: "append_texts system (ts @ us) = append_texts (append_texts system ts) us"
  by (induction ts arbitrary: system) simp_all

lemma anthropic_appendSystem_texts:
  "anthropic_appendSystem system blocks = append_texts system (block_texts blocks)"
  by (induction blocks arbitrary: system) (simp_all add: block_texts_def)

lemma anthropic_loop_system:
  "snd (anthropic_transformMessages_loop messages result system) =
     append_texts system (system_texts messages)"
proof (induction messages arbitrary: result system)
  case Nil
  show ?case by (simp add: system_texts_def)
next
  case (Cons msg messages)
  show ?case
    using Cons.IH
    by (simp add: system_texts_def anthropic_appendSystem_texts append_texts_append)
qed

lemma append_texts_nonempty:
  "system \<noteq> [] \<Longrightarrow> append_texts system ts = system @ concat (map (\<lambda>t. CHR 10 # t) ts)"
  by (induction ts arbitrary: system) simp_all

lemma join_cons: "join [CHR 10] (t # ts) = t @ concat (map (\<lambda>u. CHR 10 # u) ts)"
  by (induction ts arbitrary: t) simp_all

lemma append_texts_empty:
  "append_texts [] ts = join [CHR 10] (dropWhile (\<lambda>t. t = []) ts)"
proof (induction ts)
  case Nil
  show ?case by simp
next
  case (Cons t ts)
  show ?case
  proof (cases "t = []")
    case True
    with Cons show ?thesis by simp
  next
    case False
    then show ?thesis by (simp add: append_texts_nonempty join_cons)
  qed
qed

lemma anthropic_system_join:
  "snd (anthropic_transformMessages messages) =
     join [CHR 10] (dropWhile (\<lambda>t. t = []) (system_texts messages))"
  by (simp add: anthropic_transformMessages_def anthropic_loop_system append_texts_empty)

lemma anthropic_request_system:
  "amr_System (anthropic_TransformRequest req) =
     (let system = join [CHR 10] (dropWhile (\<lambda>t. t = []) (system_texts (req_Messages req)))
      in if system \<noteq> [] then JStr system else JNull)"
proof (cases "anthropic_transformMessages (req_Messages req)")
  case (Pair messages system)
  with anthropic_system_join [of "req_Messages req"] show ?thesis
    by (auto simp add: anthropic_TransformRequest_def Let_def split: option.splits)
qed

text \<open>The Google loop: the instruction left at the end is built from the last system
  message that has a text block; earlier system messages leave no trace.\<close>

lemma google_loop_system:
  "snd (google_transformMessages_loop unmarshal messages contents systemInstruction) =
     (case filter (\<lambda>ts. ts \<noteq> [])
             (map (\<lambda>m. block_texts (msg_Content m)) (filter (\<lambda>m. msg_Role m = RoleSystem) messages)) of
        [] \<Rightarrow> systemInstruction
      | tss \<Rightarrow> Some \<lparr>gc_Role = [], gc_Parts = map (\<lambda>t. google_Part0\<lparr>gp_Text := t\<rparr>) (last tss)\<rparr>)"
proof (induction messages arbitrary: contents systemInstruction)
  case Nil
  show ?case by simp
next
  case (Cons msg messages)
  show ?case
    using Cons.IH
    by (auto simp add: Let_def google_systemParts_def block_texts_def split: list.splits)
qed

text \<open>
  \<^bold>\<open>Claim C5.\<close>  A request with two or more system messages should carry all their
  texts on the provider's system channel, joined by newlines in message order.  The
  Anthropic transformer does (\<open>anthropic_request_system\<close>, up to leading empty texts).
  The Google transformer does not: on the request of the Anthropic adapter's own test,
  with system messages \<^verbatim>\<open>Line 1\<close> and \<^verbatim>\<open>Line 2\<close>, its \<^verbatim>\<open>systemInstruction\<close> holds the
  single part \<^verbatim>\<open>Line 2\<close>, and \<^verbatim>\<open>Line 1\<close> is nowhere in the request.
\<close>

theorem google_system_messages_last_wins:
  "ggr_SystemInstruction (google_TransformRequest marshal unmarshal request0) =
     Some \<lparr>gc_Role = [], gc_Parts = [google_Part0\<lparr>gp_Text := ''Line 2''\<rparr>]\<rparr>
   \<and> system_texts (req_Messages request0) = [''Line 1'', ''Line 2'']
   \<and> amr_System (anthropic_TransformRequest request0) = JStr (join [CHR 10] [''Line 1'', ''Line 2''])"
  by (simp add: google_TransformRequest_def google_transformMessages_def request0_def
      NewTextMessage_def google_systemParts_def system_texts_def block_texts_def
      anthropic_TransformRequest_def anthropic_transformMessages_def)

section \<open>HTTP error mapping of the three clients\<close>

text \<open>\<^verbatim>\<open>strings.Contains\<close>: some suffix of \<open>s\<close> starts with \<open>substr\<close>.\<close>

fun Contains :: "string \<Rightarrow> string \<Rightarrow> bool" where
  "Contains [] substr = (substr = [])"
| "Contains (c # s) substr = (prefix substr (c # s) \<or> Contains s substr)"

abbreviation StatusUnauthorized :: int where "StatusUnauthorized \<equiv> 401"
abbreviation StatusTooManyRequests :: int where "StatusTooManyRequests \<equiv> 429"
abbreviation StatusNotFound :: int where "StatusNotFound \<equiv> 404"
abbreviation StatusBadRequest :: int where "StatusBadRequest \<equiv> 400"

record openai_APIError =
  oerr_Message :: string
  oerr_Type :: string
  oerr_Param :: string
  oerr_Code :: string

record anthropic_APIError =
  aerr_Type :: string
  aerr_Message :: string

record google_APIError =
  gerr_Code :: int
  gerr_Message :: string
  gerr_Status :: string

definition openai_mapAPIError :: "openai_APIError \<Rightarrow> int \<Rightarrow> RouterError" where
  "openai_mapAPIError apiErr statusCode =
     (if statusCode = StatusUnauthorized then
        WithStatusCode statusCode (ErrInvalidAPIKey ProviderOpenAI)
      else if statusCode = StatusTooManyRequests then
        WithStatusCode statusCode (ErrRateLimit ProviderOpenAI (oerr_Message apiErr))
      else if statusCode = StatusNotFound then
        WithStatusCode statusCode (ErrModelNotFound ProviderOpenAI (oerr_Message apiErr))
      else if statusCode = StatusBadRequest then
        (if Contains (oerr_Message apiErr) ''context_length'' then
           WithStatusCode statusCode (ErrContextLength ProviderOpenAI (oerr_Message apiErr))
         else WithStatusCode statusCode
                (WithProvider ProviderOpenAI (ErrInvalidRequest (oerr_Message apiErr))))
      else WithStatusCode statusCode (ErrServerError ProviderOpenAI (oerr_Message apiErr)))"

definition anthropic_mapAPIError :: "anthropic_APIError \<Rightarrow> int \<Rightarrow> RouterError" where
  "anthropic_mapAPIError apiErr statusCode =
     (if statusCode = StatusUnauthorized then
        WithStatusCode statusCode (ErrInvalidAPIKey ProviderAnthropic)
      else if statusCode = StatusTooManyRequests then
        WithStatusCode statusCode (ErrRateLimit ProviderAnthropic (aerr_Message apiErr))
      else if statusCode = StatusNotFound then
        WithStatusCode statusCode (ErrModelNotFound ProviderAnthropic (aerr_Message apiErr))
      else if statusCode = StatusBadRequest then
        (if Contains (aerr_Message apiErr) ''context'' \<or> Contains (aerr_Message apiErr) ''token'' then
           WithStatusCode statusCode (ErrContextLength ProviderAnthropic (aerr_Message apiErr))
         else WithStatusCode statusCode
                (WithProvider ProviderAnthropic (ErrInvalidRequest (aerr_Message apiErr))))
      else WithStatusCode statusCode (ErrServerError ProviderAnthropic (aerr_Message apiErr)))"

definition google_mapAPIError :: "google_APIError \<Rightarrow> int \<Rightarrow> RouterError" where
  "google_mapAPIError apiErr statusCode =
     (if statusCode = StatusUnauthorized then
        WithStatusCode statusCode (ErrInvalidAPIKey ProviderGoogle)
      else if statusCode = StatusTooManyRequests then
        WithStatusCode statusCode (ErrRateLimit ProviderGoogle (gerr_Message apiErr))
      else if statusCode = StatusNotFound then
        WithStatusCode statusCode (ErrModelNotFound ProviderGoogle (gerr_Message apiErr))
      else if statusCode = StatusBadRequest then
        (if Contains (gerr_Message apiErr) ''context'' \<or> Contains (gerr_Message apiErr) ''token'' then
           WithStatusCode statusCode (ErrContextLength ProviderGoogle (gerr_Message apiErr))
         else WithStatusCode statusCode
                (WithProvider ProviderGoogle (ErrInvalidRequest (gerr_Message apiErr))))
      else WithStatusCode statusCode (ErrServerError ProviderGoogle (gerr_Message apiErr)))"

text \<open>\<^verbatim>\<open>handleErrorResponse\<close> reads the body and decodes it as the provider's
  \<^verbatim>\<open>ErrorResponse\<close>, whose one field is the pointer \<^verbatim>\<open>Error\<close>.  The decoder is the
  parameter \<open>decode\<close>: \<^const>\<open>None\<close> is a decoding error, \<open>Some None\<close> a body that decodes
  with a nil \<^verbatim>\<open>Error\<close>.\<close>

definition openai_handleErrorResponse ::
  "(string \<Rightarrow> openai_APIError option option) \<Rightarrow> string \<Rightarrow> int \<Rightarrow> RouterError" where
  "openai_handleErrorResponse decode body statusCode =
     (case decode body of
        Some (Some apiErr) \<Rightarrow> openai_mapAPIError apiErr statusCode
      | _ \<Rightarrow> WithStatusCode statusCode (ErrServerError ProviderOpenAI body))"

definition anthropic_handleErrorResponse ::
  "(string \<Rightarrow> anthropic_APIError option option) \<Rightarrow> string \<Rightarrow> int \<Rightarrow> RouterError" where
  "anthropic_handleErrorResponse decode body statusCode =
     (case decode body of
        Some (Some apiErr) \<Rightarrow> anthropic_mapAPIError apiErr statusCode
      | _ \<Rightarrow> WithStatusCode statusCode (ErrServerError ProviderAnthropic body))"

definition google_handleErrorResponse ::
  "(string \<Rightarrow> google_APIError option option) \<Rightarrow> string \<Rightarrow> int \<Rightarrow> RouterError" where
  "google_handleErrorResponse decode body statusCode =
     (case decode body of
        Some (Some apiErr) \<Rightarrow> google_mapAPIError apiErr statusCode
      | _ \<Rightarrow> WithStatusCode statusCode (ErrServerError ProviderGoogle body))"

text \<open>The code of the table, given whether the message carries the provider's
  context-length signal.\<close>

definition status_code_table :: "int \<Rightarrow> bool \<Rightarrow> string" where
  "status_code_table statusCode signal =
     (if statusCode = 401 then ErrCodeInvalidAPIKey
      else if statusCode = 429 then ErrCodeRateLimit
      else if statusCode = 404 then ErrCodeModelNotFound
      else if statusCode = 400 then (if signal then ErrCodeContextLength else ErrCodeInvalidRequest)
      else ErrCodeServerError)"

text \<open>One context-window error, as each provider's decoded error body: the message
  speaks of the context length and of tokens, and contains neither an underscore nor
  the substring \<^verbatim>\<open>context_length\<close>.\<close>

definition context_window_message :: string where
  "context_window_message =
     ''maximum context length is 8192 tokens, your messages resulted in 9000 tokens''"

definition openai_context_error :: openai_APIError where
  "openai_context_error = \<lparr>oerr_Message = context_window_message,
     oerr_Type = ''invalid_request_error'', oerr_Param = ''messages'',
     oerr_Code = ''context_length_exceeded''\<rparr>"

definition anthropic_context_error :: anthropic_APIError where
  "anthropic_context_error = \<lparr>aerr_Type = ''invalid_request_error'',
     aerr_Message = context_window_message\<rparr>"

definition google_context_error :: google_APIError where
  "google_context_error = \<lparr>gerr_Code = 400, gerr_Message = context_window_message,
     gerr_Status = ''INVALID_ARGUMENT''\<rparr>"

text \<open>Decoders that answer every body with one fixed provider error.\<close>

definition decode_openai_as :: "openai_APIError \<Rightarrow> string \<Rightarrow> openai_APIError option option" where
  "decode_openai_as e body = Some (Some e)"

definition decode_anthropic_as ::
  "anthropic_APIError \<Rightarrow> string \<Rightarrow> anthropic_APIError option option" where
  "decode_anthropic_as e body = Some (Some e)"

definition decode_google_as :: "google_APIError \<Rightarrow> string \<Rightarrow> google_APIError option option" where
  "decode_google_as e body = Some (Some e)"

lemma Contains_iff_sublist: "Contains s substr \<longleftrightarrow> sublist substr s"
  by (induction s) (auto simp: sublist_Cons_right)

lemmas err_defs = NewError_def WithProvider_def WithStatusCode_def ErrInvalidRequest_def
  ErrRateLimit_def ErrServerError_def ErrInvalidAPIKey_def ErrModelNotFound_def
  ErrContextLength_def ErrUnsupportedFeature_def ErrProviderUnavailable_def

text \<open>What the three clients compute: the code is read off the status, and for 400 off
  a test of the message, which is the substring \<^verbatim>\<open>context\<close> or \<^verbatim>\<open>token\<close> for Anthropic
  and Google and the substring \<^verbatim>\<open>context_length\<close> for OpenAI.\<close>

lemma error_code_by_status:
  assumes "dO body = Some (Some eO)" and "dA body = Some (Some eA)" and "dG body = Some (Some eG)"
  shows "re_Code (openai_handleErrorResponse dO body statusCode) =
           status_code_table statusCode (Contains (oerr_Message eO) ''context_length'')
       \<and> re_Code (anthropic_handleErrorResponse dA body statusCode) =
           status_code_table statusCode
             (Contains (aerr_Message eA) ''context'' \<or> Contains (aerr_Message eA) ''token'')
       \<and> re_Code (google_handleErrorResponse dG body statusCode) =
           status_code_table statusCode
             (Contains (gerr_Message eG) ''context'' \<or> Contains (gerr_Message eG) ''token'')"
  using assms
  by (simp add: openai_handleErrorResponse_def anthropic_handleErrorResponse_def
      google_handleErrorResponse_def openai_mapAPIError_def anthropic_mapAPIError_def
      google_mapAPIError_def status_code_table_def err_defs)

text \<open>
  \<^bold>\<open>Claim C6.\<close>  Every provider should map a 400 whose message contains \<^verbatim>\<open>context\<close> or
  \<^verbatim>\<open>token\<close> to \<^verbatim>\<open>context_length_exceeded\<close>.  For the context-window message above, which
  contains both substrings, the Anthropic and Google clients do so, while the OpenAI client
  answers \<^verbatim>\<open>invalid_request\<close>: its \<^verbatim>\<open>mapAPIError\<close> looks for \<^verbatim>\<open>context_length\<close> in
  the message, although that text is the value of the error's \<^verbatim>\<open>Code\<close> field.
\<close>

theorem openai_context_error_not_recognised:
  "Contains context_window_message ''context''
   \<and> Contains context_window_message ''token''
   \<and> re_Code (openai_handleErrorResponse (decode_openai_as openai_context_error) ''{}'' 400)
       = ErrCodeInvalidRequest
   \<and> re_Code (anthropic_handleErrorResponse (decode_anthropic_as anthropic_context_error) ''{}'' 400)
       = ErrCodeContextLength
   \<and> re_Code (google_handleErrorResponse (decode_google_as google_context_error) ''{}'' 400)
       = ErrCodeContextLength"
  by code_simp

section \<open>Router\<close>

text \<open>The \<^verbatim>\<open>provider.Provider\<close> interface.  \<^verbatim>\<open>Complete\<close> and \<^verbatim>\<open>Stream\<close> act on the
  outside world (they issue the HTTP request); the world is a state \<open>'w\<close> that they take
  and return, and \<open>'r\<close> is the stream reader that \<^verbatim>\<open>Stream\<close> hands back.\<close>

record ('r, 'w) Provider =
  p_Name :: string
  p_SupportsFeature :: "string \<Rightarrow> bool"
  p_Models :: "string list"
  p_Complete :: "CompletionRequest \<Rightarrow> 'w \<Rightarrow> (RouterError + CompletionResponse) \<times> 'w"
  p_Stream :: "CompletionRequest \<Rightarrow> 'w \<Rightarrow> (RouterError + 'r) \<times> 'w"

definition openai_SupportsFeature :: "string \<Rightarrow> bool" where
  "openai_SupportsFeature feature =
     (if feature = FeatureStreaming \<or> feature = FeatureStructuredOutput \<or> feature = FeatureTools
         \<or> feature = FeatureVision \<or> feature = FeatureBatch \<or> feature = FeatureJSON
      then True else False)"

definition anthropic_SupportsFeature :: "string \<Rightarrow> bool" where
  "anthropic_SupportsFeature feature =
     (if feature = FeatureStreaming \<or> feature = FeatureStructuredOutput \<or> feature = FeatureTools
         \<or> feature = FeatureVision \<or> feature = FeatureBatch
      then True
      else if feature = FeatureJSON then False
      else False)"

definition google_SupportsFeature :: "string \<Rightarrow> bool" where
  "google_SupportsFeature feature =
     (if feature = FeatureStreaming \<or> feature = FeatureStructuredOutput \<or> feature = FeatureTools
         \<or> feature = FeatureVision \<or> feature = FeatureJSON
      then True
      else if feature = FeatureBatch then True
      else False)"

definition openai_Models :: "string list" where
  "openai_Models = [''gpt-4o'', ''gpt-4o-mini'', ''gpt-4-turbo'', ''gpt-4'', ''gpt-3.5-turbo'',
     ''o1'', ''o1-mini'', ''o1-preview'']"

definition anthropic_Models :: "string list" where
  "anthropic_Models = [''claude-sonnet-4-20250514'', ''claude-opus-4-20250514'',
     ''claude-3-5-sonnet-20241022'', ''claude-3-5-haiku-20241022'', ''claude-3-opus-20240229'',
     ''claude-3-sonnet-20240229'', ''claude-3-haiku-20240307'']"

definition google_Models :: "string list" where
  "google_Models = [''gemini-2.0-flash'', ''gemini-2.0-flash-lite'', ''gemini-1.5-pro'',
     ''gemini-1.5-flash'', ''gemini-1.5-flash-8b'', ''gemini-1.0-pro'']"

text \<open>The HTTP-performing methods of the three clients, as the router sees them: given
  the API key, what \<^verbatim>\<open>Complete\<close> and \<^verbatim>\<open>Stream\<close> do to the world.\<close>

record ('r, 'w) transport =
  openai_Complete :: "string \<Rightarrow> CompletionRequest \<Rightarrow> 'w \<Rightarrow> (RouterError + CompletionResponse) \<times> 'w"
  openai_Stream :: "string \<Rightarrow> CompletionRequest \<Rightarrow> 'w \<Rightarrow> (RouterError + 'r) \<times> 'w"
  anthropic_Complete :: "string \<Rightarrow> CompletionRequest \<Rightarrow> 'w \<Rightarrow> (RouterError + CompletionResponse) \<times> 'w"
  anthropic_Stream :: "string \<Rightarrow> CompletionRequest \<Rightarrow> 'w \<Rightarrow> (RouterError + 'r) \<times> 'w"
  google_Complete :: "string \<Rightarrow> CompletionRequest \<Rightarrow> 'w \<Rightarrow> (RouterError + CompletionResponse) \<times> 'w"
  google_Stream :: "string \<Rightarrow> CompletionRequest \<Rightarrow> 'w \<Rightarrow> (RouterError + 'r) \<times> 'w"

definition openai_New :: "('r, 'w) transport \<Rightarrow> string \<Rightarrow> ('r, 'w) Provider" where
  "openai_New t apiKey = \<lparr>p_Name = ProviderOpenAI, p_SupportsFeature = openai_SupportsFeature,
     p_Models = openai_Models, p_Complete = openai_Complete t apiKey,
     p_Stream = openai_Stream t apiKey\<rparr>"

definition anthropic_New :: "('r, 'w) transport \<Rightarrow> string \<Rightarrow> ('r, 'w) Provider" where
  "anthropic_New t apiKey = \<lparr>p_Name = ProviderAnthropic,
     p_SupportsFeature = anthropic_SupportsFeature, p_Models = anthropic_Models,
     p_Complete = anthropic_Complete t apiKey, p_Stream = anthropic_Stream t apiKey\<rparr>"

definition google_New :: "('r, 'w) transport \<Rightarrow> string \<Rightarrow> ('r, 'w) Provider" where
  "google_New t apiKey = \<lparr>p_Name = ProviderGoogle, p_SupportsFeature = google_SupportsFeature,
     p_Models = google_Models, p_Complete = google_Complete t apiKey,
     p_Stream = google_Stream t apiKey\<rparr>"

abbreviation PolicyError :: string where "PolicyError \<equiv> ''error''"
abbreviation PolicyWarn :: string where "PolicyWarn \<equiv> ''warn''"
abbreviation PolicyIgnore :: string where "PolicyIgnore \<equiv> ''ignore''"

text \<open>The router: its provider registry (a Go map, here an association list), and its
  configuration.  The batch manager takes no part in \<^verbatim>\<open>Complete\<close> and \<^verbatim>\<open>Stream\<close> and
  is left out.\<close>

record ('r, 'w) Router =
  r_providers :: "(string \<times> ('r, 'w) Provider) list"
  r_OnUnsupportedFeature :: string
  r_Debug :: bool

text \<open>The router options; each \<^verbatim>\<open>With...\<close> function of the source returns a closure
  that \<open>apply_Option\<close> runs.\<close>

datatype Option =
    WithOpenAI string
  | WithAnthropic string
  | WithGoogle string
  | WithUnsupportedFeaturePolicy string
  | WithDebug bool

fun apply_Option :: "('r, 'w) transport \<Rightarrow> Option \<Rightarrow> ('r, 'w) Router \<Rightarrow> ('r, 'w) Router" where
  "apply_Option t (WithOpenAI apiKey) r =
     r\<lparr>r_providers := AList.update ProviderOpenAI (openai_New t apiKey) (r_providers r)\<rparr>"
| "apply_Option t (WithAnthropic apiKey) r =
     r\<lparr>r_providers := AList.update ProviderAnthropic (anthropic_New t apiKey) (r_providers r)\<rparr>"
| "apply_Option t (WithGoogle apiKey) r =
     r\<lparr>r_providers := AList.update ProviderGoogle (google_New t apiKey) (r_providers r)\<rparr>"
| "apply_Option t (WithUnsupportedFeaturePolicy policy) r = r\<lparr>r_OnUnsupportedFeature := policy\<rparr>"
| "apply_Option t (WithDebug debug) r = r\<lparr>r_Debug := debug\<rparr>"

text \<open>\<^verbatim>\<open>router.New\<close>: the default policy is \<^verbatim>\<open>PolicyError\<close>; the options run in order; a
  router without providers is refused.\<close>

definition New :: "('r, 'w) transport \<Rightarrow> Option list \<Rightarrow> string + ('r, 'w) Router" where
  "New t opts =
     (let r = foldl (\<lambda>r opt. apply_Option t opt r)
                \<lparr>r_providers = [], r_OnUnsupportedFeature = PolicyError, r_Debug = False\<rparr> opts
      in if length (r_providers r) = 0 then Inl ''at least one provider must be configured''
         else Inr r)"

definition getProvider :: "('r, 'w) Router \<Rightarrow> string \<Rightarrow> RouterError + ('r, 'w) Provider" where
  "getProvider r name =
     (case map_of (r_providers r) name of
        None \<Rightarrow> Inl (ErrProviderUnavailable name ''provider not configured'')
      | Some p \<Rightarrow> Inr p)"

definition handleUnsupportedFeature :: "('r, 'w) Router \<Rightarrow> string \<Rightarrow> string \<Rightarrow> RouterError option" where
  "handleUnsupportedFeature r providerName feature =
     (if r_OnUnsupportedFeature r = PolicyError then Some (ErrUnsupportedFeature providerName feature)
      else if r_OnUnsupportedFeature r = PolicyWarn then None
      else if r_OnUnsupportedFeature r = PolicyIgnore then None
      else Some (ErrUnsupportedFeature providerName feature))"

text \<open>The vision check of \<^verbatim>\<open>checkFeatureSupport\<close>: the outer loop over the messages.  In
  a message with an image block the inner loop either returns (what
  \<^verbatim>\<open>handleUnsupportedFeature\<close> gives, nil included) or breaks out to the next message.\<close>

fun checkVision :: "('r, 'w) Router \<Rightarrow> ('r, 'w) Provider \<Rightarrow> Message list \<Rightarrow> RouterError option" where
  "checkVision r p [] = None"
| "checkVision r p (msg # msgs) =
     (if \<exists>block \<in> set (msg_Content msg). cb_Type block = ContentTypeImage then
        (if \<not> p_SupportsFeature p FeatureVision
         then handleUnsupportedFeature r (p_Name p) FeatureVision
         else checkVision r p msgs)
      else checkVision r p msgs)"

text \<open>\<^verbatim>\<open>checkFeatureSupport\<close>: every failed check \<^emph>\<open>returns\<close> the policy's answer, so under
  \<^verbatim>\<open>warn\<close> and \<^verbatim>\<open>ignore\<close> the first unsupported feature ends the checks with nil.\<close>

definition checkFeatureSupport ::
  "('r, 'w) Router \<Rightarrow> ('r, 'w) Provider \<Rightarrow> CompletionRequest \<Rightarrow> RouterError option" where
  "checkFeatureSupport r p req =
     (let rfType = (case req_ResponseFormat req of None \<Rightarrow> None | Some rf \<Rightarrow> Some (rf_Type rf))
      in if rfType = Some ''json_schema'' \<and> \<not> p_SupportsFeature p FeatureStructuredOutput
           then handleUnsupportedFeature r (p_Name p) FeatureStructuredOutput
         else if rfType = Some ''json'' \<and> \<not> p_SupportsFeature p FeatureJSON
           then handleUnsupportedFeature r (p_Name p) FeatureJSON
         else if length (req_Tools req) > 0 \<and> \<not> p_SupportsFeature p FeatureTools
           then handleUnsupportedFeature r (p_Name p) FeatureTools
         else checkVision r p (req_Messages req))"

definition Complete ::
  "('r, 'w) Router \<Rightarrow> CompletionRequest \<Rightarrow> 'w \<Rightarrow> (RouterError + CompletionResponse) \<times> 'w" where
  "Complete r req w =
     (case getProvider r (req_Provider req) of
        Inl err \<Rightarrow> (Inl err, w)
      | Inr p \<Rightarrow>
          (case checkFeatureSupport r p req of
             Some err \<Rightarrow> (Inl err, w)
           | None \<Rightarrow> p_Complete p req w))"

definition Stream ::
  "('r, 'w) Router \<Rightarrow> CompletionRequest \<Rightarrow> 'w \<Rightarrow> (RouterError + 'r) \<times> 'w" where
  "Stream r req w =
     (case getProvider r (req_Provider req) of
        Inl err \<Rightarrow> (Inl err, w)
      | Inr p \<Rightarrow>
          if \<not> p_SupportsFeature p FeatureStreaming
          then (Inl (ErrUnsupportedFeature (req_Provider req) FeatureStreaming), w)
          else (case checkFeatureSupport r p req of
                  Some err \<Rightarrow> (Inl err, w)
                | None \<Rightarrow> p_Stream p req w))"

subsection \<open>JSON mode on Anthropic under the default policy\<close>

text \<open>A transport that counts the adapter calls in the world and answers every call with
  \<^verbatim>\<open>provider_unavailable\<close>, and a request for Anthropic in JSON mode.\<close>

definition counting_transport :: "(unit, nat) transport" where
  "counting_transport =
     \<lparr>openai_Complete = (\<lambda>key req n. (Inl (ErrProviderUnavailable ProviderOpenAI ''request failed''), Suc n)),
      openai_Stream = (\<lambda>key req n. (Inl (ErrProviderUnavailable ProviderOpenAI ''request failed''), Suc n)),
      anthropic_Complete = (\<lambda>key req n. (Inl (ErrProviderUnavailable ProviderAnthropic ''request failed''), Suc n)),
      anthropic_Stream = (\<lambda>key req n. (Inl (ErrProviderUnavailable ProviderAnthropic ''request failed''), Suc n)),
      google_Complete = (\<lambda>key req n. (Inl (ErrProviderUnavailable ProviderGoogle ''request failed''), Suc n)),
      google_Stream = (\<lambda>key req n. (Inl (ErrProviderUnavailable ProviderGoogle ''request failed''), Suc n))\<rparr>"

definition json_request :: CompletionRequest where
  "json_request = request0\<lparr>req_ResponseFormat :=
     Some \<lparr>rf_Type = ''json'', rf_Schema = None, rf_Name = [], rf_Description = [],
            rf_Strict = None\<rparr>\<rparr>"

lemma foldl_policy:
  "\<forall>policy. WithUnsupportedFeaturePolicy policy \<notin> set opts \<Longrightarrow>
   r_OnUnsupportedFeature (foldl (\<lambda>r opt. apply_Option t opt r) r0 opts) = r_OnUnsupportedFeature r0"
proof (induction opts arbitrary: r0)
  case Nil
  show ?case by simp
next
  case (Cons opt opts)
  then show ?case by (cases opt) auto
qed

lemma foldl_anthropic:
  "(\<exists>k. WithAnthropic k \<in> set opts) \<or> (\<exists>k. map_of (r_providers r0) ProviderAnthropic = Some (anthropic_New t k)) \<Longrightarrow>
   \<exists>k. map_of (r_providers (foldl (\<lambda>r opt. apply_Option t opt r) r0 opts)) ProviderAnthropic
         = Some (anthropic_New t k)"
proof (induction opts arbitrary: r0)
  case Nil
  then show ?case by simp
next
  case (Cons opt opts)
  show ?case
  proof (cases opt)
    case (WithAnthropic k)
    have "\<exists>k. map_of (r_providers (apply_Option t opt r0)) ProviderAnthropic = Some (anthropic_New t k)"
      by (auto simp add: WithAnthropic update_conv')
    then show ?thesis using Cons.IH [of "apply_Option t opt r0"] by simp
  next
    case (WithOpenAI k)
    with Cons.prems have "(\<exists>k. WithAnthropic k \<in> set opts) \<or>
        (\<exists>k. map_of (r_providers (apply_Option t opt r0)) ProviderAnthropic = Some (anthropic_New t k))"
      by (auto simp: update_conv')
    then show ?thesis using Cons.IH [of "apply_Option t opt r0"] by simp
  next
    case (WithGoogle k)
    with Cons.prems have "(\<exists>k. WithAnthropic k \<in> set opts) \<or>
        (\<exists>k. map_of (r_providers (apply_Option t opt r0)) ProviderAnthropic = Some (anthropic_New t k))"
      by (auto simp: update_conv')
    then show ?thesis using Cons.IH [of "apply_Option t opt r0"] by simp
  next
    case (WithUnsupportedFeaturePolicy pol)
    with Cons.prems have "(\<exists>k. WithAnthropic k \<in> set opts) \<or>
        (\<exists>k. map_of (r_providers (apply_Option t opt r0)) ProviderAnthropic = Some (anthropic_New t k))"
      by auto
    then show ?thesis using Cons.IH [of "apply_Option t opt r0"] by simp
  next
    case (WithDebug d)
    with Cons.prems have "(\<exists>k. WithAnthropic k \<in> set opts) \<or>
        (\<exists>k. map_of (r_providers (apply_Option t opt r0)) ProviderAnthropic = Some (anthropic_New t k))"
      by auto
    then show ?thesis using Cons.IH [of "apply_Option t opt r0"] by simp
  qed
qed

lemma checkFeatureSupport_json:
  assumes "p_SupportsFeature p = anthropic_SupportsFeature" and "p_Name p = ProviderAnthropic"
    and "r_OnUnsupportedFeature r = PolicyError"
    and "req_ResponseFormat req = Some rf" and "rf_Type rf = ''json''"
  shows "checkFeatureSupport r p req = Some (ErrUnsupportedFeature ProviderAnthropic FeatureJSON)"
  using assms
  by (simp add: checkFeatureSupport_def handleUnsupportedFeature_def anthropic_SupportsFeature_def)

text \<open>
  \<^bold>\<open>Claim C7.\<close>  A router built by \<^verbatim>\<open>New\<close> with the Anthropic provider and no policy
  option (so under the default policy \<^verbatim>\<open>error\<close>) answers every \<^verbatim>\<open>Complete\<close> and
  \<^verbatim>\<open>Stream\<close> call for Anthropic with \<^verbatim>\<open>response_format.type = "json"\<close> by the
  \<^verbatim>\<open>unsupported_feature\<close> error, and leaves the world as it was: the result does not
  depend on the adapter's \<^verbatim>\<open>Complete\<close> or \<^verbatim>\<open>Stream\<close>, which is not called.
\<close>

theorem anthropic_json_mode_refused:
  assumes "New t opts = Inr r"
    and "WithAnthropic apiKey \<in> set opts"
    and "\<forall>policy. WithUnsupportedFeaturePolicy policy \<notin> set opts"
    and "req_Provider req = ProviderAnthropic"
    and "req_ResponseFormat req = Some rf" and "rf_Type rf = ''json''"
  shows "Complete r req w = (Inl (ErrUnsupportedFeature ProviderAnthropic FeatureJSON), w)
       \<and> Stream r req w = (Inl (ErrUnsupportedFeature ProviderAnthropic FeatureJSON), w)
       \<and> re_Code (ErrUnsupportedFeature ProviderAnthropic FeatureJSON) = ErrCodeUnsupportedFeature"
proof -
  define r0 :: "('a, 'b) Router" where
    "r0 = \<lparr>r_providers = [], r_OnUnsupportedFeature = PolicyError, r_Debug = False\<rparr>"
  from assms(1) have r: "r = foldl (\<lambda>r opt. apply_Option t opt r) r0 opts"
    by (simp add: New_def r0_def Let_def split: if_splits)
  have pol: "r_OnUnsupportedFeature r = PolicyError"
    unfolding r using foldl_policy [OF assms(3), of t r0] by (simp add: r0_def)
  from assms(2) foldl_anthropic [of opts r0 t]
  obtain k where p: "map_of (r_providers r) ProviderAnthropic = Some (anthropic_New t k)"
    unfolding r by blast
  have chk: "checkFeatureSupport r (anthropic_New t k) req =
      Some (ErrUnsupportedFeature ProviderAnthropic FeatureJSON)"
    by (rule checkFeatureSupport_json [OF _ _ pol assms(5,6)]) (simp_all add: anthropic_New_def)
  have str: "p_SupportsFeature (anthropic_New t k) FeatureStreaming"
    by (simp add: anthropic_New_def anthropic_SupportsFeature_def)
  show ?thesis
    using p chk str assms(4)
    by (simp add: Complete_def Stream_def getProvider_def err_defs)
qed

theorem anthropic_json_mode_refused_witness:
  "(\<exists>r. New counting_transport [WithAnthropic ''sk-ant-key''] = Inr r
        \<and> Complete r json_request 0 = (Inl (ErrUnsupportedFeature ProviderAnthropic FeatureJSON), 0)
        \<and> Stream r json_request 0 = (Inl (ErrUnsupportedFeature ProviderAnthropic FeatureJSON), 0))
   \<and> anthropic_Complete counting_transport ''sk-ant-key'' json_request 0
        = (Inl (ErrProviderUnavailable ProviderAnthropic ''request failed''), 1)"
proof -
  obtain r where r: "New counting_transport [WithAnthropic ''sk-ant-key''] = Inr r"
    by (simp add: New_def)
  have "Complete r json_request 0 = (Inl (ErrUnsupportedFeature ProviderAnthropic FeatureJSON), 0)
      \<and> Stream r json_request 0 = (Inl (ErrUnsupportedFeature ProviderAnthropic FeatureJSON), 0)"
    using anthropic_json_mode_refused [OF r, of "''sk-ant-key''" json_request _ 0]
    by (simp add: json_request_def request0_def)
  with r show ?thesis by (auto simp add: counting_transport_def)
qed

section \<open>Stream events and readers (pkg/types)\<close>

abbreviation StreamEventStart :: string where "StreamEventStart \<equiv> ''start''"
abbreviation StreamEventContentDelta :: string where "StreamEventContentDelta \<equiv> ''content_delta''"
abbreviation StreamEventToolCallStart :: string where "StreamEventToolCallStart \<equiv> ''tool_call_start''"
abbreviation StreamEventToolCallDelta :: string where "StreamEventToolCallDelta \<equiv> ''tool_call_delta''"
abbreviation StreamEventToolCallEnd :: string where "StreamEventToolCallEnd \<equiv> ''tool_call_end''"
abbreviation StreamEventDone :: string where "StreamEventDone \<equiv> ''done''"
abbreviation StreamEventError :: string where "StreamEventError \<equiv> ''error''"

record StreamEvent =
  ev_Type :: string
  ev_Delta :: "ContentBlock option"
  ev_Index :: int
  ev_ToolCall :: "ToolCall option"
  ev_ToolInputDelta :: string
  ev_Error :: "RouterError option"
  ev_Usage :: "Usage option"
  ev_StopReason :: string
  ev_ResponseID :: string
  ev_Model :: string

definition StreamEvent0 :: StreamEvent where
  "StreamEvent0 = \<lparr>ev_Type = [], ev_Delta = None, ev_Index = 0, ev_ToolCall = None,
     ev_ToolInputDelta = [], ev_Error = None, ev_Usage = None, ev_StopReason = [],
     ev_ResponseID = [], ev_Model = []\<rparr>"

text \<open>What one call of \<^verbatim>\<open>Next\<close> gives: an event; \<^verbatim>\<open>(nil, nil)\<close>, the "stream complete"
  result; \<^verbatim>\<open>(nil, err)\<close> for a failed read; a run-time panic; or no return at all.\<close>

datatype next_result =
    Event StreamEvent
  | StreamComplete
  | ReadError
  | Panic
  | Hangs

subsection \<open>Reading lines\<close>

text \<open>The SSE readers call \<^verbatim>\<open>bufio.Reader.ReadString('\n')\<close>.  A body is split once into
  its complete lines (each without its newline) and the bytes after the last newline.\<close>

fun lines_from :: "string \<Rightarrow> string \<Rightarrow> string list" where
  "lines_from cur [] = []"
| "lines_from cur (c # bytes) =
     (if c = CHR 10 then cur # lines_from [] bytes else lines_from (cur @ [c]) bytes)"

fun tail_from :: "string \<Rightarrow> string \<Rightarrow> string" where
  "tail_from cur [] = cur"
| "tail_from cur (c # bytes) =
     (if c = CHR 10 then tail_from [] bytes else tail_from (cur @ [c]) bytes)"

definition complete_lines :: "string \<Rightarrow> string list" where
  "complete_lines bytes = lines_from [] bytes"

definition partial_tail :: "string \<Rightarrow> string" where
  "partial_tail bytes = tail_from [] bytes"

text \<open>\<^verbatim>\<open>strings.TrimSpace\<close> removes the leading and trailing Unicode white space.  On
  UTF-8 bytes: the six ASCII spaces, U+0085 and U+00A0 (two bytes), and U+1680,
  U+2000 to U+200A, U+2028, U+2029, U+202F, U+205F and U+3000 (three bytes).
  \<open>leading_space\<close> is the length of the white-space character a string starts with
  (0 when it starts with none), \<open>trailing_space\<close> the same for its end.\<close>

definition ascii_space :: "char \<Rightarrow> bool" where
  "ascii_space c = (c = CHR 9 \<or> c = CHR 10 \<or> c = CHR 11 \<or> c = CHR 12 \<or> c = CHR 13 \<or> c = CHR 32)"

definition space3 :: "char \<Rightarrow> char \<Rightarrow> char \<Rightarrow> bool" where
  "space3 a b c =
     ((a = CHR 0xE1 \<and> b = CHR 0x9A \<and> c = CHR 0x80)
      \<or> (a = CHR 0xE2 \<and> b = CHR 0x80 \<and>
           ((0x80 \<le> (of_char c :: nat) \<and> (of_char c :: nat) \<le> 0x8A) \<or> c = CHR 0xA8 \<or> c = CHR 0xA9
            \<or> c = CHR 0xAF))
      \<or> (a = CHR 0xE2 \<and> b = CHR 0x81 \<and> c = CHR 0x9F)
      \<or> (a = CHR 0xE3 \<and> b = CHR 0x80 \<and> c = CHR 0x80))"

definition space2 :: "char \<Rightarrow> char \<Rightarrow> bool" where
  "space2 a b = (a = CHR 0xC2 \<and> (b = CHR 0x85 \<or> b = CHR 0xA0))"

fun leading_space :: "string \<Rightarrow> nat" where
  "leading_space [] = 0"
| "leading_space [a] = (if ascii_space a then 1 else 0)"
| "leading_space [a, b] = (if ascii_space a then 1 else if space2 a b then 2 else 0)"
| "leading_space (a # b # c # s) =
     (if ascii_space a then 1 else if space2 a b then 2 else if space3 a b c then 3 else 0)"

text \<open>\<open>trailing_space\<close> reads the string backwards: its argument is the reversed string.\<close>

fun trailing_space :: "string \<Rightarrow> nat" where
  "trailing_space [] = 0"
| "trailing_space [z] = (if ascii_space z then 1 else 0)"
| "trailing_space [z, y] = (if ascii_space z then 1 else if space2 y z then 2 else 0)"
| "trailing_space (z # y # x # r) =
     (if ascii_space z then 1 else if space2 y z then 2 else if space3 x y z then 3 else 0)"

lemma leading_space_le: "leading_space s \<le> length s"
  by (induction s rule: leading_space.induct) auto

lemma trailing_space_le: "trailing_space r \<le> length r"
  by (induction r rule: trailing_space.induct) auto

function trim_left :: "string \<Rightarrow> string" where
  "trim_left s = (if leading_space s = 0 then s else trim_left (drop (leading_space s) s))"
  by pat_completeness auto
termination
proof (relation "measure length", goal_cases)
  case 1
  show ?case by simp
next
  case (2 s)
  with leading_space_le [of s] show ?case by simp
qed

function trim_right_rev :: "string \<Rightarrow> string" where
  "trim_right_rev r = (if trailing_space r = 0 then r else trim_right_rev (drop (trailing_space r) r))"
  by pat_completeness auto
termination
proof (relation "measure length", goal_cases)
  case 1
  show ?case by simp
next
  case (2 r)
  with trailing_space_le [of r] show ?case by simp
qed

declare trim_left.simps [simp del] trim_right_rev.simps [simp del]

definition TrimSpace :: "string \<Rightarrow> string" where
  "TrimSpace s = rev (trim_right_rev (rev (trim_left s)))"

section \<open>OpenAI adapter: response transformer and stream reader\<close>

record openai_PromptTokensDetails =
  optd_CachedTokens :: int
  optd_AudioTokens :: int

record openai_CompletionTokensDetails =
  octd_ReasoningTokens :: int
  octd_AudioTokens :: int

record openai_Usage =
  ou_PromptTokens :: int
  ou_CompletionTokens :: int
  ou_TotalTokens :: int
  ou_PromptTokensDetails :: "openai_PromptTokensDetails option"
  ou_CompletionTokensDetails :: "openai_CompletionTokensDetails option"

record openai_FunctionCall =
  ofc_Name :: string
  ofc_Arguments :: string

record openai_ToolCall =
  otc_ID :: string
  otc_Type :: string
  otc_Function :: openai_FunctionCall
  otc_Index :: "int option"

text \<open>A decoded \<^verbatim>\<open>ChatMessage\<close>: \<^verbatim>\<open>Content\<close> is \<^verbatim>\<open>any\<close>, a string or an array of parts
  when it comes off the wire.\<close>

record openai_ChatMessage =
  ocm_Role :: string
  ocm_Content :: json
  ocm_Name :: string
  ocm_ToolCalls :: "openai_ToolCall list"
  ocm_ToolCallID :: string

record openai_Choice =
  och_Index :: int
  och_Message :: openai_ChatMessage
  och_FinishReason :: string

record openai_ChatCompletionResponse =
  ocr_ID :: string
  ocr_Created :: int
  ocr_Model :: string
  ocr_Choices :: "openai_Choice list"
  ocr_Usage :: "openai_Usage option"

record openai_MessageDelta =
  omd_Role :: string
  omd_Content :: string
  omd_ToolCalls :: "openai_ToolCall list"

record openai_StreamChoice =
  osc_Index :: int
  osc_Delta :: openai_MessageDelta
  osc_FinishReason :: string

record openai_StreamChunk =
  osk_ID :: string
  osk_Model :: string
  osk_Choices :: "openai_StreamChoice list"
  osk_Usage :: "openai_Usage option"

text \<open>The parts of \<^verbatim>\<open>encoding/json\<close> and of the Go run time that the adapter relies on
  are parameters: decoding a \<^verbatim>\<open>data:\<close> payload into a \<^verbatim>\<open>StreamChunk\<close>
  (\<^const>\<open>None\<close> on error), \<^verbatim>\<open>json.Unmarshal\<close> of tool arguments into \<^verbatim>\<open>any\<close>, and the
  order in which \<^verbatim>\<open>range\<close> visits the keys of a map (some order of the keys given).\<close>

record openai_env =
  oe_decode_chunk :: "string \<Rightarrow> openai_StreamChunk option"
  oe_unmarshal :: "string \<Rightarrow> json option"
  oe_range_order :: "int list \<Rightarrow> int list"

definition openai_transformStopReason :: "string \<Rightarrow> string" where
  "openai_transformStopReason reason =
     (if reason = ''stop'' then StopReasonEnd
      else if reason = ''length'' then StopReasonMaxTokens
      else if reason = ''tool_calls'' then StopReasonToolUse
      else if reason = ''content_filter'' then StopReasonContentFilter
      else StopReasonEnd)"

text \<open>\<^verbatim>\<open>var input any; json.Unmarshal(args, &input)\<close> with the error dropped: the input
  stays nil when the arguments do not parse.\<close>

definition parse_input :: "openai_env \<Rightarrow> string \<Rightarrow> json" where
  "parse_input env args = (case oe_unmarshal env args of None \<Rightarrow> JNull | Some v \<Rightarrow> v)"

text \<open>\<^verbatim>\<open>transformContent\<close>.  In an array content every part that is a map with
  \<^verbatim>\<open>type = "text"\<close> is read with the unchecked assertion \<^verbatim>\<open>partMap["text"].(string)\<close>,
  which panics when the text is missing or not a string: the result is \<^const>\<open>None\<close>.\<close>

fun openai_textParts :: "json list \<Rightarrow> ContentBlock list option" where
  "openai_textParts [] = Some []"
| "openai_textParts (part # parts) =
     (case part of
        JObj partMap \<Rightarrow>
          if map_of partMap ''type'' = Some (JStr ''text'') then
            (case map_of partMap ''text'' of
               Some (JStr txt) \<Rightarrow>
                 map_option (\<lambda>bs. ContentBlock0\<lparr>cb_Type := ContentTypeText, cb_Text := txt\<rparr> # bs)
                   (openai_textParts parts)
             | _ \<Rightarrow> None)
          else openai_textParts parts
      | _ \<Rightarrow> openai_textParts parts)"

definition openai_toolUseBlock :: "openai_env \<Rightarrow> openai_ToolCall \<Rightarrow> ContentBlock" where
  "openai_toolUseBlock env tc =
     ContentBlock0\<lparr>cb_Type := ContentTypeToolUse, cb_ToolUseID := otc_ID tc,
       cb_ToolName := ofc_Name (otc_Function tc),
       cb_ToolInput := parse_input env (ofc_Arguments (otc_Function tc))\<rparr>"

definition openai_transformContent :: "openai_env \<Rightarrow> openai_ChatMessage \<Rightarrow> ContentBlock list option" where
  "openai_transformContent env msg =
     map_option (\<lambda>blocks. blocks @ map (openai_toolUseBlock env) (ocm_ToolCalls msg))
       (case ocm_Content msg of
          JStr content \<Rightarrow>
            if content \<noteq> [] then Some [ContentBlock0\<lparr>cb_Type := ContentTypeText, cb_Text := content\<rparr>]
            else Some []
        | JArr content \<Rightarrow> openai_textParts content
        | _ \<Rightarrow> Some [])"

definition openai_extractToolCalls :: "openai_env \<Rightarrow> openai_ChatMessage \<Rightarrow> ToolCall list" where
  "openai_extractToolCalls env msg =
     map (\<lambda>tc. \<lparr>tc_ID = otc_ID tc, tc_Name = ofc_Name (otc_Function tc),
                 tc_Input = parse_input env (ofc_Arguments (otc_Function tc))\<rparr>)
       (ocm_ToolCalls msg)"

definition openai_transformUsage :: "openai_Usage \<Rightarrow> Usage" where
  "openai_transformUsage u =
     \<lparr>InputTokens = ou_PromptTokens u, OutputTokens = ou_CompletionTokens u,
      TotalTokens = ou_TotalTokens u,
      CachedTokens = (case ou_PromptTokensDetails u of None \<Rightarrow> 0 | Some d \<Rightarrow> optd_CachedTokens d),
      ReasoningTokens =
        (case ou_CompletionTokensDetails u of None \<Rightarrow> 0 | Some d \<Rightarrow> octd_ReasoningTokens d)\<rparr>"

text \<open>\<^verbatim>\<open>TransformResponse\<close>: \<open>Inr None\<close> is the nil result for a response without
  choices, \<open>Inl ()\<close> the panic of \<^verbatim>\<open>transformContent\<close>.\<close>

definition openai_TransformResponse ::
  "openai_env \<Rightarrow> openai_ChatCompletionResponse \<Rightarrow> unit + CompletionResponse option" where
  "openai_TransformResponse env resp =
     (case ocr_Choices resp of
        [] \<Rightarrow> Inr None
      | choice # _ \<Rightarrow>
          (case openai_transformContent env (och_Message choice) of
             None \<Rightarrow> Inl ()
           | Some content \<Rightarrow>
               Inr (Some \<lparr>resp_ID = ocr_ID resp, resp_Provider = ProviderOpenAI,
                  resp_Model = ocr_Model resp, resp_Content = content,
                  resp_StopReason = openai_transformStopReason (och_FinishReason choice),
                  resp_Usage = (case ocr_Usage resp of None \<Rightarrow> Usage0
                                | Some u \<Rightarrow> openai_transformUsage u),
                  resp_ToolCalls = openai_extractToolCalls env (och_Message choice)\<rparr>)))"

subsection \<open>The stream reader\<close>

text \<open>The reader's state.  \<open>pending\<close> holds the complete lines of the body not yet read,
  \<open>broken\<close> tells that the body ends in a read error instead of EOF.  The two maps are
  association lists keyed by the tool-call index; a string builder is its string.\<close>

record openai_streamReader =
  osr_pending :: "string list"
  osr_broken :: bool
  osr_response :: "CompletionResponse option"
  osr_done :: bool
  osr_id :: string
  osr_model :: string
  osr_content :: string
  osr_toolCalls :: "(int \<times> ToolCall) list"
  osr_toolInputs :: "(int \<times> string) list"
  osr_usage :: "Usage option"
  osr_stopReason :: string

definition openai_newStreamReader :: "string \<Rightarrow> bool \<Rightarrow> openai_streamReader" where
  "openai_newStreamReader body broken =
     \<lparr>osr_pending = complete_lines body, osr_broken = broken, osr_response = None,
      osr_done = False, osr_id = [], osr_model = [], osr_content = [], osr_toolCalls = [],
      osr_toolInputs = [], osr_usage = None, osr_stopReason = []\<rparr>"

text \<open>The loop of \<^verbatim>\<open>processChunk\<close> over \<^verbatim>\<open>delta.ToolCalls\<close>: the first entry with an id
  or with arguments ends the loop with an event.\<close>

fun openai_processToolCalls ::
  "openai_ToolCall list \<Rightarrow> openai_streamReader \<Rightarrow> StreamEvent option \<times> openai_streamReader" where
  "openai_processToolCalls [] s = (None, s)"
| "openai_processToolCalls (tc # tcs) s =
     (let idx = (case otc_Index tc of Some i \<Rightarrow> i | None \<Rightarrow> 0)
      in if otc_ID tc \<noteq> [] then
           (Some (StreamEvent0\<lparr>ev_Type := StreamEventToolCallStart,
                    ev_ToolCall := Some \<lparr>tc_ID = otc_ID tc, tc_Name = ofc_Name (otc_Function tc),
                                          tc_Input = JNull\<rparr>\<rparr>),
            s\<lparr>osr_toolCalls := AList.update idx
                   \<lparr>tc_ID = otc_ID tc, tc_Name = ofc_Name (otc_Function tc), tc_Input = JNull\<rparr>
                   (osr_toolCalls s),
              osr_toolInputs := AList.update idx [] (osr_toolInputs s)\<rparr>)
         else if ofc_Arguments (otc_Function tc) \<noteq> [] then
           (Some (StreamEvent0\<lparr>ev_Type := StreamEventToolCallDelta,
                    ev_ToolInputDelta := ofc_Arguments (otc_Function tc), ev_Index := idx\<rparr>),
            (case map_of (osr_toolInputs s) idx of
               Some builder \<Rightarrow>
                 s\<lparr>osr_toolInputs := AList.update idx (builder @ ofc_Arguments (otc_Function tc))
                                        (osr_toolInputs s)\<rparr>
             | None \<Rightarrow> s))
         else openai_processToolCalls tcs s)"

definition openai_processChunk ::
  "openai_StreamChunk \<Rightarrow> openai_streamReader \<Rightarrow> StreamEvent option \<times> openai_streamReader" where
  "openai_processChunk chunk s =
     (let s1 = (if osr_id s = [] then s\<lparr>osr_id := osk_ID chunk\<rparr> else s);
          s2 = (if osr_model s1 = [] then s1\<lparr>osr_model := osk_Model chunk\<rparr> else s1);
          s3 = (case osk_Usage chunk of
                  Some u \<Rightarrow> s2\<lparr>osr_usage := Some \<lparr>InputTokens = ou_PromptTokens u,
                               OutputTokens = ou_CompletionTokens u,
                               TotalTokens = ou_TotalTokens u, CachedTokens = 0,
                               ReasoningTokens = 0\<rparr>\<rparr>
                | None \<Rightarrow> s2)
      in case osk_Choices chunk of
           [] \<Rightarrow> (None, s3)
         | choice # _ \<Rightarrow>
             (let delta = osc_Delta choice;
                  s4 = (if osc_FinishReason choice \<noteq> []
                        then s3\<lparr>osr_stopReason := openai_transformStopReason (osc_FinishReason choice)\<rparr>
                        else s3)
              in if omd_Content delta \<noteq> [] then
                   (Some (StreamEvent0\<lparr>ev_Type := StreamEventContentDelta,
                            ev_Delta := Some (ContentBlock0\<lparr>cb_Type := ContentTypeText,
                                                cb_Text := omd_Content delta\<rparr>),
                            ev_Index := 0\<rparr>),
                    s4\<lparr>osr_content := osr_content s4 @ omd_Content delta\<rparr>)
                 else openai_processToolCalls (omd_ToolCalls delta) s4))"

text \<open>\<^verbatim>\<open>buildResponse\<close>.  The loop over the map \<^verbatim>\<open>s.toolCalls\<close> visits the keys in the
  order \<open>oe_range_order\<close> gives; it writes the parsed input into the stored tool call
  (the map holds pointers) and appends the call and its block.\<close>

fun openai_finalize ::
  "openai_env \<Rightarrow> (int \<times> string) list \<Rightarrow> int list \<Rightarrow> (int \<times> ToolCall) list \<Rightarrow>
   ContentBlock list \<Rightarrow> ToolCall list \<Rightarrow> (int \<times> ToolCall) list \<times> ContentBlock list \<times> ToolCall list" where
  "openai_finalize env inputs [] calls content toolCalls = (calls, content, toolCalls)"
| "openai_finalize env inputs (idx # order) calls content toolCalls =
     (case map_of calls idx of
        None \<Rightarrow> openai_finalize env inputs order calls content toolCalls
      | Some tc0 \<Rightarrow>
          (let tc = (case map_of inputs idx of
                       Some builder \<Rightarrow> tc0\<lparr>tc_Input := parse_input env builder\<rparr>
                     | None \<Rightarrow> tc0)
           in openai_finalize env inputs order (AList.update idx tc calls)
                (content @ [ContentBlock0\<lparr>cb_Type := ContentTypeToolUse, cb_ToolUseID := tc_ID tc,
                              cb_ToolName := tc_Name tc, cb_ToolInput := tc_Input tc\<rparr>])
                (toolCalls @ [tc])))"

definition openai_buildResponse :: "openai_env \<Rightarrow> openai_streamReader \<Rightarrow> openai_streamReader" where
  "openai_buildResponse env s =
     (let content0 = (if length (osr_content s) > 0
                      then [ContentBlock0\<lparr>cb_Type := ContentTypeText, cb_Text := osr_content s\<rparr>]
                      else []);
          (calls, content, toolCalls) =
             openai_finalize env (osr_toolInputs s)
               (oe_range_order env (map fst (osr_toolCalls s))) (osr_toolCalls s) content0 []
      in s\<lparr>osr_toolCalls := calls,
           osr_response := Some \<lparr>resp_ID = osr_id s, resp_Provider = ProviderOpenAI,
              resp_Model = osr_model s, resp_Content = content,
              resp_StopReason = osr_stopReason s,
              resp_Usage = (case osr_usage s of Some u \<Rightarrow> u | None \<Rightarrow> Usage0),
              resp_ToolCalls = toolCalls\<rparr>\<rparr>)"

text \<open>The loop of \<^verbatim>\<open>Next\<close> over the lines still to be read.\<close>

fun openai_scan ::
  "openai_env \<Rightarrow> string list \<Rightarrow> openai_streamReader \<Rightarrow> next_result \<times> openai_streamReader" where
  "openai_scan env [] s =
     (if osr_broken s then (ReadError, s\<lparr>osr_pending := []\<rparr>)
      else (StreamComplete, openai_buildResponse env (s\<lparr>osr_pending := [], osr_done := True\<rparr>)))"
| "openai_scan env (l # ls) s =
     (let line = TrimSpace l
      in if line = [] then openai_scan env ls s
         else if \<not> prefix ''data: '' line then openai_scan env ls s
         else (let data = drop (length ''data: '') line
               in if data = ''[DONE]'' then
                    (let s' = openai_buildResponse env (s\<lparr>osr_pending := ls, osr_done := True\<rparr>)
                     in (Event (StreamEvent0\<lparr>ev_Type := StreamEventDone, ev_Usage := osr_usage s',
                                  ev_StopReason := osr_stopReason s', ev_ResponseID := osr_id s'\<rparr>),
                         s'))
                  else (case oe_decode_chunk env data of
                          None \<Rightarrow> openai_scan env ls s
                        | Some chunk \<Rightarrow>
                            (case openai_processChunk chunk s of
                               (Some event, s') \<Rightarrow> (Event event, s'\<lparr>osr_pending := ls\<rparr>)
                             | (None, s') \<Rightarrow> openai_scan env ls s'))))"

definition openai_Next :: "openai_env \<Rightarrow> openai_streamReader \<Rightarrow> next_result \<times> openai_streamReader" where
  "openai_Next env s =
     (if osr_done s then (StreamComplete, s) else openai_scan env (osr_pending s) s)"

definition openai_Response :: "openai_streamReader \<Rightarrow> CompletionResponse option" where
  "openai_Response s = osr_response s"

section \<open>Anthropic adapter: response transformer and stream reader\<close>

record anthropic_Usage =
  au_InputTokens :: int
  au_OutputTokens :: int
  au_CacheCreationInputTokens :: int
  au_CacheReadInputTokens :: int

record anthropic_MessagesResponse =
  ares_ID :: string
  ares_Type :: string
  ares_Role :: string
  ares_Content :: "anthropic_ContentBlock list"
  ares_Model :: string
  ares_StopReason :: string
  ares_StopSequence :: string
  ares_Usage :: anthropic_Usage

record anthropic_Delta =
  ad_Type :: string
  ad_Text :: string
  ad_PartialJSON :: string
  ad_StopReason :: string
  ad_StopSequence :: string

definition anthropic_transformStopReason :: "string \<Rightarrow> string" where
  "anthropic_transformStopReason reason =
     (if reason = ''end_turn'' then StopReasonEnd
      else if reason = ''max_tokens'' then StopReasonMaxTokens
      else if reason = ''tool_use'' then StopReasonToolUse
      else if reason = ''stop_sequence'' then StopReasonStopSequence
      else StopReasonEnd)"

definition anthropic_transformResponseBlock :: "anthropic_ContentBlock \<Rightarrow> ContentBlock list" where
  "anthropic_transformResponseBlock block =
     (if acb_Type block = ''text'' then
        [ContentBlock0\<lparr>cb_Type := ContentTypeText, cb_Text := acb_Text block\<rparr>]
      else if acb_Type block = ''tool_use'' then
        [ContentBlock0\<lparr>cb_Type := ContentTypeToolUse, cb_ToolUseID := acb_ID block,
           cb_ToolName := acb_Name block, cb_ToolInput := acb_Input block\<rparr>]
      else [])"

definition anthropic_transformResponseContent :: "anthropic_ContentBlock list \<Rightarrow> ContentBlock list" where
  "anthropic_transformResponseContent blocks = concat (map anthropic_transformResponseBlock blocks)"

definition anthropic_extractToolCalls :: "anthropic_ContentBlock list \<Rightarrow> ToolCall list" where
  "anthropic_extractToolCalls blocks =
     map (\<lambda>block. \<lparr>tc_ID = acb_ID block, tc_Name = acb_Name block, tc_Input = acb_Input block\<rparr>)
       (filter (\<lambda>block. acb_Type block = ''tool_use'') blocks)"

text \<open>\<^verbatim>\<open>TransformResponse\<close> on a non-nil response.\<close>

definition anthropic_TransformResponse :: "anthropic_MessagesResponse \<Rightarrow> CompletionResponse" where
  "anthropic_TransformResponse resp =
     \<lparr>resp_ID = ares_ID resp, resp_Provider = ProviderAnthropic, resp_Model = ares_Model resp,
      resp_Content = anthropic_transformResponseContent (ares_Content resp),
      resp_StopReason = anthropic_transformStopReason (ares_StopReason resp),
      resp_Usage = \<lparr>InputTokens = au_InputTokens (ares_Usage resp),
         OutputTokens = au_OutputTokens (ares_Usage resp),
         TotalTokens = go_add (au_InputTokens (ares_Usage resp)) (au_OutputTokens (ares_Usage resp)),
         CachedTokens = au_CacheReadInputTokens (ares_Usage resp), ReasoningTokens = 0\<rparr>,
      resp_ToolCalls = anthropic_extractToolCalls (ares_Content resp)\<rparr>"

subsection \<open>The stream reader\<close>

text \<open>\<^verbatim>\<open>processEvent\<close> decodes the \<^verbatim>\<open>data:\<close> payload into a different anonymous struct
  for each event type; each decoder is a parameter (\<^const>\<open>None\<close> on error).\<close>

record anthropic_env =
  ae_message_start :: "string \<Rightarrow> anthropic_MessagesResponse option"
  ae_content_block_start :: "string \<Rightarrow> (int \<times> anthropic_ContentBlock) option"
  ae_content_block_delta :: "string \<Rightarrow> (int \<times> anthropic_Delta) option"
  ae_content_block_stop :: "string \<Rightarrow> int option"
  ae_message_delta :: "string \<Rightarrow> (anthropic_Delta \<times> anthropic_Usage) option"
  ae_error :: "string \<Rightarrow> anthropic_APIError option"

text \<open>The reader's state: the complete lines not yet read, the bytes after the last
  newline, whether the body ends in a read error, and the accumulated fields.\<close>

record anthropic_streamReader =
  asr_pending :: "string list"
  asr_partial :: string
  asr_broken :: bool
  asr_response :: "CompletionResponse option"
  asr_done :: bool
  asr_id :: string
  asr_model :: string
  asr_contentBlocks :: "ContentBlock list"
  asr_currentBlock :: int
  asr_toolCalls :: "ToolCall list"
  asr_usage :: "Usage option"
  asr_stopReason :: string

definition anthropic_newStreamReader :: "string \<Rightarrow> bool \<Rightarrow> anthropic_streamReader" where
  "anthropic_newStreamReader body broken =
     \<lparr>asr_pending = complete_lines body, asr_partial = partial_tail body, asr_broken = broken,
      asr_response = None, asr_done = False, asr_id = [], asr_model = [],
      asr_contentBlocks = [], asr_currentBlock = 0, asr_toolCalls = [], asr_usage = None,
      asr_stopReason = []\<rparr>"

text \<open>\<^verbatim>\<open>for len(s.contentBlocks) <= event.Index { append(..., ContentBlock{}) }\<close>.\<close>

definition extend_blocks :: "ContentBlock list \<Rightarrow> int \<Rightarrow> ContentBlock list" where
  "extend_blocks blocks index = blocks @ replicate (nat (index + 1) - length blocks) ContentBlock0"

text \<open>\<^verbatim>\<open>processEvent\<close>: the event (if any), the \<^verbatim>\<open>done\<close> flag and the new state, or
  \<^const>\<open>None\<close> when an index expression panics (a negative \<^verbatim>\<open>index\<close> passes the length
  tests and is then used as a slice index).\<close>

definition anthropic_processEvent ::
  "anthropic_env \<Rightarrow> string \<Rightarrow> string \<Rightarrow> anthropic_streamReader \<Rightarrow>
   (StreamEvent option \<times> bool \<times> anthropic_streamReader) option" where
  "anthropic_processEvent env eventType data s =
     (if eventType = ''message_start'' then
        (case ae_message_start env data of
           Some message \<Rightarrow>
             Some (Some (StreamEvent0\<lparr>ev_Type := StreamEventStart, ev_ResponseID := ares_ID message,
                            ev_Model := ares_Model message\<rparr>),
                   False, s\<lparr>asr_id := ares_ID message, asr_model := ares_Model message\<rparr>)
         | None \<Rightarrow> Some (None, False, s))
      else if eventType = ''content_block_start'' then
        (case ae_content_block_start env data of
           Some (index, contentBlock) \<Rightarrow>
             if index < 0 then None
             else (let blocks = extend_blocks (asr_contentBlocks s) index
                   in if acb_Type contentBlock = ''tool_use'' then
                        Some (Some (StreamEvent0\<lparr>ev_Type := StreamEventToolCallStart,
                                 ev_ToolCall := Some \<lparr>tc_ID = acb_ID contentBlock,
                                    tc_Name = acb_Name contentBlock, tc_Input = JNull\<rparr>\<rparr>),
                              False,
                              s\<lparr>asr_currentBlock := index,
                                asr_contentBlocks := blocks[nat index :=
                                  ContentBlock0\<lparr>cb_Type := ContentTypeToolUse,
                                    cb_ToolUseID := acb_ID contentBlock,
                                    cb_ToolName := acb_Name contentBlock\<rparr>]\<rparr>)
                      else
                        Some (None, False,
                              s\<lparr>asr_currentBlock := index,
                                asr_contentBlocks := blocks[nat index :=
                                  ContentBlock0\<lparr>cb_Type := ContentTypeText\<rparr>]\<rparr>))
         | None \<Rightarrow> Some (None, False, s))
      else if eventType = ''content_block_delta'' then
        (case ae_content_block_delta env data of
           Some (index, delta) \<Rightarrow>
             if ad_Text delta \<noteq> [] then
               (if index < int (length (asr_contentBlocks s)) then
                  (if index < 0 then None
                   else Some (Some (StreamEvent0\<lparr>ev_Type := StreamEventContentDelta,
                                 ev_Delta := Some (ContentBlock0\<lparr>cb_Type := ContentTypeText,
                                                     cb_Text := ad_Text delta\<rparr>),
                                 ev_Index := index\<rparr>),
                              False,
                              s\<lparr>asr_contentBlocks := (asr_contentBlocks s)[nat index :=
                                  (asr_contentBlocks s ! nat index)\<lparr>cb_Text :=
                                     cb_Text (asr_contentBlocks s ! nat index) @ ad_Text delta\<rparr>]\<rparr>))
                else Some (Some (StreamEvent0\<lparr>ev_Type := StreamEventContentDelta,
                              ev_Delta := Some (ContentBlock0\<lparr>cb_Type := ContentTypeText,
                                                  cb_Text := ad_Text delta\<rparr>),
                              ev_Index := index\<rparr>),
                           False, s))
             else if ad_PartialJSON delta \<noteq> [] then
               Some (Some (StreamEvent0\<lparr>ev_Type := StreamEventToolCallDelta,
                        ev_ToolInputDelta := ad_PartialJSON delta, ev_Index := index\<rparr>),
                     False, s)
             else Some (None, False, s)
         | None \<Rightarrow> Some (None, False, s))
      else if eventType = ''content_block_stop'' then
        (case ae_content_block_stop env data of
           Some index \<Rightarrow>
             if index < int (length (asr_contentBlocks s)) then
               (if index < 0 then None
                else if cb_Type (asr_contentBlocks s ! nat index) = ContentTypeToolUse then
                  (let tc = \<lparr>tc_ID = cb_ToolUseID (asr_contentBlocks s ! nat index),
                             tc_Name = cb_ToolName (asr_contentBlocks s ! nat index),
                             tc_Input = cb_ToolInput (asr_contentBlocks s ! nat index)\<rparr>
                   in Some (Some (StreamEvent0\<lparr>ev_Type := StreamEventToolCallEnd,
                                    ev_ToolCall := Some tc\<rparr>),
                            False, s\<lparr>asr_toolCalls := asr_toolCalls s @ [tc]\<rparr>))
                else Some (None, False, s))
             else Some (None, False, s)
         | None \<Rightarrow> Some (None, False, s))
      else if eventType = ''message_delta'' then
        (case ae_message_delta env data of
           Some (delta, usage) \<Rightarrow>
             (let s1 = s\<lparr>asr_stopReason := anthropic_transformStopReason (ad_StopReason delta)\<rparr>
              in Some (None, False,
                       if au_OutputTokens usage > 0
                       then s1\<lparr>asr_usage := Some (Usage0\<lparr>OutputTokens := au_OutputTokens usage\<rparr>)\<rparr>
                       else s1))
         | None \<Rightarrow> Some (None, False, s))
      else if eventType = ''message_stop'' then
        Some (Some (StreamEvent0\<lparr>ev_Type := StreamEventDone, ev_Usage := asr_usage s,
                      ev_StopReason := asr_stopReason s, ev_ResponseID := asr_id s\<rparr>),
              True, s)
      else if eventType = ''error'' then
        (case ae_error env data of
           Some apiErr \<Rightarrow>
             Some (Some (StreamEvent0\<lparr>ev_Type := StreamEventError,
                      ev_Error := Some (ErrServerError ProviderAnthropic (aerr_Message apiErr))\<rparr>),
                   True, s)
         | None \<Rightarrow> Some (None, False, s))
      else Some (None, False, s))"

definition anthropic_buildResponse :: "anthropic_streamReader \<Rightarrow> anthropic_streamReader" where
  "anthropic_buildResponse s =
     s\<lparr>asr_response := Some \<lparr>resp_ID = asr_id s, resp_Provider = ProviderAnthropic,
          resp_Model = asr_model s, resp_Content = asr_contentBlocks s,
          resp_StopReason = asr_stopReason s,
          resp_Usage = (case asr_usage s of Some u \<Rightarrow> u | None \<Rightarrow> Usage0),
          resp_ToolCalls = asr_toolCalls s\<rparr>\<rparr>"

text \<open>One \<^verbatim>\<open>event:\<close> line with the line read after it: either \<^verbatim>\<open>Next\<close> returns, or the
  loop goes on with a new state.\<close>

datatype anthropic_step = Return next_result anthropic_streamReader | Continue anthropic_streamReader

definition anthropic_pair ::
  "anthropic_env \<Rightarrow> string \<Rightarrow> string \<Rightarrow> anthropic_streamReader \<Rightarrow> anthropic_step" where
  "anthropic_pair env line dataLine s =
     (if \<not> prefix ''data: '' dataLine then Continue s
      else (let data = drop (length ''data: '') dataLine;
                eventType = drop (length ''event: '') line
            in case anthropic_processEvent env eventType data s of
                 None \<Rightarrow> Return Panic s
               | Some (event, fin, s1) \<Rightarrow>
                   (let s2 = (if fin then anthropic_buildResponse (s1\<lparr>asr_done := True\<rparr>) else s1)
                    in case event of
                         Some e \<Rightarrow> Return (Event e) s2
                       | None \<Rightarrow> Continue s2)))"

fun anthropic_scan ::
  "anthropic_env \<Rightarrow> string list \<Rightarrow> anthropic_streamReader \<Rightarrow> next_result \<times> anthropic_streamReader" where
  "anthropic_scan env [] s =
     (if asr_broken s then (ReadError, s\<lparr>asr_pending := []\<rparr>)
      else (StreamComplete,
            anthropic_buildResponse (s\<lparr>asr_pending := [], asr_partial := [], asr_done := True\<rparr>)))"
| "anthropic_scan env [l] s =
     (let line = TrimSpace l
      in if line = [] then anthropic_scan env [] s
         else if prefix ''event: '' line then
           (if asr_broken s then (ReadError, s\<lparr>asr_pending := []\<rparr>)
            else (case anthropic_pair env line (TrimSpace (asr_partial s)) (s\<lparr>asr_partial := []\<rparr>) of
                    Return r s' \<Rightarrow> (r, s'\<lparr>asr_pending := []\<rparr>)
                  | Continue s' \<Rightarrow> anthropic_scan env [] s'))
         else anthropic_scan env [] s)"
| "anthropic_scan env (l # d # ls) s =
     (let line = TrimSpace l
      in if line = [] then anthropic_scan env (d # ls) s
         else if prefix ''event: '' line then
           (case anthropic_pair env line (TrimSpace d) s of
              Return r s' \<Rightarrow> (r, s'\<lparr>asr_pending := ls\<rparr>)
            | Continue s' \<Rightarrow> anthropic_scan env ls s')
         else anthropic_scan env (d # ls) s)"

definition anthropic_Next ::
  "anthropic_env \<Rightarrow> anthropic_streamReader \<Rightarrow> next_result \<times> anthropic_streamReader" where
  "anthropic_Next env s =
     (if asr_done s then (StreamComplete, s) else anthropic_scan env (asr_pending s) s)"

definition anthropic_Response :: "anthropic_streamReader \<Rightarrow> CompletionResponse option" where
  "anthropic_Response s = asr_response s"

section \<open>Google adapter: response transformer and stream reader\<close>

record google_Candidate =
  gcand_Content :: "google_Content option"
  gcand_FinishReason :: string
  gcand_Index :: int

record google_UsageMetadata =
  gum_PromptTokenCount :: int
  gum_CandidatesTokenCount :: int
  gum_TotalTokenCount :: int

text \<open>\<^verbatim>\<open>GenerateContentResponse\<close> and \<^verbatim>\<open>StreamChunk\<close> have the same fields (the prompt
  feedback is read by neither path and is left out).\<close>

record google_GenerateContentResponse =
  ggres_Candidates :: "google_Candidate list"
  ggres_UsageMetadata :: "google_UsageMetadata option"

record google_StreamChunk =
  gchunk_Candidates :: "google_Candidate list"
  gchunk_UsageMetadata :: "google_UsageMetadata option"

definition google_transformStopReason :: "string \<Rightarrow> string" where
  "google_transformStopReason reason =
     (if reason = ''STOP'' then StopReasonEnd
      else if reason = ''MAX_TOKENS'' then StopReasonMaxTokens
      else if reason = ''SAFETY'' then StopReasonContentFilter
      else if reason = ''RECITATION'' then StopReasonContentFilter
      else if reason = ''OTHER'' then StopReasonEnd
      else StopReasonEnd)"

text \<open>The arguments of a function call as a tool input (a nil map is the nil input).\<close>

definition google_args :: "google_FunctionCall \<Rightarrow> json" where
  "google_args fc = (case gfc_Args fc of None \<Rightarrow> JNull | Some args \<Rightarrow> JObj args)"

definition google_transformResponsePart :: "google_Part \<Rightarrow> ContentBlock list" where
  "google_transformResponsePart part =
     (if gp_Text part \<noteq> []
      then [ContentBlock0\<lparr>cb_Type := ContentTypeText, cb_Text := gp_Text part\<rparr>] else [])
     @ (case gp_FunctionCall part of
          Some fc \<Rightarrow> [ContentBlock0\<lparr>cb_Type := ContentTypeToolUse, cb_ToolName := gfc_Name fc,
                         cb_ToolInput := google_args fc\<rparr>]
        | None \<Rightarrow> [])"

definition google_transformResponseContent :: "google_Content option \<Rightarrow> ContentBlock list" where
  "google_transformResponseContent content =
     (case content of
        None \<Rightarrow> []
      | Some c \<Rightarrow> concat (map google_transformResponsePart (gc_Parts c)))"

definition google_extractToolCalls :: "google_Content option \<Rightarrow> ToolCall list" where
  "google_extractToolCalls content =
     (case content of
        None \<Rightarrow> []
      | Some c \<Rightarrow>
          concat (map (\<lambda>part. case gp_FunctionCall part of
                                 Some fc \<Rightarrow> [\<lparr>tc_ID = [], tc_Name = gfc_Name fc,
                                               tc_Input = google_args fc\<rparr>]
                               | None \<Rightarrow> [])
                    (gc_Parts c)))"

definition google_transformUsage :: "google_UsageMetadata \<Rightarrow> Usage" where
  "google_transformUsage u =
     Usage0\<lparr>InputTokens := gum_PromptTokenCount u, OutputTokens := gum_CandidatesTokenCount u,
       TotalTokens := gum_TotalTokenCount u\<rparr>"

text \<open>\<^verbatim>\<open>TransformResponse\<close>: nil (\<^const>\<open>None\<close>) for a response without candidates.\<close>

definition google_TransformResponse :: "google_GenerateContentResponse \<Rightarrow> CompletionResponse option" where
  "google_TransformResponse resp =
     (case ggres_Candidates resp of
        [] \<Rightarrow> None
      | candidate # _ \<Rightarrow>
          Some \<lparr>resp_ID = [], resp_Provider = ProviderGoogle, resp_Model = [],
             resp_Content = google_transformResponseContent (gcand_Content candidate),
             resp_StopReason = google_transformStopReason (gcand_FinishReason candidate),
             resp_Usage = (case ggres_UsageMetadata resp of
                             None \<Rightarrow> Usage0 | Some u \<Rightarrow> google_transformUsage u),
             resp_ToolCalls = google_extractToolCalls (gcand_Content candidate)\<rparr>)"

subsection \<open>The stream reader\<close>

text \<open>The reader drives a \<^verbatim>\<open>json.Decoder\<close> over the body.  The decoder is modelled by
  the outcomes of its calls.  \<open>gsr_tokens\<close> lists what the successive calls of
  \<^verbatim>\<open>Token\<close> give (EOF once the list is empty): the opening bracket, another token, or a
  read error.  \<open>gsr_elements\<close> lists what the successive calls of \<^verbatim>\<open>Decode\<close> give
  while \<^verbatim>\<open>More\<close> holds: a chunk; an error after which decoding goes on (a value of the
  wrong type); the error \<^verbatim>\<open>io.EOF\<close>; or a syntax error, which the decoder keeps
  returning while \<^verbatim>\<open>More\<close> stays true, so that the reader's loop never ends.\<close>

datatype google_token = TokenOpen | TokenOther | TokenError

datatype google_element =
    Element google_StreamChunk
  | TypeMismatch
  | DecodeEOF
  | SyntaxError

record google_streamReader =
  gsr_tokens :: "google_token list"
  gsr_elements :: "google_element list"
  gsr_model :: string
  gsr_response :: "CompletionResponse option"
  gsr_done :: bool
  gsr_arrayStarted :: bool
  gsr_content :: "ContentBlock list"
  gsr_toolCalls :: "ToolCall list"
  gsr_usage :: "Usage option"
  gsr_stopReason :: string
  gsr_started :: bool

definition google_newStreamReader ::
  "google_token list \<Rightarrow> google_element list \<Rightarrow> string \<Rightarrow> google_streamReader" where
  "google_newStreamReader tokens elements model =
     \<lparr>gsr_tokens = tokens, gsr_elements = elements, gsr_model = model, gsr_response = None,
      gsr_done = False, gsr_arrayStarted = False, gsr_content = [], gsr_toolCalls = [],
      gsr_usage = None, gsr_stopReason = [], gsr_started = False\<rparr>"

text \<open>The loop of \<^verbatim>\<open>processChunk\<close> over the parts: the first part with text or with a
  function call ends the loop with an event.\<close>

fun google_processParts ::
  "google_Part list \<Rightarrow> google_streamReader \<Rightarrow> StreamEvent option \<times> google_streamReader" where
  "google_processParts [] s = (None, s)"
| "google_processParts (part # parts) s =
     (if gp_Text part \<noteq> [] then
        (Some (StreamEvent0\<lparr>ev_Type := StreamEventContentDelta,
                 ev_Delta := Some (ContentBlock0\<lparr>cb_Type := ContentTypeText, cb_Text := gp_Text part\<rparr>)\<rparr>),
         (if length (gsr_content s) = 0 \<or> cb_Type (last (gsr_content s)) \<noteq> ContentTypeText
          then s\<lparr>gsr_content := gsr_content s
                  @ [ContentBlock0\<lparr>cb_Type := ContentTypeText, cb_Text := gp_Text part\<rparr>]\<rparr>
          else s\<lparr>gsr_content := butlast (gsr_content s)
                  @ [(last (gsr_content s))\<lparr>cb_Text := cb_Text (last (gsr_content s)) @ gp_Text part\<rparr>]\<rparr>))
      else (case gp_FunctionCall part of
              Some fc \<Rightarrow>
                (let tc = \<lparr>tc_ID = [], tc_Name = gfc_Name fc, tc_Input = google_args fc\<rparr>
                 in (Some (StreamEvent0\<lparr>ev_Type := StreamEventToolCallStart, ev_ToolCall := Some tc\<rparr>),
                     s\<lparr>gsr_toolCalls := gsr_toolCalls s @ [tc],
                       gsr_content := gsr_content s
                         @ [ContentBlock0\<lparr>cb_Type := ContentTypeToolUse, cb_ToolName := gfc_Name fc,
                              cb_ToolInput := google_args fc\<rparr>]\<rparr>))
            | None \<Rightarrow> google_processParts parts s))"

definition google_processChunk ::
  "google_StreamChunk \<Rightarrow> google_streamReader \<Rightarrow> StreamEvent option \<times> google_streamReader" where
  "google_processChunk chunk s =
     (case gchunk_Candidates chunk of
        [] \<Rightarrow> (None, s)
      | candidate # _ \<Rightarrow>
          (let s1 = (if gcand_FinishReason candidate \<noteq> []
                     then s\<lparr>gsr_stopReason := google_transformStopReason (gcand_FinishReason candidate)\<rparr>
                     else s);
               s2 = (case gchunk_UsageMetadata chunk of
                       Some u \<Rightarrow> s1\<lparr>gsr_usage := Some (google_transformUsage u)\<rparr>
                     | None \<Rightarrow> s1)
           in case gcand_Content candidate of
                None \<Rightarrow> (None, s2)
              | Some content \<Rightarrow> google_processParts (gc_Parts content) s2))"

definition google_buildResponse :: "google_streamReader \<Rightarrow> google_streamReader" where
  "google_buildResponse s =
     s\<lparr>gsr_response := Some \<lparr>resp_ID = [], resp_Provider = ProviderGoogle,
          resp_Model = gsr_model s, resp_Content = gsr_content s,
          resp_StopReason = gsr_stopReason s,
          resp_Usage = (case gsr_usage s of Some u \<Rightarrow> u | None \<Rightarrow> Usage0),
          resp_ToolCalls = gsr_toolCalls s\<rparr>\<rparr>"

text \<open>The end of \<^verbatim>\<open>Next\<close>: mark the reader done, build the response, return Done.\<close>

definition google_finish :: "google_streamReader \<Rightarrow> next_result \<times> google_streamReader" where
  "google_finish s =
     (let s' = google_buildResponse (s\<lparr>gsr_done := True\<rparr>)
      in (Event (StreamEvent0\<lparr>ev_Type := StreamEventDone, ev_Usage := gsr_usage s',
                   ev_StopReason := gsr_stopReason s'\<rparr>), s'))"

fun google_scan :: "google_element list \<Rightarrow> google_streamReader \<Rightarrow> next_result \<times> google_streamReader" where
  "google_scan [] s = google_finish (s\<lparr>gsr_elements := []\<rparr>)"
| "google_scan (Element chunk # elements) s =
     (case google_processChunk chunk s of
        (Some event, s') \<Rightarrow> (Event event, s'\<lparr>gsr_elements := elements\<rparr>)
      | (None, s') \<Rightarrow> google_scan elements s')"
| "google_scan (TypeMismatch # elements) s = google_scan elements s"
| "google_scan (DecodeEOF # elements) s = google_finish (s\<lparr>gsr_elements := elements\<rparr>)"
| "google_scan (SyntaxError # elements) s = (Hangs, s\<lparr>gsr_elements := SyntaxError # elements\<rparr>)"

definition google_Next :: "google_streamReader \<Rightarrow> next_result \<times> google_streamReader" where
  "google_Next s =
     (if gsr_done s then (StreamComplete, s)
      else if \<not> gsr_started s then
        (Event (StreamEvent0\<lparr>ev_Type := StreamEventStart, ev_Model := gsr_model s\<rparr>),
         s\<lparr>gsr_started := True\<rparr>)
      else if \<not> gsr_arrayStarted s then
        (case gsr_tokens s of
           [] \<Rightarrow> google_finish s
         | TokenError # tokens \<Rightarrow> (ReadError, s)
         | TokenOpen # tokens \<Rightarrow>
             google_scan (gsr_elements s) (s\<lparr>gsr_tokens := tokens, gsr_arrayStarted := True\<rparr>)
         | TokenOther # tokens \<Rightarrow> google_scan (gsr_elements s) (s\<lparr>gsr_tokens := tokens\<rparr>))
      else google_scan (gsr_elements s) s)"

definition google_Response :: "google_streamReader \<Rightarrow> CompletionResponse option" where
  "google_Response s = gsr_response s"

section \<open>Properties of the stream readers\<close>

subsection \<open>After the end of the stream\<close>

text \<open>The results of \<open>n\<close> successive calls of a reader's \<^verbatim>\<open>Next\<close>, from a given state.
  A panic or a call that does not return ends the sequence.\<close>

fun successive :: "('s \<Rightarrow> next_result \<times> 's) \<Rightarrow> nat \<Rightarrow> 's \<Rightarrow> next_result list" where
  "successive nxt 0 s = []"
| "successive nxt (Suc n) s =
     (case nxt s of
        (r, s') \<Rightarrow> r # (if r = Panic \<or> r = Hangs then [] else successive nxt n s'))"

text \<open>A result that ends the stream: the Done event, or "stream complete" (which the SSE
  readers return when they reach the end of the body).\<close>

definition terminal :: "next_result \<Rightarrow> bool" where
  "terminal r = (case r of Event e \<Rightarrow> ev_Type e = StreamEventDone | StreamComplete \<Rightarrow> True | _ \<Rightarrow> False)"

definition quiet_after_end :: "next_result list \<Rightarrow> bool" where
  "quiet_after_end rs =
     (\<forall>i j. i < j \<and> j < length rs \<and> terminal (rs ! i) \<longrightarrow> rs ! j = StreamComplete)"

lemma successive_done:
  assumes stay: "\<And>s. D s \<Longrightarrow> nxt s = (StreamComplete, s)"
  shows "D s \<Longrightarrow> k < length (successive nxt n s) \<Longrightarrow> successive nxt n s ! k = StreamComplete"
proof (induction n arbitrary: k)
  case 0
  then show ?case by simp
next
  case (Suc n)
  show ?case
  proof (cases k)
    case 0
    with Suc.prems stay [of s] show ?thesis by simp
  next
    case (Suc k')
    with Suc.prems stay [of s] Suc.IH [of k'] show ?thesis by simp
  qed
qed

lemma successive_quiet:
  assumes stay: "\<And>s. D s \<Longrightarrow> nxt s = (StreamComplete, s)"
    and enter: "\<And>s r s'. nxt s = (r, s') \<Longrightarrow> terminal r \<Longrightarrow> D s'"
  shows "quiet_after_end (successive nxt n s)"
  unfolding quiet_after_end_def
proof (induction n arbitrary: s)
  case 0
  show ?case by simp
next
  case (Suc n)
  obtain r s' where step: "nxt s = (r, s')" by (cases "nxt s")
  show ?case
  proof (intro allI impI)
    fix i j
    assume a: "i < j \<and> j < length (successive nxt (Suc n) s) \<and> terminal (successive nxt (Suc n) s ! i)"
    then obtain j' where j: "j = Suc j'" by (cases j) auto
    from a step have live: "\<not> (r = Panic \<or> r = Hangs)" by (auto simp: j)
    show "successive nxt (Suc n) s ! j = StreamComplete"
    proof (cases i)
      case 0
      with a step have "terminal r" by simp
      then have "D s'" using enter [OF step] by simp
      from successive_done [of D nxt, OF stay this, of j' n] a step live
      show ?thesis by (simp add: j)
    next
      case (Suc i')
      with a step live j Suc.IH [of s'] show ?thesis by auto
    qed
  qed
qed

subsubsection \<open>OpenAI\<close>

lemma openai_buildResponse_done [simp]: "osr_done (openai_buildResponse env s) = osr_done s"
  by (simp add: openai_buildResponse_def Let_def split: prod.splits)

lemma openai_processToolCalls_type:
  "openai_processToolCalls tcs s = (Some e, s') \<Longrightarrow>
   ev_Type e = StreamEventToolCallStart \<or> ev_Type e = StreamEventToolCallDelta"
  by (induction tcs) (auto simp: Let_def StreamEvent0_def split: if_splits)

lemma openai_processChunk_type:
  "openai_processChunk chunk s = (Some e, s') \<Longrightarrow>
   ev_Type e = StreamEventContentDelta \<or> ev_Type e = StreamEventToolCallStart
     \<or> ev_Type e = StreamEventToolCallDelta"
  by (auto simp: openai_processChunk_def Let_def StreamEvent0_def
      split: list.splits if_splits dest: openai_processToolCalls_type)

lemma openai_scan_terminal:
  "openai_scan env ls s = (r, s') \<Longrightarrow> terminal r \<Longrightarrow> osr_done s'"
proof (induction ls arbitrary: s)
  case Nil
  then show ?case by (auto simp: terminal_def split: if_splits)
next
  case (Cons l ls)
  show ?case
  proof (cases "TrimSpace l = [] \<or> \<not> prefix ''data: '' (TrimSpace l)")
    case True
    with Cons show ?thesis by (auto simp: Let_def split: if_splits)
  next
    case False
    note line = this
    show ?thesis
    proof (cases "drop (length ''data: '') (TrimSpace l) = ''[DONE]''")
      case True
      with line Cons.prems show ?thesis by (auto simp: Let_def)
    next
      case False
      note nd = this
      show ?thesis
      proof (cases "oe_decode_chunk env (drop (length ''data: '') (TrimSpace l))")
        case None
        with line nd Cons show ?thesis by (auto simp: Let_def)
      next
        case (Some chunk)
        obtain ev s1 where pc: "openai_processChunk chunk s = (ev, s1)"
          by (cases "openai_processChunk chunk s")
        show ?thesis
        proof (cases ev)
          case None
          with line nd Some pc Cons show ?thesis by (auto simp: Let_def)
        next
          case (Some e)
          with pc openai_processChunk_type [of chunk s e s1] line nd
            \<open>oe_decode_chunk env (drop (length ''data: '') (TrimSpace l)) = Some chunk\<close> Cons.prems
          show ?thesis by (auto simp: Let_def terminal_def)
        qed
      qed
    qed
  qed
qed

lemma openai_Next_terminal: "openai_Next env s = (r, s') \<Longrightarrow> terminal r \<Longrightarrow> osr_done s'"
  by (auto simp: openai_Next_def split: if_splits dest: openai_scan_terminal)

lemma openai_Next_done: "osr_done s \<Longrightarrow> openai_Next env s = (StreamComplete, s)"
  by (simp add: openai_Next_def)


subsubsection \<open>Anthropic\<close>

lemma anthropic_buildResponse_done [simp]: "asr_done (anthropic_buildResponse s) = asr_done s"
  by (simp add: anthropic_buildResponse_def)

lemma anthropic_processEvent_Done:
  "anthropic_processEvent env eventType data s = Some (Some e, fin, s1) \<Longrightarrow>
   ev_Type e = StreamEventDone \<Longrightarrow> fin"
  by (auto simp: anthropic_processEvent_def Let_def StreamEvent0_def
      split: if_splits option.splits prod.splits)

lemma anthropic_pair_terminal:
  "anthropic_pair env line dataLine s = Return r s' \<Longrightarrow> terminal r \<Longrightarrow> asr_done s'"
  by (auto simp: anthropic_pair_def Let_def terminal_def
      split: if_splits option.splits prod.splits dest: anthropic_processEvent_Done)

lemma anthropic_scan_terminal:
  "anthropic_scan env ls s = (r, s') \<Longrightarrow> terminal r \<Longrightarrow> asr_done s'"
proof (induction env ls s rule: anthropic_scan.induct)
  case (1 env s)
  then show ?case by (auto simp: terminal_def split: if_splits)
next
  case (2 env l s)
  then show ?case
    by (auto simp: Let_def terminal_def split: if_splits anthropic_step.splits
        dest: anthropic_pair_terminal [unfolded terminal_def])
next
  case (3 env l d ls s)
  then show ?case
    by (auto simp: Let_def terminal_def split: if_splits anthropic_step.splits
        dest: anthropic_pair_terminal [unfolded terminal_def])
qed

lemma anthropic_Next_terminal: "anthropic_Next env s = (r, s') \<Longrightarrow> terminal r \<Longrightarrow> asr_done s'"
  by (auto simp: anthropic_Next_def split: if_splits dest: anthropic_scan_terminal)

lemma anthropic_Next_done: "asr_done s \<Longrightarrow> anthropic_Next env s = (StreamComplete, s)"
  by (simp add: anthropic_Next_def)

subsubsection \<open>Google\<close>

lemma google_finish_done: "google_finish s = (r, s') \<Longrightarrow> gsr_done s'"
  by (auto simp: google_finish_def google_buildResponse_def Let_def)

lemma google_processParts_type:
  "google_processParts parts s = (Some e, s') \<Longrightarrow>
   ev_Type e = StreamEventContentDelta \<or> ev_Type e = StreamEventToolCallStart"
  by (induction parts) (auto simp: Let_def StreamEvent0_def split: if_splits option.splits)

lemma google_processChunk_type:
  "google_processChunk chunk s = (Some e, s') \<Longrightarrow>
   ev_Type e = StreamEventContentDelta \<or> ev_Type e = StreamEventToolCallStart"
  by (auto simp: google_processChunk_def Let_def
      split: list.splits option.splits dest: google_processParts_type)

lemma google_scan_terminal:
  "google_scan elements s = (r, s') \<Longrightarrow> terminal r \<Longrightarrow> gsr_done s'"
proof (induction elements s rule: google_scan.induct)
  case (1 s)
  then show ?case by (auto dest: google_finish_done)
next
  case (2 chunk elements s)
  obtain ev s1 where pc: "google_processChunk chunk s = (ev, s1)"
    by (cases "google_processChunk chunk s")
  show ?case
  proof (cases ev)
    case None
    with pc 2 show ?thesis by auto
  next
    case (Some e)
    with pc google_processChunk_type [of chunk s e s1] "2.prems" show ?thesis
      by (auto simp: terminal_def)
  qed
next
  case (3 elements s)
  then show ?case by auto
next
  case (4 elements s)
  then show ?case by (auto dest: google_finish_done)
next
  case (5 elements s)
  then show ?case by (auto simp: terminal_def)
qed

lemma google_Next_terminal: "google_Next s = (r, s') \<Longrightarrow> terminal r \<Longrightarrow> gsr_done s'"
  by (auto simp: google_Next_def terminal_def StreamEvent0_def
      split: if_splits list.splits google_token.splits
      dest: google_scan_terminal [unfolded terminal_def] google_finish_done)

lemma google_Next_done: "gsr_done s \<Longrightarrow> google_Next s = (StreamComplete, s)"
  by (simp add: google_Next_def)

subsection \<open>Sample transcripts\<close>

text \<open>An OpenAI stream that says \<^verbatim>\<open>Hi\<close> and stops.\<close>

definition openai_payload1 :: string where
  \<open>openai_payload1 = ''{"id":"chatcmpl-1","model":"gpt-4o-mini","choices":[{"index":0,"delta":{"content":"Hi"}}]}''\<close>

definition openai_payload2 :: string where
  \<open>openai_payload2 = ''{"id":"chatcmpl-1","model":"gpt-4o-mini","choices":[{"index":0,"delta":{},"finish_reason":"stop"}]}''\<close>

definition openai_body :: string where
  "openai_body = concat (map (\<lambda>l. l @ [CHR 10])
     [''data: '' @ openai_payload1, [], ''data: '' @ openai_payload2, [], ''data: [DONE]'', []])"

definition openai_delta0 :: openai_MessageDelta where
  "openai_delta0 = \<lparr>omd_Role = [], omd_Content = [], omd_ToolCalls = []\<rparr>"

definition openai_chunk1 :: openai_StreamChunk where
  "openai_chunk1 = \<lparr>osk_ID = ''chatcmpl-1'', osk_Model = ''gpt-4o-mini'',
     osk_Choices = [\<lparr>osc_Index = 0, osc_Delta = openai_delta0\<lparr>omd_Content := ''Hi''\<rparr>,
                      osc_FinishReason = []\<rparr>],
     osk_Usage = None\<rparr>"

definition openai_chunk2 :: openai_StreamChunk where
  "openai_chunk2 = \<lparr>osk_ID = ''chatcmpl-1'', osk_Model = ''gpt-4o-mini'',
     osk_Choices = [\<lparr>osc_Index = 0, osc_Delta = openai_delta0, osc_FinishReason = ''stop''\<rparr>],
     osk_Usage = None\<rparr>"

text \<open>\<^verbatim>\<open>json.Unmarshal\<close> into \<^verbatim>\<open>any\<close> on the one argument string of the samples.\<close>

definition sample_unmarshal :: "string \<Rightarrow> json option" where
  \<open>sample_unmarshal args =
     (if args = ''{"location": "Paris"}'' then Some (JObj [(''location'', JStr ''Paris'')])
      else None)\<close>

text \<open>The decoders on the payloads of the sample transcript.\<close>

definition sample_openai_env :: openai_env where
  "sample_openai_env =
     \<lparr>oe_decode_chunk = (\<lambda>data. if data = openai_payload1 then Some openai_chunk1
                                 else if data = openai_payload2 then Some openai_chunk2
                                 else None),
      oe_unmarshal = sample_unmarshal,
      oe_range_order = (\<lambda>keys. keys)\<rparr>"


text \<open>An Anthropic stream with one tool call whose input arrives in two fragments, and
  the non-streaming response with the same content.\<close>

definition anthropic_payload_start :: string where
  \<open>anthropic_payload_start =
     ''{"type":"message_start","message":{"id":"msg_1","model":"claude-3-5-haiku-20241022","usage":{"input_tokens":10,"output_tokens":1}}}''\<close>

definition anthropic_payload_block :: string where
  \<open>anthropic_payload_block =
     ''{"type":"content_block_start","index":0,"content_block":{"type":"tool_use","id":"toolu_1","name":"get_weather","input":{}}}''\<close>

definition anthropic_payload_json1 :: string where
  \<open>anthropic_payload_json1 =
     ''{"type":"content_block_delta","index":0,"delta":{"type":"input_json_delta","partial_json":"{'' @ [CHR 0x5C] @ ''"location'' @ [CHR 0x5C] @ ''":"}}''\<close>

definition anthropic_payload_json2 :: string where
  \<open>anthropic_payload_json2 =
     ''{"type":"content_block_delta","index":0,"delta":{"type":"input_json_delta","partial_json":" '' @ [CHR 0x5C] @ ''"Paris'' @ [CHR 0x5C] @ ''"}"}}''\<close>

definition anthropic_payload_block_stop :: string where
  \<open>anthropic_payload_block_stop =
     ''{"type":"content_block_stop","index":0}''\<close>

definition anthropic_payload_delta :: string where
  \<open>anthropic_payload_delta =
     ''{"type":"message_delta","delta":{"stop_reason":"tool_use"},"usage":{"output_tokens":5}}''\<close>

definition anthropic_payload_stop :: string where
  \<open>anthropic_payload_stop =
     ''{"type":"message_stop"}''\<close>

definition anthropic_body :: string where
  "anthropic_body = concat (map (\<lambda>l. l @ [CHR 10])
     [''event: message_start'', ''data: '' @ anthropic_payload_start, [],
      ''event: content_block_start'', ''data: '' @ anthropic_payload_block, [],
      ''event: content_block_delta'', ''data: '' @ anthropic_payload_json1, [],
      ''event: content_block_delta'', ''data: '' @ anthropic_payload_json2, [],
      ''event: content_block_stop'', ''data: '' @ anthropic_payload_block_stop, [],
      ''event: message_delta'', ''data: '' @ anthropic_payload_delta, [],
      ''event: message_stop'', ''data: '' @ anthropic_payload_stop, []])"

definition anthropic_Usage0 :: anthropic_Usage where
  "anthropic_Usage0 = \<lparr>au_InputTokens = 0, au_OutputTokens = 0,
     au_CacheCreationInputTokens = 0, au_CacheReadInputTokens = 0\<rparr>"

definition anthropic_Delta0 :: anthropic_Delta where
  "anthropic_Delta0 = \<lparr>ad_Type = [], ad_Text = [], ad_PartialJSON = [], ad_StopReason = [],
     ad_StopSequence = []\<rparr>"

definition sample_anthropic_env :: anthropic_env where
  \<open>sample_anthropic_env =
     \<lparr>ae_message_start = (\<lambda>data.
        if data = anthropic_payload_start then
          Some \<lparr>ares_ID = ''msg_1'', ares_Type = [], ares_Role = [], ares_Content = [],
                 ares_Model = ''claude-3-5-haiku-20241022'', ares_StopReason = [],
                 ares_StopSequence = [],
                 ares_Usage = anthropic_Usage0\<lparr>au_InputTokens := 10, au_OutputTokens := 1\<rparr>\<rparr>
        else None),
      ae_content_block_start = (\<lambda>data.
        if data = anthropic_payload_block then
          Some (0, anthropic_ContentBlock0\<lparr>acb_Type := ''tool_use'', acb_ID := ''toolu_1'',
                     acb_Name := ''get_weather'', acb_Input := JObj []\<rparr>)
        else None),
      ae_content_block_delta = (\<lambda>data.
        if data = anthropic_payload_json1 then
          Some (0, anthropic_Delta0\<lparr>ad_Type := ''input_json_delta'',
                     ad_PartialJSON := ''{"location":''\<rparr>)
        else if data = anthropic_payload_json2 then
          Some (0, anthropic_Delta0\<lparr>ad_Type := ''input_json_delta'',
                     ad_PartialJSON := '' "Paris"}''\<rparr>)
        else None),
      ae_content_block_stop = (\<lambda>data.
        if data = anthropic_payload_block_stop then Some 0 else None),
      ae_message_delta = (\<lambda>data.
        if data = anthropic_payload_delta then
          Some (anthropic_Delta0\<lparr>ad_StopReason := ''tool_use''\<rparr>,
                anthropic_Usage0\<lparr>au_OutputTokens := 5\<rparr>)
        else None),
      ae_error = (\<lambda>data. None)\<rparr>\<close>

definition anthropic_message :: anthropic_MessagesResponse where
  "anthropic_message =
     \<lparr>ares_ID = ''msg_1'', ares_Type = ''message'', ares_Role = ''assistant'',
      ares_Content = [anthropic_ContentBlock0\<lparr>acb_Type := ''tool_use'', acb_ID := ''toolu_1'',
         acb_Name := ''get_weather'', acb_Input := JObj [(''location'', JStr ''Paris'')]\<rparr>],
      ares_Model = ''claude-3-5-haiku-20241022'', ares_StopReason = ''tool_use'',
      ares_StopSequence = [],
      ares_Usage = anthropic_Usage0\<lparr>au_InputTokens := 10, au_OutputTokens := 5\<rparr>\<rparr>"

text \<open>A Google stream of one chunk that says \<^verbatim>\<open>Hello\<close> and stops.\<close>

definition google_chunk1 :: google_StreamChunk where
  "google_chunk1 =
     \<lparr>gchunk_Candidates = [\<lparr>gcand_Content = Some \<lparr>gc_Role = ''model'',
           gc_Parts = [google_Part0\<lparr>gp_Text := ''Hello''\<rparr>]\<rparr>,
         gcand_FinishReason = ''STOP'', gcand_Index = 0\<rparr>],
      gchunk_UsageMetadata = Some \<lparr>gum_PromptTokenCount = 3, gum_CandidatesTokenCount = 1,
         gum_TotalTokenCount = 4\<rparr>\<rparr>"

definition google_reader0 :: google_streamReader where
  "google_reader0 = google_newStreamReader [TokenOpen] [Element google_chunk1] ''gemini-2.0-flash''"

text \<open>The state of a reader after \<open>n\<close> calls of \<^verbatim>\<open>Next\<close>, and the types of a sequence of
  results.\<close>

fun after_calls :: "('s \<Rightarrow> next_result \<times> 's) \<Rightarrow> nat \<Rightarrow> 's \<Rightarrow> 's" where
  "after_calls nxt 0 s = s"
| "after_calls nxt (Suc n) s = after_calls nxt n (snd (nxt s))"

definition result_type :: "next_result \<Rightarrow> string" where
  "result_type r =
     (case r of Event e \<Rightarrow> ev_Type e | StreamComplete \<Rightarrow> ''(complete)''
      | ReadError \<Rightarrow> ''(read error)'' | Panic \<Rightarrow> ''(panic)'' | Hangs \<Rightarrow> ''(no return)'')"


text \<open>The fragments of tool input that a sequence of results streams, concatenated in
  order.\<close>

definition tool_input_deltas :: "next_result list \<Rightarrow> string" where
  "tool_input_deltas rs =
     concat (map (\<lambda>r. case r of
                         Event e \<Rightarrow> if ev_Type e = StreamEventToolCallDelta
                                    then ev_ToolInputDelta e else []
                       | _ \<Rightarrow> []) rs)"

text \<open>
  \<^bold>\<open>Claim C8.\<close>  For each of the three readers, from any state and for any number of
  successive calls of \<^verbatim>\<open>Next\<close>: once a call has returned the Done event or "stream
  complete" (the end of the input), every later call returns "stream complete", so no
  further event is emitted.
\<close>

theorem readers_quiet_after_end:
  "quiet_after_end (successive (openai_Next oenv) n so)
   \<and> quiet_after_end (successive (anthropic_Next aenv) n sa)
   \<and> quiet_after_end (successive google_Next n sg)"
proof (intro conjI)
  show "quiet_after_end (successive (openai_Next oenv) n so)"
    by (rule successive_quiet [where D = osr_done])
       (auto intro: openai_Next_done openai_Next_terminal)
  show "quiet_after_end (successive (anthropic_Next aenv) n sa)"
    by (rule successive_quiet [where D = asr_done])
       (auto intro: anthropic_Next_done anthropic_Next_terminal)
  show "quiet_after_end (successive google_Next n sg)"
    by (rule successive_quiet [where D = gsr_done])
       (auto intro: google_Next_done google_Next_terminal)
qed

lemma openai_trace:
  "map result_type (successive (openai_Next sample_openai_env) 4
      (openai_newStreamReader openai_body False))
   = [StreamEventContentDelta, StreamEventDone, ''(complete)'', ''(complete)'']"
  by code_simp

lemma anthropic_trace:
  "map result_type (successive (anthropic_Next sample_anthropic_env) 8
      (anthropic_newStreamReader anthropic_body False))
   = [StreamEventStart, StreamEventToolCallStart, StreamEventToolCallDelta,
      StreamEventToolCallDelta, StreamEventToolCallEnd, StreamEventDone,
      ''(complete)'', ''(complete)'']"
  by code_simp

lemma google_trace:
  "map result_type (successive google_Next 5 google_reader0)
   = [StreamEventStart, StreamEventContentDelta, StreamEventDone, ''(complete)'', ''(complete)'']"
  by code_simp

theorem readers_quiet_after_end_witness:
  "map result_type (successive (openai_Next sample_openai_env) 4
      (openai_newStreamReader openai_body False))
     = [StreamEventContentDelta, StreamEventDone, ''(complete)'', ''(complete)'']
   \<and> quiet_after_end (successive (openai_Next sample_openai_env) 4
         (openai_newStreamReader openai_body False))
   \<and> map result_type (successive (anthropic_Next sample_anthropic_env) 8
         (anthropic_newStreamReader anthropic_body False))
     = [StreamEventStart, StreamEventToolCallStart, StreamEventToolCallDelta,
        StreamEventToolCallDelta, StreamEventToolCallEnd, StreamEventDone,
        ''(complete)'', ''(complete)'']
   \<and> quiet_after_end (successive (anthropic_Next sample_anthropic_env) 8
         (anthropic_newStreamReader anthropic_body False))
   \<and> map result_type (successive google_Next 5 google_reader0)
     = [StreamEventStart, StreamEventContentDelta, StreamEventDone, ''(complete)'', ''(complete)'']
   \<and> quiet_after_end (successive google_Next 5 google_reader0)"
  using openai_trace anthropic_trace google_trace
    readers_quiet_after_end [of sample_openai_env 4 "openai_newStreamReader openai_body False"
      sample_anthropic_env "anthropic_newStreamReader anthropic_body False"]
    readers_quiet_after_end [of sample_openai_env 5 "openai_newStreamReader openai_body False"
      sample_anthropic_env "anthropic_newStreamReader anthropic_body False" google_reader0]
    readers_quiet_after_end [of sample_openai_env 8 "openai_newStreamReader openai_body False"
      sample_anthropic_env "anthropic_newStreamReader anthropic_body False"]
  by blast

subsection \<open>The first event\<close>

text \<open>The OpenAI reader has no Start event: whatever the transcript, no call of
  \<^verbatim>\<open>Next\<close> returns one.\<close>

lemma openai_Next_never_Start:
  "openai_Next env s = (Event e, s') \<Longrightarrow> ev_Type e \<noteq> StreamEventStart"
proof -
  have scan: "openai_scan env ls s = (Event e, s') \<Longrightarrow> ev_Type e \<noteq> StreamEventStart" for ls s
  proof (induction ls arbitrary: s)
    case Nil
    then show ?case by (auto split: if_splits)
  next
    case (Cons l ls)
    then show ?case
      by (auto simp: Let_def StreamEvent0_def split: if_splits option.splits prod.splits
          dest!: openai_processChunk_type)
  qed
  show "openai_Next env s = (Event e, s') \<Longrightarrow> ev_Type e \<noteq> StreamEventStart"
    by (auto simp: openai_Next_def split: if_splits dest: scan)
qed

text \<open>
  \<^bold>\<open>Claim C4.\<close>  The first event of every reader should be a Start event.  The Google
  reader starts with one and the Anthropic reader emits one for \<^verbatim>\<open>message_start\<close>, but on
  the OpenAI sample transcript the first call of \<^verbatim>\<open>Next\<close> returns the ContentDelta event
  for \<^verbatim>\<open>Hi\<close>.
\<close>

theorem openai_first_event_is_content_delta:
  "fst (openai_Next sample_openai_env (openai_newStreamReader openai_body False))
     = Event (StreamEvent0\<lparr>ev_Type := StreamEventContentDelta,
          ev_Delta := Some (ContentBlock0\<lparr>cb_Type := ContentTypeText, cb_Text := ''Hi''\<rparr>),
          ev_Index := 0\<rparr>)"
  by code_simp

subsection \<open>The reconstructed response\<close>

text \<open>
  \<^bold>\<open>Claim C1.\<close>  After a stream has ended, \<^verbatim>\<open>Response()\<close> should equal what the
  non-streaming transformer gives for the same content.  On the Anthropic sample
  transcript (one tool call with input \<^verbatim>\<open>{"location": "Paris"}\<close>, 10 input and 5 output
  tokens) the reader's response has a nil tool input, in the content block and in the
  tool call, and its usage counts 0 input, 5 output and 0 total tokens;
  \<^verbatim>\<open>TransformResponse\<close> on the message with the same content keeps the input and counts
  10, 5 and 15.
\<close>

theorem anthropic_stream_response_differs:
  "anthropic_Response (after_calls (anthropic_Next sample_anthropic_env) 6
      (anthropic_newStreamReader anthropic_body False))
     = Some \<lparr>resp_ID = ''msg_1'', resp_Provider = ProviderAnthropic,
         resp_Model = ''claude-3-5-haiku-20241022'',
         resp_Content = [ContentBlock0\<lparr>cb_Type := ContentTypeToolUse, cb_ToolUseID := ''toolu_1'',
            cb_ToolName := ''get_weather'', cb_ToolInput := JNull\<rparr>],
         resp_StopReason = StopReasonToolUse,
         resp_Usage = Usage0\<lparr>OutputTokens := 5\<rparr>,
         resp_ToolCalls = [\<lparr>tc_ID = ''toolu_1'', tc_Name = ''get_weather'', tc_Input = JNull\<rparr>]\<rparr>
   \<and> anthropic_TransformResponse anthropic_message
     = \<lparr>resp_ID = ''msg_1'', resp_Provider = ProviderAnthropic,
         resp_Model = ''claude-3-5-haiku-20241022'',
         resp_Content = [ContentBlock0\<lparr>cb_Type := ContentTypeToolUse, cb_ToolUseID := ''toolu_1'',
            cb_ToolName := ''get_weather'',
            cb_ToolInput := JObj [(''location'', JStr ''Paris'')]\<rparr>],
         resp_StopReason = StopReasonToolUse,
         resp_Usage = Usage0\<lparr>InputTokens := 10, OutputTokens := 5, TotalTokens := 15\<rparr>,
         resp_ToolCalls = [\<lparr>tc_ID = ''toolu_1'', tc_Name = ''get_weather'',
            tc_Input = JObj [(''location'', JStr ''Paris'')]\<rparr>]\<rparr>"
  by code_simp

subsection \<open>Streamed tool input\<close>

text \<open>
  \<^bold>\<open>Claim C3.\<close>  The concatenated ToolCallDelta fragments of a tool call, parsed as
  JSON, should equal the tool call's input in \<^verbatim>\<open>Response()\<close>.  On the Anthropic sample
  transcript the fragments concatenate to \<^verbatim>\<open>{"location": "Paris"}\<close>, which parses to an
  object, while the input of the one tool call in \<^verbatim>\<open>Response()\<close> is nil: the reader
  emits the fragments and never accumulates them.
\<close>

theorem anthropic_tool_input_lost:
  \<open>tool_input_deltas (successive (anthropic_Next sample_anthropic_env) 8
      (anthropic_newStreamReader anthropic_body False)) = ''{"location": "Paris"}''
   \<and> sample_unmarshal ''{"location": "Paris"}'' = Some (JObj [(''location'', JStr ''Paris'')])
   \<and> map_option (\<lambda>r. map tc_Input (resp_ToolCalls r))
        (anthropic_Response (after_calls (anthropic_Next sample_anthropic_env) 8
           (anthropic_newStreamReader anthropic_body False))) = Some [JNull]\<close>
  by code_simp

section \<open>Listing batches\<close>





abbreviation "RuneError \<equiv> 65533 :: int"


















subsection \<open>Encoding and decoding\<close>










lemma mod_bounds: "0 \<le> (r::int) mod 64 \<and> r mod 64 < 64"
  by simp


















subsection \<open>The limit in the URL\<close>




end
